theory Spec2Isabelle
  imports Main "HOL-Library.Word"
begin

unbundle bit_operations_syntax

section \<open>Machine integers and sentinels\<close>

type_synonym u8 = "8 word"
type_synonym u32 = "32 word"
type_synonym u64 = "64 word"

definition UINT64_MAX :: u64 where
  "UINT64_MAX = - 1"

definition UINT32_MAX :: u32 where
  "UINT32_MAX = - 1"

section \<open>BPSec policy engine (BpSecPolicyManager.cpp)\<close>

subsection \<open>Policies, roles and the policy filter trie\<close>

datatype cbhe_eid_t = cbhe_eid_t (nodeId: u64) (serviceId: u64)

datatype BPSEC_ROLE = SOURCE | VERIFIER | ACCEPTOR | RESERVED_MAX_ROLE_TYPES

text \<open>The enumerators of \<open>BPSEC_ROLE\<close> in declaration order; the source casts a role to
  \<open>std::size_t\<close> and compares it with \<open>RESERVED_MAX_ROLE_TYPES\<close>.\<close>

fun roleIndex :: "BPSEC_ROLE \<Rightarrow> nat" where
  "roleIndex SOURCE = 0"
| "roleIndex VERIFIER = 1"
| "roleIndex ACCEPTOR = 2"
| "roleIndex RESERVED_MAX_ROLE_TYPES = 3"

datatype BPSEC_SECURITY_FAILURE_EVENT =
    UNDEFINED
  | SECURITY_OPERATION_CORRUPTED_AT_ACCEPTOR
  | SECURITY_OPERATION_MISCONFIGURED_AT_ACCEPTOR
  | SECURITY_OPERATION_CORRUPTED_AT_VERIFIER
  | SECURITY_OPERATION_MISCONFIGURED_AT_VERIFIER

text \<open>\<open>BPSEC_SECURITY_FAILURE_PROCESSING_ACTION_MASKS\<close> is a bit mask; the source only
  tests single bits of it against \<open>NO_ACTIONS_SET\<close>, so a mask is the set of its bits.\<close>

datatype BPSEC_ACTION =
    REMOVE_SECURITY_OPERATION
  | REMOVE_SECURITY_OPERATION_TARGET_BLOCK
  | FAIL_BUNDLE_FORWARDING

type_synonym action_mask_t = "BPSEC_ACTION set"

text \<open>\<open>m_eventTypeToEventSetPtrLut\<close>: one pointer per event, null when the event set has
  no entry for the event, else the entry with its \<open>m_actionMasks\<close>.\<close>

type_synonym event_type_to_event_set_ptr_lut_t =
  "BPSEC_SECURITY_FAILURE_EVENT \<Rightarrow> action_mask_t option"

datatype COSE_ALGORITHMS = HMAC_256_256 | HMAC_384_384 | HMAC_512_512 | A128GCM | A256GCM

text \<open>A FragmentSet: the ordered set of closed ranges \<open>(beginIndex, endIndex)\<close> of block
  type codes.\<close>

type_synonym data_fragment_set_t = "(nat \<times> nat) list"

record BpSecPolicy =
  m_doIntegrity :: bool
  m_doConfidentiality :: bool
  m_bcbTargetsPayloadBlock :: bool
  m_bibMustBeEncrypted :: bool
  m_integrityVariant :: COSE_ALGORITHMS
  m_integrityScopeMask :: nat
  m_bibCrcType :: nat
  m_bibBlockTypeTargets :: data_fragment_set_t
  m_hmacKeyEncryptionKey :: "u8 list"
  m_hmacKey :: "u8 list"
  m_integritySecurityFailureEventSetReferencePtr :: "event_type_to_event_set_ptr_lut_t option"
  m_confidentialityVariant :: COSE_ALGORITHMS
  m_use12ByteIv :: bool
  m_aadScopeMask :: nat
  m_bcbCrcType :: nat
  m_bcbBlockTypeTargets :: data_fragment_set_t
  m_confidentialityKeyEncryptionKey :: "u8 list"
  m_dataEncryptionKey :: "u8 list"
  m_confidentialitySecurityFailureEventSetReferencePtr :: "event_type_to_event_set_ptr_lut_t option"

text \<open>The constructor \<open>BpSecPolicy::BpSecPolicy()\<close>; both scope masks start with
  \<open>ALL_FLAGS_SET\<close>, whose values are 7 for the BIB and 7 for the BCB in RFC 9173.\<close>

definition BpSecPolicy_default :: BpSecPolicy where
  "BpSecPolicy_default = \<lparr>
     m_doIntegrity = False,
     m_doConfidentiality = False,
     m_bcbTargetsPayloadBlock = False,
     m_bibMustBeEncrypted = False,
     m_integrityVariant = HMAC_384_384,
     m_integrityScopeMask = 7,
     m_bibCrcType = 0,
     m_bibBlockTypeTargets = [],
     m_hmacKeyEncryptionKey = [],
     m_hmacKey = [],
     m_integritySecurityFailureEventSetReferencePtr = None,
     m_confidentialityVariant = A256GCM,
     m_use12ByteIv = True,
     m_aadScopeMask = 7,
     m_bcbCrcType = 0,
     m_bcbBlockTypeTargets = [],
     m_confidentialityKeyEncryptionKey = [],
     m_dataEncryptionKey = [],
     m_confidentialitySecurityFailureEventSetReferencePtr = None \<rparr>"

text \<open>\<open>BpSecPolicyFilter\<close>: one node of the trie. The two \<open>std::map\<close>s are association
  lists read with \<open>map_of\<close>, the \<open>unique_ptr\<close> is an option, and the array of shared
  pointers indexed by role is a function from the role (null is \<open>None\<close>).\<close>

datatype BpSecPolicyFilter = BpSecPolicyFilter
  (m_eidToNextFilterMap: "(cbhe_eid_t \<times> BpSecPolicyFilter) list")
  (m_nodeIdToNextFilterMap: "(u64 \<times> BpSecPolicyFilter) list")
  (m_anyEidToNextFilterPtr: "BpSecPolicyFilter option")
  (m_policiesByRoleArray: "BPSEC_ROLE \<Rightarrow> BpSecPolicy option")

definition BpSecPolicyFilter_empty :: BpSecPolicyFilter where
  "BpSecPolicyFilter_empty = BpSecPolicyFilter [] [] None (\<lambda>_. None)"

record BpSecPolicyManager =
  m_policyFilterSecuritySource :: BpSecPolicyFilter
  m_actionMaskSopMissingAtAcceptor :: action_mask_t

text \<open>An EID URI as \<open>Internal_AddPolicyFilterToThisFilter\<close> tells them apart: the string
  \<open>ipn:*.*\<close>, a URI that \<open>Uri::ParseIpnUriString\<close> accepts with a wildcard service
  (\<open>ipn:N.*\<close>), a fully qualified one (\<open>ipn:N.S\<close>), or one the parser rejects.\<close>

datatype eid_uri = ANY_URI | NODE_URI u64 | EID_URI u64 u64 | INVALID_URI

text \<open>\<open>std::map::operator[]\<close>: the value at the key, default constructed when absent.\<close>

definition map_index :: "('k \<times> BpSecPolicyFilter) list \<Rightarrow> 'k \<Rightarrow> BpSecPolicyFilter" where
  "map_index m k = (case map_of m k of Some v \<Rightarrow> v | None \<Rightarrow> BpSecPolicyFilter_empty)"

text \<open>Writing through the reference that \<open>operator[]\<close> returned.\<close>

definition map_store :: "('k \<times> BpSecPolicyFilter) list \<Rightarrow> 'k \<Rightarrow> BpSecPolicyFilter
    \<Rightarrow> ('k \<times> BpSecPolicyFilter) list" where
  "map_store m k v = (k, v) # filter (\<lambda>e. fst e \<noteq> k) m"

text \<open>\<open>Internal_AddPolicyFilterToThisFilter\<close> returns a pointer to the child filter for
  the URI, created empty when absent, or null for an invalid URI. The pointer is modelled
  by the pair of reading the child (\<open>AddPolicyFilter_get\<close>) and writing it back
  (\<open>AddPolicyFilter_put\<close>).\<close>

fun AddPolicyFilter_get :: "eid_uri \<Rightarrow> BpSecPolicyFilter \<Rightarrow> BpSecPolicyFilter option" where
  "AddPolicyFilter_get ANY_URI f =
     (case m_anyEidToNextFilterPtr f of
        None \<Rightarrow> Some BpSecPolicyFilter_empty
      | Some c \<Rightarrow> Some c)"
| "AddPolicyFilter_get (NODE_URI n) f = Some (map_index (m_nodeIdToNextFilterMap f) n)"
| "AddPolicyFilter_get (EID_URI n s) f = Some (map_index (m_eidToNextFilterMap f) (cbhe_eid_t n s))"
| "AddPolicyFilter_get INVALID_URI f = None"

fun AddPolicyFilter_put :: "eid_uri \<Rightarrow> BpSecPolicyFilter \<Rightarrow> BpSecPolicyFilter \<Rightarrow> BpSecPolicyFilter" where
  "AddPolicyFilter_put ANY_URI (BpSecPolicyFilter em nm a ps) c = BpSecPolicyFilter em nm (Some c) ps"
| "AddPolicyFilter_put (NODE_URI n) (BpSecPolicyFilter em nm a ps) c =
     BpSecPolicyFilter em (map_store nm n c) a ps"
| "AddPolicyFilter_put (EID_URI n s) (BpSecPolicyFilter em nm a ps) c =
     BpSecPolicyFilter (map_store em (cbhe_eid_t n s) c) nm a ps"
| "AddPolicyFilter_put INVALID_URI f c = f"

text \<open>\<open>BpSecPolicyManager::CreateOrGetNewPolicy\<close> followed by the caller's writes through
  the returned pointer (\<open>upd\<close>, as \<open>LoadFromConfig\<close> merges one half of a rule into the
  policy). \<open>None\<close> is the null return; otherwise the new manager, \<open>isNewPolicy\<close> and the
  policy as written. On a null return the source has already created the filters of the
  URIs that precede the rejected one, and \<open>LoadFromConfig\<close> fails; that manager is not
  represented here, and no property below goes through a null return.\<close>

definition CreateOrGetNewPolicy :: "BpSecPolicyManager \<Rightarrow> eid_uri \<Rightarrow> eid_uri \<Rightarrow> eid_uri
    \<Rightarrow> BPSEC_ROLE \<Rightarrow> (BpSecPolicy \<Rightarrow> BpSecPolicy)
    \<Rightarrow> (BpSecPolicyManager \<times> bool \<times> BpSecPolicy) option" where
  "CreateOrGetNewPolicy mgr securitySourceEidUri bundleSourceEidUri bundleFinalDestEidUri role upd =
     (let root = m_policyFilterSecuritySource mgr in
      case AddPolicyFilter_get securitySourceEidUri root of
        None \<Rightarrow> None
      | Some policyFilterBundleSource \<Rightarrow>
      (case AddPolicyFilter_get bundleSourceEidUri policyFilterBundleSource of
        None \<Rightarrow> None
      | Some policyFilterBundleFinalDest \<Rightarrow>
      (case AddPolicyFilter_get bundleFinalDestEidUri policyFilterBundleFinalDest of
        None \<Rightarrow> None
      | Some policyFilterRoleArrays \<Rightarrow>
        if roleIndex role \<ge> roleIndex RESERVED_MAX_ROLE_TYPES then None
        else
          let (isNewPolicy, policy) =
                (case m_policiesByRoleArray policyFilterRoleArrays role of
                   Some p \<Rightarrow> (False, p)
                 | None \<Rightarrow> (True, BpSecPolicy_default));
              written = upd policy;
              leaf = BpSecPolicyFilter
                (m_eidToNextFilterMap policyFilterRoleArrays)
                (m_nodeIdToNextFilterMap policyFilterRoleArrays)
                (m_anyEidToNextFilterPtr policyFilterRoleArrays)
                ((m_policiesByRoleArray policyFilterRoleArrays)(role := Some written));
              l2 = AddPolicyFilter_put bundleFinalDestEidUri policyFilterBundleFinalDest leaf;
              l1 = AddPolicyFilter_put bundleSourceEidUri policyFilterBundleSource l2;
              root' = AddPolicyFilter_put securitySourceEidUri root l1
          in Some (mgr\<lparr>m_policyFilterSecuritySource := root'\<rparr>, isNewPolicy, written))))"

text \<open>\<open>Internal_GetPolicyFilterFromThisFilter\<close>: the three lookups in the source's order.\<close>

definition Internal_GetPolicyFilterFromThisFilter ::
    "cbhe_eid_t \<Rightarrow> BpSecPolicyFilter \<Rightarrow> BpSecPolicyFilter option" where
  "Internal_GetPolicyFilterFromThisFilter eid thisPolicyFilter =
     (case map_of (m_eidToNextFilterMap thisPolicyFilter) eid of
        Some nxt \<Rightarrow> Some nxt
      | None \<Rightarrow>
     (case map_of (m_nodeIdToNextFilterMap thisPolicyFilter) (nodeId eid) of
        Some nxt \<Rightarrow> Some nxt
      | None \<Rightarrow> m_anyEidToNextFilterPtr thisPolicyFilter))"

definition FindPolicy :: "BpSecPolicyManager \<Rightarrow> cbhe_eid_t \<Rightarrow> cbhe_eid_t \<Rightarrow> cbhe_eid_t
    \<Rightarrow> BPSEC_ROLE \<Rightarrow> BpSecPolicy option" where
  "FindPolicy mgr securitySourceEid bundleSourceEid bundleFinalDestEid role =
     (case Internal_GetPolicyFilterFromThisFilter securitySourceEid (m_policyFilterSecuritySource mgr) of
        None \<Rightarrow> None
      | Some policyFilterBundleSource \<Rightarrow>
     (case Internal_GetPolicyFilterFromThisFilter bundleSourceEid policyFilterBundleSource of
        None \<Rightarrow> None
      | Some policyFilterBundleFinalDest \<Rightarrow>
     (case Internal_GetPolicyFilterFromThisFilter bundleFinalDestEid policyFilterBundleFinalDest of
        None \<Rightarrow> None
      | Some policyFilterRoleArrays \<Rightarrow>
        if roleIndex role \<ge> roleIndex RESERVED_MAX_ROLE_TYPES then None
        else m_policiesByRoleArray policyFilterRoleArrays role)))"

subsection \<open>The policy search cache\<close>

record PolicySearchCache =
  securitySourceEid :: cbhe_eid_t
  bundleSourceEid :: cbhe_eid_t
  bundleFinalDestEid :: cbhe_eid_t
  role :: BPSEC_ROLE
  wasCacheHit :: bool
  foundPolicy :: "BpSecPolicy option"

text \<open>The constructor \<open>PolicySearchCache::PolicySearchCache()\<close>.\<close>

definition PolicySearchCache_init :: PolicySearchCache where
  "PolicySearchCache_init = \<lparr>
     securitySourceEid = cbhe_eid_t 0 0,
     bundleSourceEid = cbhe_eid_t 0 0,
     bundleFinalDestEid = cbhe_eid_t 0 0,
     role = RESERVED_MAX_ROLE_TYPES,
     wasCacheHit = False,
     foundPolicy = None \<rparr>"

text \<open>\<open>FindPolicyWithCacheSupport\<close> returns the policy pointer and leaves the cache
  updated; the model returns both.\<close>

definition FindPolicyWithCacheSupport :: "BpSecPolicyManager \<Rightarrow> cbhe_eid_t \<Rightarrow> cbhe_eid_t
    \<Rightarrow> cbhe_eid_t \<Rightarrow> BPSEC_ROLE \<Rightarrow> PolicySearchCache
    \<Rightarrow> BpSecPolicy option \<times> PolicySearchCache" where
  "FindPolicyWithCacheSupport mgr ss bs fd r searchCache =
     (let c0 = searchCache\<lparr>wasCacheHit := False\<rparr> in
      if r = role c0 \<and> ss = securitySourceEid c0 \<and> bs = bundleSourceEid c0
         \<and> fd = bundleFinalDestEid c0
      then (case foundPolicy c0 of
              Some p \<Rightarrow> (Some p, c0\<lparr>wasCacheHit := True\<rparr>)
            | None \<Rightarrow> (None, c0))
      else
        let found = FindPolicy mgr ss bs fd r;
            c1 = c0\<lparr>foundPolicy := found, role := r, securitySourceEid := ss,
                    bundleSourceEid := bs, bundleFinalDestEid := fd\<rparr>
        in (found, c1))"

text \<open>A stream of lookups through one caller-owned cache: the results in order and the
  cache as the last lookup left it.\<close>

type_synonym policy_key = "cbhe_eid_t \<times> cbhe_eid_t \<times> cbhe_eid_t \<times> BPSEC_ROLE"

fun lookups_with_cache :: "BpSecPolicyManager \<Rightarrow> PolicySearchCache \<Rightarrow> policy_key list
    \<Rightarrow> BpSecPolicy option list \<times> PolicySearchCache" where
  "lookups_with_cache mgr c [] = ([], c)"
| "lookups_with_cache mgr c ((ss, bs, fd, r) # ks) =
     (let (res, c') = FindPolicyWithCacheSupport mgr ss bs fd r c;
          (rest, c'') = lookups_with_cache mgr c' ks
      in (res # rest, c''))"


subsection \<open>Bundle views\<close>

text \<open>A canonical block view of \<open>BundleViewV7\<close> with the header fields that the policy
  engine reads: block number and type code and, for a security block, the targets and
  results of its abstract security block. \<open>SetManuallyModified\<close> sets
  \<open>isManuallyModified\<close>.\<close>

record Bpv7CanonicalBlockView =
  m_blockNumber :: u64
  m_blockTypeCode :: u8
  markedForDeletion :: bool
  isManuallyModified :: bool
  m_securityTargets :: "u64 list"
  m_securityResults :: "nat list"

text \<open>\<open>m_listCanonicalBlockView\<close>, in the order of the bundle: the first entry is the
  block immediately after the primary block.\<close>

type_synonym BundleViewV7 = "Bpv7CanonicalBlockView list"

text \<open>The block type codes of RFC 9171 and RFC 9172 that the source names.\<close>

definition BPV7_BLOCK_TYPE_CODE_PAYLOAD :: nat where
  "BPV7_BLOCK_TYPE_CODE_PAYLOAD = 1"

definition BPV7_BLOCK_TYPE_CODE_INTEGRITY :: nat where
  "BPV7_BLOCK_TYPE_CODE_INTEGRITY = 11"

definition BPV7_BLOCK_TYPE_CODE_CONFIDENTIALITY :: nat where
  "BPV7_BLOCK_TYPE_CODE_CONFIDENTIALITY = 12"

text \<open>Modelled from the spec: \<open>BundleViewV7\<close> is not among the sources. The view supports
  lookup by block number (unique) and enumeration by block type code.\<close>

definition GetCanonicalBlocksByType :: "BundleViewV7 \<Rightarrow> u8 \<Rightarrow> Bpv7CanonicalBlockView list" where
  "GetCanonicalBlocksByType bv t = filter (\<lambda>b. m_blockTypeCode b = t) bv"

text \<open>Modelled from the spec: \<open>GetCanonicalBlockByBlockNumber\<close> followed by the write of
  \<open>markedForDeletion\<close> through the pointer it returns, when it is not null.\<close>

fun markBlockNumberForDeletion :: "u64 \<Rightarrow> BundleViewV7 \<Rightarrow> BundleViewV7" where
  "markBlockNumberForDeletion n [] = []"
| "markBlockNumberForDeletion n (b # bs) =
     (if m_blockNumber b = n then b\<lparr>markedForDeletion := True\<rparr> # bs
      else b # markBlockNumberForDeletion n bs)"

subsection \<open>Failure events\<close>

datatype BPSEC_ERROR_CODES = CORRUPTED | MISCONFIGURED | MISSING

record BpSecError =
  m_errorCode :: BPSEC_ERROR_CODES
  m_securityTargetIndex :: u64

datatype bpsec_fault =
    NullEventSetReference
  | SecurityTargetIndexOutOfRange
  | PlaceholderIndexOutOfRange
  | FrontOfEmptyBlockList
  | DanglingBlockReference

text \<open>\<open>vector::erase(begin() + i)\<close>.\<close>

definition erase_at :: "nat \<Rightarrow> 'a list \<Rightarrow> 'a list" where
  "erase_at i xs = take i xs @ drop (Suc i) xs"

definition RemoveSopByGreatestToLeastIndex :: "Bpv7CanonicalBlockView \<Rightarrow> u64
    \<Rightarrow> bool \<times> Bpv7CanonicalBlockView" where
  "RemoveSopByGreatestToLeastIndex asb i =
     (if i = UINT64_MAX then (True, asb\<lparr>markedForDeletion := True\<rparr>)
      else if length (m_securityTargets asb) \<noteq> length (m_securityResults asb) then (False, asb)
      else if unat i \<ge> length (m_securityTargets asb) then (False, asb)
      else
        let asb1 = asb\<lparr>m_securityTargets := erase_at (unat i) (m_securityTargets asb),
                       m_securityResults := erase_at (unat i) (m_securityResults asb)\<rparr>;
            asb2 = (if m_securityTargets asb1 = [] then asb1\<lparr>markedForDeletion := True\<rparr> else asb1)
        in (True, asb2\<lparr>isManuallyModified := True\<rparr>))"

text \<open>The security block is one of the views of the bundle; \<open>asbBlockView\<close> and \<open>asbPtr\<close>
  are its index \<open>a\<close> in the list.\<close>

definition RemoveSop :: "BundleViewV7 \<Rightarrow> nat \<Rightarrow> u64 \<Rightarrow> bool \<times> BundleViewV7" where
  "RemoveSop bv a i =
     (let (ok, asb) = RemoveSopByGreatestToLeastIndex (bv ! a) i in (ok, bv[a := asb]))"

definition RemoveSopTargetBlock :: "BundleViewV7 \<Rightarrow> nat \<Rightarrow> u64 \<Rightarrow> BundleViewV7" where
  "RemoveSopTargetBlock bv a canonicalIndex =
     (if canonicalIndex = UINT64_MAX
      then fold markBlockNumberForDeletion (m_securityTargets (bv ! a)) bv
      else markBlockNumberForDeletion canonicalIndex bv)"

text \<open>The body of the loop of \<open>DoFailureEvent\<close> for one error. \<open>Inr (False, _)\<close> is a
  \<open>return false\<close> (drop the bundle); \<open>Inr (True, bv)\<close> goes on to the next error.\<close>

definition DoFailureEvent_acceptor :: "BundleViewV7 \<Rightarrow> event_type_to_event_set_ptr_lut_t
    \<Rightarrow> BpSecError \<Rightarrow> nat \<Rightarrow> bool \<Rightarrow> u64 \<Rightarrow> bool \<times> BundleViewV7" where
  "DoFailureEvent_acceptor bv evtLut thisError a isIntegrity canonicalIndex =
     (let errorTargetsPayloadBlock = (canonicalIndex = 1 \<or> canonicalIndex = UINT64_MAX);
          idx = m_securityTargetIndex thisError
      in if \<not> isIntegrity \<and> errorTargetsPayloadBlock then (False, bv)
      else
        let (ok1, bv1) = (if \<not> isIntegrity then RemoveSop bv a idx else (True, bv))
        in if \<not> ok1 then (False, bv1)
        else
          let bv2 = (if \<not> isIntegrity then RemoveSopTargetBlock bv1 a canonicalIndex else bv1);
              removedSop = (\<not> isIntegrity);
              removedSopTarget = (\<not> isIntegrity);
              evt = (if m_errorCode thisError = CORRUPTED
                       then SECURITY_OPERATION_CORRUPTED_AT_ACCEPTOR
                     else if m_errorCode thisError = MISCONFIGURED
                       then SECURITY_OPERATION_MISCONFIGURED_AT_ACCEPTOR
                     else UNDEFINED)
          in case evtLut evt of
               None \<Rightarrow> (False, bv2)
             | Some actionMask \<Rightarrow>
                 let (ok3, bv3) = (if \<not> removedSop then RemoveSop bv2 a idx else (True, bv2))
                 in if \<not> ok3 then (False, bv3)
                 else if FAIL_BUNDLE_FORWARDING \<in> actionMask then (False, bv3)
                 else if REMOVE_SECURITY_OPERATION_TARGET_BLOCK \<in> actionMask then
                   (if errorTargetsPayloadBlock then (False, bv3)
                    else if \<not> removedSopTarget
                      then (True, RemoveSopTargetBlock bv3 a canonicalIndex)
                    else (True, bv3))
                 else (True, bv3))"

definition DoFailureEvent_verifier :: "BundleViewV7 \<Rightarrow> event_type_to_event_set_ptr_lut_t
    \<Rightarrow> BpSecError \<Rightarrow> nat \<Rightarrow> u64 \<Rightarrow> bool \<times> BundleViewV7" where
  "DoFailureEvent_verifier bv evtLut thisError a canonicalIndex =
     (let errorTargetsPayloadBlock = (canonicalIndex = 1 \<or> canonicalIndex = UINT64_MAX);
          idx = m_securityTargetIndex thisError;
          evt = (if m_errorCode thisError = CORRUPTED
                   then SECURITY_OPERATION_CORRUPTED_AT_VERIFIER
                 else if m_errorCode thisError = MISCONFIGURED
                   then SECURITY_OPERATION_MISCONFIGURED_AT_VERIFIER
                 else UNDEFINED)
      in case evtLut evt of
           None \<Rightarrow> (False, bv)
         | Some actionMask \<Rightarrow>
             let (ok1, bv1) = (if REMOVE_SECURITY_OPERATION \<in> actionMask
                               then RemoveSop bv a idx else (True, bv))
             in if \<not> ok1 then (False, bv1)
             else if FAIL_BUNDLE_FORWARDING \<in> actionMask then (False, bv1)
             else if REMOVE_SECURITY_OPERATION_TARGET_BLOCK \<in> actionMask then
               (if errorTargetsPayloadBlock then (False, bv1)
                else (True, RemoveSopTargetBlock bv1 a canonicalIndex))
             else (True, bv1))"

text \<open>\<open>DoFailureEvent\<close>: the loop over the error list. The result is \<open>dontDropBundle\<close> and
  the bundle view as the actions left it.\<close>

fun DoFailureEvent_errors :: "BundleViewV7 \<Rightarrow> event_type_to_event_set_ptr_lut_t
    \<Rightarrow> BpSecError list \<Rightarrow> nat \<Rightarrow> bool \<Rightarrow> bool \<Rightarrow> bpsec_fault + (bool \<times> BundleViewV7)" where
  "DoFailureEvent_errors bv evtLut [] a isAcceptor isIntegrity = Inr (True, bv)"
| "DoFailureEvent_errors bv evtLut (thisError # errs) a isAcceptor isIntegrity =
     (if a \<ge> length bv then Inl DanglingBlockReference
      else if m_securityTargetIndex thisError \<noteq> UINT64_MAX
              \<and> unat (m_securityTargetIndex thisError) \<ge> length (m_securityTargets (bv ! a))
        then Inl SecurityTargetIndexOutOfRange
      else
        let canonicalIndex = (if m_securityTargetIndex thisError = UINT64_MAX then UINT64_MAX
                              else m_securityTargets (bv ! a) ! unat (m_securityTargetIndex thisError));
            (continue, bv') = (if isAcceptor
                               then DoFailureEvent_acceptor bv evtLut thisError a isIntegrity canonicalIndex
                               else DoFailureEvent_verifier bv evtLut thisError a canonicalIndex)
        in if continue then DoFailureEvent_errors bv' evtLut errs a isAcceptor isIntegrity
           else Inr (False, bv'))"

definition DoFailureEvent :: "BundleViewV7 \<Rightarrow> BpSecPolicy \<Rightarrow> BpSecError list \<Rightarrow> nat
    \<Rightarrow> bool \<Rightarrow> bool \<Rightarrow> bpsec_fault + (bool \<times> BundleViewV7)" where
  "DoFailureEvent bv bpSecPolicy errorList a isAcceptor isIntegrity =
     (case (if isIntegrity then m_integritySecurityFailureEventSetReferencePtr bpSecPolicy
            else m_confidentialitySecurityFailureEventSetReferencePtr bpSecPolicy) of
        None \<Rightarrow> Inl NullEventSetReference
      | Some evtLut \<Rightarrow> DoFailureEvent_errors bv evtLut errorList a isAcceptor isIntegrity)"


subsection \<open>Outgoing bundles\<close>

text \<open>The part of \<open>BpSecPolicyProcessingContext\<close> that the security source uses; the
  state of the IV generator is \<open>'iv\<close>.\<close>

record 'iv BpSecPolicyProcessingContext =
  m_bibTargetBlockNumbers :: "u64 list"
  m_bcbTargetBlockNumbers :: "u64 list"
  m_bcbTargetBibBlockNumberPlaceholderIndex :: u64
  m_ivStruct :: 'iv

text \<open>The collaborators of \<open>ProcessOutgoingBundle\<close> that are not among the sources, as
  parameters: the two operations of the cryptographic bundle processor with the arguments
  the source passes (scope mask, variant, CRC type, security source, target block numbers,
  for the BCB the IV, key encryption key and key), \<open>None\<close> where the source gets
  \<open>false\<close>, and the IV generator.\<close>

record 'iv BpSecBundleProcessor =
  TryAddBundleIntegrity :: "BundleViewV7 \<Rightarrow> nat \<Rightarrow> COSE_ALGORITHMS \<Rightarrow> nat \<Rightarrow> cbhe_eid_t
     \<Rightarrow> u64 list \<Rightarrow> u8 list \<Rightarrow> u8 list \<Rightarrow> BundleViewV7 option"
  TryEncryptBundle :: "BundleViewV7 \<Rightarrow> nat \<Rightarrow> COSE_ALGORITHMS \<Rightarrow> nat \<Rightarrow> cbhe_eid_t
     \<Rightarrow> u64 list \<Rightarrow> u8 list \<Rightarrow> u8 list \<Rightarrow> u8 list \<Rightarrow> BundleViewV7 option"
  SerializeAndIncrement :: "'iv \<Rightarrow> bool \<Rightarrow> 'iv"
  m_initializationVector :: "'iv \<Rightarrow> u8 list"

text \<open>The block types of a fragment set in the order of the two nested loops: each
  fragment in turn, and in it \<open>beginIndex\<close> up to \<open>endIndex\<close>.\<close>

definition fragment_block_types :: "data_fragment_set_t \<Rightarrow> nat list" where
  "fragment_block_types fs = concat (map (\<lambda>(b, e). [b..<Suc e]) fs)"

text \<open>The block numbers of the blocks of one type; \<open>static_cast<BPV7_BLOCK_TYPE_CODE>\<close>
  keeps the low eight bits of the block type.\<close>

definition blockNumbersOfType :: "BundleViewV7 \<Rightarrow> nat \<Rightarrow> u64 list" where
  "blockNumbersOfType bv blockType =
     map m_blockNumber (GetCanonicalBlocksByType bv (word_of_nat blockType))"

text \<open>The loop over the confidentiality targets: the target block numbers so far and
  the placeholder index.\<close>

fun bcbTargets_loop :: "BundleViewV7 \<Rightarrow> nat list \<Rightarrow> u64 list \<Rightarrow> u64 \<Rightarrow> u64 list \<times> u64" where
  "bcbTargets_loop bv [] targets placeholder = (targets, placeholder)"
| "bcbTargets_loop bv (blockType # rest) targets placeholder =
     (if blockType = BPV7_BLOCK_TYPE_CODE_INTEGRITY
      then bcbTargets_loop bv rest (targets @ [0]) (word_of_nat (length targets))
      else bcbTargets_loop bv rest (targets @ blockNumbersOfType bv blockType) placeholder)"

definition PopulateTargetArraysForSecuritySource :: "BundleViewV7
    \<Rightarrow> 'iv BpSecPolicyProcessingContext \<Rightarrow> BpSecPolicy
    \<Rightarrow> bool \<times> 'iv BpSecPolicyProcessingContext" where
  "PopulateTargetArraysForSecuritySource bv ctx policy =
     (let bib = (if m_doIntegrity policy
                 then concat (map (blockNumbersOfType bv)
                        (fragment_block_types (m_bibBlockTypeTargets policy)))
                 else []);
          (bcb, placeholder) =
            (if m_doConfidentiality policy
             then bcbTargets_loop bv (fragment_block_types (m_bcbBlockTypeTargets policy))
                    [] UINT64_MAX
             else ([], UINT64_MAX))
      in (True, ctx\<lparr>m_bibTargetBlockNumbers := bib,
                     m_bcbTargetBlockNumbers := bcb,
                     m_bcbTargetBibBlockNumberPlaceholderIndex := placeholder\<rparr>))"

text \<open>\<open>ProcessOutgoingBundle\<close>: the return value, the bundle view and the context.\<close>

definition ProcessOutgoingBundle :: "'iv BpSecBundleProcessor \<Rightarrow> BundleViewV7
    \<Rightarrow> 'iv BpSecPolicyProcessingContext \<Rightarrow> BpSecPolicy \<Rightarrow> cbhe_eid_t
    \<Rightarrow> bpsec_fault + (bool \<times> BundleViewV7 \<times> 'iv BpSecPolicyProcessingContext)" where
  "ProcessOutgoingBundle proc bv ctx policy thisSecuritySourceEid =
     (let afterIntegrity =
            (if m_doIntegrity policy then
               (case TryAddBundleIntegrity proc bv (m_integrityScopeMask policy)
                       (m_integrityVariant policy) (m_bibCrcType policy) thisSecuritySourceEid
                       (m_bibTargetBlockNumbers ctx) (m_hmacKeyEncryptionKey policy)
                       (m_hmacKey policy) of
                  None \<Rightarrow> Inr (False, bv, ctx)
                | Some bv1 \<Rightarrow>
                    let ph = m_bcbTargetBibBlockNumberPlaceholderIndex ctx in
                    if ph \<noteq> UINT64_MAX then
                      (case bv1 of
                         [] \<Rightarrow> Inl FrontOfEmptyBlockList
                       | front # _ \<Rightarrow>
                           if unat ph \<ge> length (m_bcbTargetBlockNumbers ctx)
                           then Inl PlaceholderIndexOutOfRange
                           else Inr (True, bv1,
                                  ctx\<lparr>m_bcbTargetBlockNumbers :=
                                        (m_bcbTargetBlockNumbers ctx)[unat ph := m_blockNumber front]\<rparr>))
                    else Inr (True, bv1, ctx))
             else Inr (True, bv, ctx))
      in case afterIntegrity of
           Inl fault \<Rightarrow> Inl fault
         | Inr (False, bv1, ctx1) \<Rightarrow> Inr (False, bv1, ctx1)
         | Inr (True, bv1, ctx1) \<Rightarrow>
             if m_doConfidentiality policy then
               let ctx2 = ctx1\<lparr>m_ivStruct :=
                            SerializeAndIncrement proc (m_ivStruct ctx1) (m_use12ByteIv policy)\<rparr>
               in (case TryEncryptBundle proc bv1 (m_aadScopeMask policy)
                          (m_confidentialityVariant policy) (m_bcbCrcType policy)
                          thisSecuritySourceEid (m_bcbTargetBlockNumbers ctx2)
                          (m_initializationVector proc (m_ivStruct ctx2))
                          (m_confidentialityKeyEncryptionKey policy) (m_dataEncryptionKey policy) of
                     None \<Rightarrow> Inr (False, bv1, ctx2)
                   | Some bv2 \<Rightarrow> Inr (True, bv2, ctx2))
             else Inr (True, bv1, ctx1))"

subsection \<open>The lookup as the specification words it\<close>

text \<open>One level of the walk in the words of the specification: the exact EID first, then
  the node-only wildcard map, then the any-EID child.\<close>

definition cascading_fallback :: "cbhe_eid_t \<Rightarrow> BpSecPolicyFilter \<Rightarrow> BpSecPolicyFilter option" where
  "cascading_fallback eid f =
     (if eid \<in> fst ` set (m_eidToNextFilterMap f) then map_of (m_eidToNextFilterMap f) eid
      else if nodeId eid \<in> fst ` set (m_nodeIdToNextFilterMap f)
        then map_of (m_nodeIdToNextFilterMap f) (nodeId eid)
      else m_anyEidToNextFilterPtr f)"

text \<open>The terminal policy for a role, or nothing.\<close>

definition terminal_policy :: "BpSecPolicyFilter \<Rightarrow> BPSEC_ROLE \<Rightarrow> BpSecPolicy option" where
  "terminal_policy f r =
     (if r \<in> {SOURCE, VERIFIER, ACCEPTOR} then m_policiesByRoleArray f r else None)"

definition findPolicy_spec :: "BpSecPolicyManager \<Rightarrow> cbhe_eid_t \<Rightarrow> cbhe_eid_t \<Rightarrow> cbhe_eid_t
    \<Rightarrow> BPSEC_ROLE \<Rightarrow> BpSecPolicy option" where
  "findPolicy_spec mgr ss bs fd r =
     Option.bind (cascading_fallback ss (m_policyFilterSecuritySource mgr)) (\<lambda>f1.
     Option.bind (cascading_fallback bs f1) (\<lambda>f2.
     Option.bind (cascading_fallback fd f2) (\<lambda>f3. terminal_policy f3 r)))"

text \<open>The example of the specification: policies for \<open>ipn:1.1\<close>, \<open>ipn:1.*\<close> and
  \<open>ipn:*.*\<close>, loaded into an empty manager, each policy tagged by its scope mask.\<close>

definition policy_tagged :: "nat \<Rightarrow> BpSecPolicy \<Rightarrow> BpSecPolicy" where
  "policy_tagged n p = p\<lparr>m_doIntegrity := True, m_integrityScopeMask := n\<rparr>"

definition BpSecPolicyManager_empty :: BpSecPolicyManager where
  "BpSecPolicyManager_empty =
     \<lparr>m_policyFilterSecuritySource = BpSecPolicyFilter_empty,
      m_actionMaskSopMissingAtAcceptor = {}\<rparr>"

definition load_policy :: "BpSecPolicyManager \<Rightarrow> eid_uri \<Rightarrow> eid_uri \<Rightarrow> eid_uri \<Rightarrow> BPSEC_ROLE
    \<Rightarrow> (BpSecPolicy \<Rightarrow> BpSecPolicy) \<Rightarrow> BpSecPolicyManager" where
  "load_policy mgr u1 u2 u3 r upd =
     (case CreateOrGetNewPolicy mgr u1 u2 u3 r upd of None \<Rightarrow> mgr | Some (m, _, _) \<Rightarrow> m)"

definition cascade_example :: BpSecPolicyManager where
  "cascade_example =
     load_policy (load_policy (load_policy BpSecPolicyManager_empty
        (EID_URI 1 1) ANY_URI ANY_URI ACCEPTOR (policy_tagged 1))
        (NODE_URI 1) ANY_URI ANY_URI ACCEPTOR (policy_tagged 2))
        ANY_URI ANY_URI ANY_URI ACCEPTOR (policy_tagged 3)"

text \<open>A cache agrees with the trie when the result it holds is the one \<open>FindPolicy\<close>
  gives for the key it holds.\<close>

definition cache_consistent :: "BpSecPolicyManager \<Rightarrow> PolicySearchCache \<Rightarrow> bool" where
  "cache_consistent mgr c =
     (foundPolicy c = FindPolicy mgr (securitySourceEid c) (bundleSourceEid c)
                        (bundleFinalDestEid c) (role c))"

section \<open>Bundle store (BundleStorageManagerBase.cpp)\<close>

subsection \<open>Data model\<close>

type_synonym segment_id_t = u32
type_synonym abs_expiration_t = u64
type_synonym segment_id_chain_vec_t = "segment_id_t list"

text \<open>\<open>chain_info_t\<close>: the pair of \<open>bundleSizeBytes\<close> and the segment id chain.\<close>

type_synonym chain_info_t = "u64 \<times> segment_id_chain_vec_t"
type_synonym chain_info_flist_t = "chain_info_t list"

text \<open>\<open>expiration_map_t\<close> is a \<open>std::map\<close> from expiration to forward list, kept here
  as an association list in ascending key order, so that \<open>begin()\<close> is its head.\<close>

type_synonym expiration_map_t = "(abs_expiration_t \<times> chain_info_flist_t) list"

text \<open>\<open>priority_array_t\<close> is an array of \<open>NUMBER_OF_PRIORITIES\<close> expiration maps. It is
  a function from the index; every access in the model checks the index against
  \<open>NUMBER_OF_PRIORITIES\<close> first, and an access past the end is a fault.\<close>

type_synonym priority_array_t = "nat \<Rightarrow> expiration_map_t"
type_synonym destination_map_t = "u64 \<Rightarrow> priority_array_t option"

text \<open>Modelled from the spec: the header that defines \<open>NUMBER_OF_PRIORITIES\<close> is not
  among the sources; the catalog is indexed by \<open>priorityIndex[0..2]\<close> (bulk, normal,
  expedited), so the array has three entries.\<close>

definition NUMBER_OF_PRIORITIES :: nat where
  "NUMBER_OF_PRIORITIES = 3"

record bpv6_primary_block =
  version :: u8
  flags :: u64
  src_node :: u64
  src_svc :: u64
  dst_node :: u64
  dst_svc :: u64
  creation :: u64
  sequence :: u64
  lifetime :: u64

text \<open>One segment of a store file: the two header fields and the payload area. The
  reserved bytes between them are never read.\<close>

record segment =
  bundleSizeBytes :: u64
  nextSegmentId :: segment_id_t
  payload :: "u8 list"

record BundleStorageManagerSession_WriteToDisk =
  chainInfo :: chain_info_t
  nextLogicalSegment :: nat
  destLinkId :: u64
  priorityIndex :: nat
  absExpiration :: abs_expiration_t

text \<open>The read session. Its pointers into the catalog are kept as the place they point
  to: \<open>expirationMapPtr\<close> as destination and priority, \<open>chainInfoFlistPtr\<close> and
  \<open>expirationMapIterator\<close> as destination, priority and expiration.\<close>

record BundleStorageManagerSession_ReadFromDisk =
  r_chainInfo :: chain_info_t
  r_nextLogicalSegment :: nat
  r_nextLogicalSegmentToCache :: nat
  r_cacheReadIndex :: nat
  r_cacheWriteIndex :: nat
  r_readCache :: "segment list"
  r_readCacheIsSegmentReady :: "bool list"
  r_expirationMapPtr :: "(u64 \<times> nat) option"
  r_chainInfoFlistPtr :: "(u64 \<times> nat \<times> abs_expiration_t) option"
  r_absExpiration :: abs_expiration_t
  r_destLinkId :: u64
  r_priorityIndex :: nat

text \<open>What the source leaves undefined (an index past the end of an array or vector, the
  front of an empty list, a null pointer, a copy past the end of a buffer) or never
  returns from (a wait for a read that nobody completes) is a fault of the model.\<close>

datatype storage_fault =
    PriorityIndexOutOfBounds
  | ChainIndexOutOfBounds
  | FrontOfEmptyList
  | NullPointer
  | CopyPastSegmentEnd
  | ReadCacheIndexOutOfBounds
  | WaitsForever
  | DivisionByZero

subsection \<open>The segment memory manager\<close>

text \<open>Modelled from the spec: \<open>MemoryManagerTreeArray\<close> is not among the sources. It owns
  the free or used state of the segment ids in \<open>[0, MAX_SEGMENTS)\<close>; the tree of bitmaps
  is kept as the list of its leaves, \<open>True\<close> for a free segment. \<open>allocate(n)\<close> sets \<open>n\<close>
  free segments to used atomically, smallest id first, and fails when fewer than \<open>n\<close> are
  free; \<open>free(chain)\<close> returns segments to the free pool; \<open>isFree(id)\<close> inspects one;
  \<open>allocateSpecific(id)\<close> is unchecked; the backup is a snapshot of the bitmap.\<close>

type_synonym MemoryManagerTreeArray = "bool list"

definition MemoryManagerTreeArray_init :: "nat \<Rightarrow> MemoryManagerTreeArray" where
  "MemoryManagerTreeArray_init maxSegments = replicate maxSegments True"

definition free_segment_ids :: "MemoryManagerTreeArray \<Rightarrow> nat list" where
  "free_segment_ids mm = filter (\<lambda>i. mm ! i) [0..<length mm]"

definition set_used :: "nat list \<Rightarrow> MemoryManagerTreeArray \<Rightarrow> MemoryManagerTreeArray" where
  "set_used ids mm = fold (\<lambda>i m. m[i := False]) ids mm"

definition AllocateSegments_ThreadSafe :: "MemoryManagerTreeArray \<Rightarrow> nat
    \<Rightarrow> (MemoryManagerTreeArray \<times> segment_id_chain_vec_t) option" where
  "AllocateSegments_ThreadSafe mm n =
     (let free = free_segment_ids mm in
      if length free < n then None
      else Some (set_used (take n free) mm, map word_of_nat (take n free)))"

definition FreeSegments_ThreadSafe :: "MemoryManagerTreeArray \<Rightarrow> segment_id_chain_vec_t
    \<Rightarrow> bool \<times> MemoryManagerTreeArray" where
  "FreeSegments_ThreadSafe mm segmentVec =
     (list_all (\<lambda>sid. unat sid < length mm) segmentVec,
      fold (\<lambda>sid m. m[unat sid := True]) segmentVec mm)"

definition IsSegmentFree :: "MemoryManagerTreeArray \<Rightarrow> segment_id_t \<Rightarrow> bool" where
  "IsSegmentFree mm sid = (unat sid < length mm \<and> mm ! unat sid)"

definition AllocateSegmentId_NoCheck_NotThreadSafe :: "MemoryManagerTreeArray \<Rightarrow> segment_id_t
    \<Rightarrow> MemoryManagerTreeArray" where
  "AllocateSegmentId_NoCheck_NotThreadSafe mm sid = mm[unat sid := False]"

definition BackupDataToVector :: "MemoryManagerTreeArray \<Rightarrow> bool list" where
  "BackupDataToVector mm = mm"

definition IsBackupEqual :: "MemoryManagerTreeArray \<Rightarrow> bool list \<Rightarrow> bool" where
  "IsBackupEqual mm backup = (mm = backup)"

subsection \<open>The store\<close>

text \<open>The manager's state: the memory manager, the catalog \<open>m_destMap\<close> and the store
  files. A segment id names one place of one file (file \<open>segmentId mod D\<close>, offset
  \<open>segmentId div D\<close> segments), so the \<open>D\<close> files are one map from segment id to the
  segment written there. The ring buffers and the disk threads are not modelled: a
  write takes effect when it is committed to the ring and a read returns what the file
  holds then, which is the order the single producer of each ring gives them.\<close>

record BundleStorageManagerBase =
  m_memoryManager :: MemoryManagerTreeArray
  m_destMap :: destination_map_t
  m_storeFiles :: "segment_id_t \<Rightarrow> segment option"

definition totalSegmentsRequired :: "nat \<Rightarrow> u64 \<Rightarrow> nat" where
  "totalSegmentsRequired BUNDLE_STORAGE_PER_SEGMENT_SIZE sz =
     unat sz div BUNDLE_STORAGE_PER_SEGMENT_SIZE
       + (if unat sz mod BUNDLE_STORAGE_PER_SEGMENT_SIZE = 0 then 0 else 1)"

text \<open>\<open>Push\<close>. The payload size of a segment, \<open>BUNDLE_STORAGE_PER_SEGMENT_SIZE\<close>, is a
  constant of a header that is not among the sources and is a parameter here. The result
  is the return value, the manager and the session.\<close>

definition Push :: "nat \<Rightarrow> BundleStorageManagerBase \<Rightarrow> BundleStorageManagerSession_WriteToDisk
    \<Rightarrow> bpv6_primary_block \<Rightarrow> u64
    \<Rightarrow> nat \<times> BundleStorageManagerBase \<times> BundleStorageManagerSession_WriteToDisk" where
  "Push BUNDLE_STORAGE_PER_SEGMENT_SIZE st session bundlePrimaryBlock sz =
     (let total = totalSegmentsRequired BUNDLE_STORAGE_PER_SEGMENT_SIZE sz;
          session1 = session\<lparr>
            chainInfo := (sz, replicate total 0),
            nextLogicalSegment := 0,
            destLinkId := dst_node bundlePrimaryBlock,
            priorityIndex := unat (drop_bit 7 (flags bundlePrimaryBlock) AND 3),
            absExpiration := creation bundlePrimaryBlock + lifetime bundlePrimaryBlock\<rparr>
      in case AllocateSegments_ThreadSafe (m_memoryManager st) total of
           Some (mm, ids) \<Rightarrow>
             (total, st\<lparr>m_memoryManager := mm\<rparr>, session1\<lparr>chainInfo := (sz, ids)\<rparr>)
         | None \<Rightarrow> (0, st, session1))"

text \<open>\<open>expirationMap[absExpiration].push_front(chainInfo)\<close> on the ordered map.\<close>

fun expirationMap_push_front :: "expiration_map_t \<Rightarrow> abs_expiration_t \<Rightarrow> chain_info_t
    \<Rightarrow> expiration_map_t" where
  "expirationMap_push_front [] e c = [(e, [c])]"
| "expirationMap_push_front ((e', l) # m) e c =
     (if e = e' then (e', c # l) # m
      else if e < e' then (e, [c]) # (e', l) # m
      else (e', l) # expirationMap_push_front m e c)"

text \<open>\<open>m_destMap[destLinkId]\<close>: created if it does not exist.\<close>

definition destMap_index :: "destination_map_t \<Rightarrow> u64 \<Rightarrow> priority_array_t" where
  "destMap_index dm d = (case dm d of Some a \<Rightarrow> a | None \<Rightarrow> (\<lambda>_. []))"

definition catalog_push_front :: "destination_map_t \<Rightarrow> u64 \<Rightarrow> nat \<Rightarrow> abs_expiration_t
    \<Rightarrow> chain_info_t \<Rightarrow> destination_map_t" where
  "catalog_push_front dm d p e c =
     (let priorityArray = destMap_index dm d
      in dm(d \<mapsto> priorityArray(p := expirationMap_push_front (priorityArray p) e c)))"

text \<open>\<open>PushSegment\<close>. \<open>buf\<close> is the caller's buffer of \<open>size\<close> bytes; \<open>slot\<close> is what the
  slot of the ring buffer held before, of which \<open>memcpy\<close> overwrites the two header
  fields and the first \<open>size\<close> payload bytes. After \<open>std::move\<close> the session keeps the
  size and an empty chain.\<close>

definition PushSegment :: "nat \<Rightarrow> BundleStorageManagerBase
    \<Rightarrow> BundleStorageManagerSession_WriteToDisk \<Rightarrow> u8 list \<Rightarrow> segment
    \<Rightarrow> storage_fault + (nat \<times> BundleStorageManagerBase \<times> BundleStorageManagerSession_WriteToDisk)" where
  "PushSegment BUNDLE_STORAGE_PER_SEGMENT_SIZE st session buf slot =
     (let segmentIdChainVec = snd (chainInfo session);
          n = nextLogicalSegment session
      in if n \<ge> length segmentIdChainVec then Inr (0, st, session)
      else
        let sz = (if n = 0 then fst (chainInfo session) else UINT64_MAX);
            segmentId = segmentIdChainVec ! n;
            n' = n + 1;
            nxt = (if n' = length segmentIdChainVec then UINT32_MAX else segmentIdChainVec ! n')
        in if length buf > BUNDLE_STORAGE_PER_SEGMENT_SIZE then Inl CopyPastSegmentEnd
        else
          let written = \<lparr>bundleSizeBytes = sz, nextSegmentId = nxt,
                         payload = buf @ drop (length buf) (payload slot)\<rparr>;
              st1 = st\<lparr>m_storeFiles := (m_storeFiles st)(segmentId \<mapsto> written)\<rparr>
          in if n' = length segmentIdChainVec then
               if priorityIndex session \<ge> NUMBER_OF_PRIORITIES then Inl PriorityIndexOutOfBounds
               else Inr (1,
                 st1\<lparr>m_destMap := catalog_push_front (m_destMap st1) (destLinkId session)
                        (priorityIndex session) (absExpiration session) (chainInfo session)\<rparr>,
                 session\<lparr>nextLogicalSegment := n', chainInfo := (fst (chainInfo session), [])\<rparr>)
             else Inr (1, st1, session\<lparr>nextLogicalSegment := n'\<rparr>))"

text \<open>\<open>PopTop\<close>, first loop: the priority arrays of the available links that the
  catalog knows, with their link ids.\<close>

definition priorityArrayPtrs :: "destination_map_t \<Rightarrow> u64 list \<Rightarrow> (u64 \<times> priority_array_t) list" where
  "priorityArrayPtrs dm availableDestLinks =
     concat (map (\<lambda>l. case dm l of Some a \<Rightarrow> [(l, a)] | None \<Rightarrow> []) availableDestLinks)"

text \<open>The loop over \<open>j\<close> at priority \<open>i\<close>: \<open>lowestExpiration\<close> and the selection made so
  far (link, expiration and the forward list at \<open>begin()\<close>).\<close>

fun lowestExpiration_scan :: "nat \<Rightarrow> (u64 \<times> priority_array_t) list \<Rightarrow> abs_expiration_t
    \<Rightarrow> (u64 \<times> abs_expiration_t \<times> chain_info_flist_t) option
    \<Rightarrow> abs_expiration_t \<times> (u64 \<times> abs_expiration_t \<times> chain_info_flist_t) option" where
  "lowestExpiration_scan i [] lowestExpiration sel = (lowestExpiration, sel)"
| "lowestExpiration_scan i ((l, priorityArray) # rest) lowestExpiration sel =
     (case priorityArray i of
        [] \<Rightarrow> lowestExpiration_scan i rest lowestExpiration sel
      | (thisExpiration, flist) # _ \<Rightarrow>
          if lowestExpiration > thisExpiration
          then lowestExpiration_scan i rest thisExpiration (Some (l, thisExpiration, flist))
          else lowestExpiration_scan i rest lowestExpiration sel)"

text \<open>The loop over the priorities, from \<open>i = n - 1\<close> down to 0.\<close>

fun PopTop_priorities :: "nat \<Rightarrow> (u64 \<times> priority_array_t) list \<Rightarrow> BundleStorageManagerBase
    \<Rightarrow> BundleStorageManagerSession_ReadFromDisk
    \<Rightarrow> storage_fault + (u64 \<times> BundleStorageManagerBase \<times> BundleStorageManagerSession_ReadFromDisk)" where
  "PopTop_priorities 0 ptrs st session = Inr (0, st, session)"
| "PopTop_priorities (Suc i) ptrs st session =
     (let session0 = session\<lparr>r_expirationMapPtr := None, r_chainInfoFlistPtr := None\<rparr>
      in case snd (lowestExpiration_scan i ptrs UINT64_MAX None) of
           None \<Rightarrow> PopTop_priorities i ptrs st session0
         | Some (l, e, flist) \<Rightarrow>
             (case flist of
                [] \<Rightarrow> Inl FrontOfEmptyList
              | c # remaining \<Rightarrow>
                  let priorityArray = destMap_index (m_destMap st) l;
                      expirationMap = priorityArray i;
                      expirationMap' = (if remaining = [] then tl expirationMap
                                        else (e, remaining) # tl expirationMap)
                  in Inr (fst c,
                       st\<lparr>m_destMap := (m_destMap st)(l \<mapsto> priorityArray(i := expirationMap'))\<rparr>,
                       session0\<lparr>r_expirationMapPtr := Some (l, i),
                                r_chainInfoFlistPtr := Some (l, i, e),
                                r_absExpiration := e,
                                r_destLinkId := l,
                                r_priorityIndex := i,
                                r_chainInfo := c\<rparr>)))"

definition PopTop :: "BundleStorageManagerBase \<Rightarrow> BundleStorageManagerSession_ReadFromDisk
    \<Rightarrow> u64 list
    \<Rightarrow> storage_fault + (u64 \<times> BundleStorageManagerBase \<times> BundleStorageManagerSession_ReadFromDisk)" where
  "PopTop st session availableDestLinks =
     PopTop_priorities NUMBER_OF_PRIORITIES
       (priorityArrayPtrs (m_destMap st) availableDestLinks) st
       (session\<lparr>r_nextLogicalSegment := 0, r_nextLogicalSegmentToCache := 0,
                r_cacheReadIndex := 0, r_cacheWriteIndex := 0\<rparr>)"

definition ReturnTop :: "BundleStorageManagerBase \<Rightarrow> BundleStorageManagerSession_ReadFromDisk
    \<Rightarrow> storage_fault + (bool \<times> BundleStorageManagerBase \<times> BundleStorageManagerSession_ReadFromDisk)" where
  "ReturnTop st session =
     (case r_expirationMapPtr session of
        None \<Rightarrow> Inl NullPointer
      | Some (l, i) \<Rightarrow>
          Inr (True,
            st\<lparr>m_destMap := catalog_push_front (m_destMap st) l i (r_absExpiration session)
                   (r_chainInfo session)\<rparr>,
            session\<lparr>r_chainInfo := (fst (r_chainInfo session), [])\<rparr>))"


text \<open>\<open>TopSegment\<close>, first loop: schedule reads ahead while fewer than
  \<open>READ_CACHE_NUM_SEGMENTS_PER_SESSION\<close> segments are cached and segments remain (the
  difference of the two unsigned counters wraps around when the second is the larger, and
  is then not below the cache size). The disk thread copies the segment of the file into
  the cache entry and sets its ready flag; a segment that was never written is never
  completed.\<close>

function TopSegment_readAhead :: "nat \<Rightarrow> (segment_id_t \<Rightarrow> segment option)
    \<Rightarrow> BundleStorageManagerSession_ReadFromDisk
    \<Rightarrow> storage_fault + BundleStorageManagerSession_ReadFromDisk" where
  "TopSegment_readAhead READ_CACHE_NUM_SEGMENTS_PER_SESSION files session =
     (let segments = snd (r_chainInfo session) in
      if r_nextLogicalSegmentToCache session \<ge> r_nextLogicalSegment session
         \<and> r_nextLogicalSegmentToCache session - r_nextLogicalSegment session
              < READ_CACHE_NUM_SEGMENTS_PER_SESSION
         \<and> r_nextLogicalSegmentToCache session < length segments
      then
        let segmentId = segments ! r_nextLogicalSegmentToCache session;
            w = r_cacheWriteIndex session
        in if w \<ge> length (r_readCacheIsSegmentReady session) \<or> w \<ge> length (r_readCache session)
           then Inl ReadCacheIndexOutOfBounds
           else TopSegment_readAhead READ_CACHE_NUM_SEGMENTS_PER_SESSION files
             (session\<lparr>
                r_nextLogicalSegmentToCache := r_nextLogicalSegmentToCache session + 1,
                r_readCacheIsSegmentReady :=
                  (r_readCacheIsSegmentReady session)[w := (files segmentId \<noteq> None)],
                r_readCache :=
                  (case files segmentId of
                     Some sg \<Rightarrow> (r_readCache session)[w := sg]
                   | None \<Rightarrow> r_readCache session),
                r_cacheWriteIndex := (w + 1) mod READ_CACHE_NUM_SEGMENTS_PER_SESSION\<rparr>)
      else Inr session)"
  by pat_completeness auto
termination
  by (relation "measure (\<lambda>(R, files, session).
        length (snd (r_chainInfo session)) - r_nextLogicalSegmentToCache session)") auto

text \<open>\<open>TopSegment\<close>: the return value (the number of bytes copied), the bytes copied
  to \<open>buf\<close>, and the session. The checks of the two header fields against the chain only
  log.\<close>

definition TopSegment :: "nat \<Rightarrow> nat \<Rightarrow> BundleStorageManagerBase
    \<Rightarrow> BundleStorageManagerSession_ReadFromDisk
    \<Rightarrow> storage_fault + (nat \<times> u8 list \<times> BundleStorageManagerSession_ReadFromDisk)" where
  "TopSegment BUNDLE_STORAGE_PER_SEGMENT_SIZE READ_CACHE_NUM_SEGMENTS_PER_SESSION st session =
     (case TopSegment_readAhead READ_CACHE_NUM_SEGMENTS_PER_SESSION (m_storeFiles st) session of
        Inl fault \<Rightarrow> Inl fault
      | Inr s1 \<Rightarrow>
      let r = r_cacheReadIndex s1
      in if r \<ge> length (r_readCacheIsSegmentReady s1) \<or> r \<ge> length (r_readCache s1)
         then Inl ReadCacheIndexOutOfBounds
      else if \<not> r_readCacheIsSegmentReady s1 ! r then Inl WaitsForever
      else
        let cached = r_readCache s1 ! r;
            n' = r_nextLogicalSegment s1 + 1;
            nxt = nextSegmentId cached
        in if n' > length (snd (r_chainInfo s1)) then Inl ChainIndexOutOfBounds
        else
          let modBytes = unat (fst (r_chainInfo s1)) mod BUNDLE_STORAGE_PER_SEGMENT_SIZE;
              sz = (if nxt = UINT32_MAX \<and> modBytes \<noteq> 0 then modBytes
                    else BUNDLE_STORAGE_PER_SEGMENT_SIZE)
          in Inr (sz, take sz (payload cached),
               s1\<lparr>r_nextLogicalSegment := n',
                  r_cacheReadIndex := (r + 1) mod READ_CACHE_NUM_SEGMENTS_PER_SESSION\<rparr>))"

text \<open>\<open>RemoveReadBundleFromDisk\<close>. \<open>slot\<close> is what the slot of the ring buffer held
  before; only its \<open>bundleSizeBytes\<close> is overwritten before the segment is written.\<close>

definition RemoveReadBundleFromDisk :: "BundleStorageManagerBase
    \<Rightarrow> BundleStorageManagerSession_ReadFromDisk \<Rightarrow> bool \<Rightarrow> segment
    \<Rightarrow> storage_fault + (bool \<times> BundleStorageManagerBase)" where
  "RemoveReadBundleFromDisk st session forceRemove slot =
     (let segmentIdChainVec = snd (r_chainInfo session) in
      if \<not> forceRemove \<and> r_nextLogicalSegment session \<noteq> length segmentIdChainVec
      then Inr (False, st)
      else
        case segmentIdChainVec of
          [] \<Rightarrow> Inl ChainIndexOutOfBounds
        | segmentId # _ \<Rightarrow>
            let written = slot\<lparr>bundleSizeBytes := UINT64_MAX\<rparr>;
                st1 = st\<lparr>m_storeFiles := (m_storeFiles st)(segmentId \<mapsto> written)\<rparr>;
                (ok, mm) = FreeSegments_ThreadSafe (m_memoryManager st1) segmentIdChainVec
            in Inr (ok, st1\<lparr>m_memoryManager := mm\<rparr>))"

subsection \<open>Restore\<close>

text \<open>The store files as \<open>RestoreFromDisk\<close> reads them: one list of whole segments per
  disk, \<open>None\<close> for a file that does not exist or cannot be opened. A read at an offset
  past the end of the file is \<open>None\<close>. The list of files is not empty where this is
  used (the source divides by the number of disks).\<close>

definition read_segment :: "segment list list \<Rightarrow> segment_id_t \<Rightarrow> segment option" where
  "read_segment fileSegments segmentId =
     (let diskIndex = unat segmentId mod length fileSegments;
          offset = unat segmentId div length fileSegments
      in if offset < length (fileSegments ! diskIndex)
         then Some (fileSegments ! diskIndex ! offset) else None)"

record restore_state =
  rs_memoryManager :: MemoryManagerTreeArray
  rs_destMap :: destination_map_t
  totalBundlesRestored :: u64
  totalBytesRestored :: u64
  totalSegmentsRestored :: u64

text \<open>The inner loop of \<open>RestoreFromDisk\<close> from the checks after the head segment was
  recognised: logical segment \<open>n\<close> is the segment \<open>sg\<close> read at \<open>segmentId\<close>. The result is
  whether the chain is complete (\<open>False\<close> is one of the \<open>return false\<close>), with the memory
  manager and the chain as they are then.\<close>

function restore_chain :: "segment list list \<Rightarrow> MemoryManagerTreeArray
    \<Rightarrow> segment_id_chain_vec_t \<Rightarrow> nat \<Rightarrow> segment_id_t \<Rightarrow> segment
    \<Rightarrow> bool \<times> MemoryManagerTreeArray \<times> segment_id_chain_vec_t" where
  "restore_chain fileSegments mm segmentIdChainVec n segmentId sg =
     (if n \<ge> length segmentIdChainVec then (False, mm, segmentIdChainVec)
      else if \<not> IsSegmentFree mm segmentId then (False, mm, segmentIdChainVec)
      else
        let mm' = AllocateSegmentId_NoCheck_NotThreadSafe mm segmentId;
            chain' = segmentIdChainVec[n := segmentId]
        in if n + 1 \<ge> length segmentIdChainVec then
             (if nextSegmentId sg \<noteq> UINT32_MAX then (False, mm', chain')
              else (True, mm', chain'))
           else if nextSegmentId sg = UINT32_MAX then (False, mm', chain')
           else
             (case read_segment fileSegments (nextSegmentId sg) of
                None \<Rightarrow> (False, mm', chain')
              | Some sg' \<Rightarrow>
                  restore_chain fileSegments mm' chain' (n + 1) (nextSegmentId sg) sg'))"
  by pat_completeness auto
termination
  by (relation "measure (\<lambda>(fileSegments, mm, segmentIdChainVec, n, segmentId, sg).
        length segmentIdChainVec - n)") auto

text \<open>One potential head segment that the memory manager reports free.
  \<open>cbhe_bpv6_primary_block_decode\<close> is not among the sources and is the parameter
  \<open>decode\<close>: the primary block read from the payload area, \<open>None\<close> where the source gets
  offset 0.\<close>

datatype restore_step =
    EndOfRestore
  | NotAHead
  | Malformed restore_state
  | Faulted storage_fault
  | Restored restore_state

definition restore_candidate :: "nat \<Rightarrow> (u8 list \<Rightarrow> bpv6_primary_block option)
    \<Rightarrow> segment list list \<Rightarrow> restore_state \<Rightarrow> segment_id_t \<Rightarrow> restore_step" where
  "restore_candidate BUNDLE_STORAGE_PER_SEGMENT_SIZE decode fileSegments rs potentialHeadSegmentId =
     (if fileSegments = [] then Faulted DivisionByZero
      else
      case read_segment fileSegments potentialHeadSegmentId of
        None \<Rightarrow> EndOfRestore
      | Some sg \<Rightarrow>
          if bundleSizeBytes sg = UINT64_MAX then NotAHead
          else
            (case decode (payload sg) of
               None \<Rightarrow> Malformed rs
             | Some primary \<Rightarrow>
                 let total = totalSegmentsRequired BUNDLE_STORAGE_PER_SEGMENT_SIZE (bundleSizeBytes sg);
                     rs1 = rs\<lparr>totalBytesRestored := totalBytesRestored rs + bundleSizeBytes sg,
                             totalSegmentsRestored := totalSegmentsRestored rs + word_of_nat total\<rparr>;
                     d = dst_node primary;
                     p = unat (drop_bit 7 (flags primary) AND 3);
                     e = creation primary + lifetime primary;
                     (complete, mm, chain) =
                       restore_chain fileSegments (rs_memoryManager rs1) (replicate total 0) 0
                         potentialHeadSegmentId sg
                 in if \<not> complete then Malformed (rs1\<lparr>rs_memoryManager := mm\<rparr>)
                    else if p \<ge> NUMBER_OF_PRIORITIES then Faulted PriorityIndexOutOfBounds
                    else Restored (rs1\<lparr>
                           rs_memoryManager := mm,
                           rs_destMap := catalog_push_front (rs_destMap rs1) d p e
                                           (bundleSizeBytes sg, chain),
                           totalBundlesRestored := totalBundlesRestored rs1 + 1\<rparr>)))"

text \<open>The outer loop from \<open>potentialHeadSegmentId\<close> on; the 32-bit counter wraps around.
  \<open>None\<close> is a scan that never ends; \<open>Some (Inr (ok, rs))\<close> is the return value of
  \<open>RestoreFromDisk\<close> with the state it leaves.\<close>

partial_function (option) restore_scan :: "nat \<Rightarrow> (u8 list \<Rightarrow> bpv6_primary_block option)
    \<Rightarrow> segment list list \<Rightarrow> restore_state \<Rightarrow> segment_id_t
    \<Rightarrow> (storage_fault + bool \<times> restore_state) option" where
  "restore_scan P decode fileSegments rs potentialHeadSegmentId =
     (if \<not> IsSegmentFree (rs_memoryManager rs) potentialHeadSegmentId
      then restore_scan P decode fileSegments rs (potentialHeadSegmentId + 1)
      else
        case restore_candidate P decode fileSegments rs potentialHeadSegmentId of
          EndOfRestore \<Rightarrow> Some (Inr (True, rs))
        | NotAHead \<Rightarrow> restore_scan P decode fileSegments rs (potentialHeadSegmentId + 1)
        | Malformed rs' \<Rightarrow> Some (Inr (False, rs'))
        | Faulted fault \<Rightarrow> Some (Inl fault)
        | Restored rs' \<Rightarrow> restore_scan P decode fileSegments rs' (potentialHeadSegmentId + 1))"

text \<open>\<open>RestoreFromDisk\<close>: every store file must exist and open (\<open>None\<close> is one that does
  not), then the scan starts at segment 0 with the counters at 0.\<close>

definition RestoreFromDisk :: "nat \<Rightarrow> (u8 list \<Rightarrow> bpv6_primary_block option)
    \<Rightarrow> segment list option list \<Rightarrow> MemoryManagerTreeArray \<Rightarrow> destination_map_t
    \<Rightarrow> (storage_fault + bool \<times> restore_state) option" where
  "RestoreFromDisk P decode storeFiles mm dm =
     (let rs0 = \<lparr>rs_memoryManager = mm, rs_destMap = dm, totalBundlesRestored = 0,
                  totalBytesRestored = 0, totalSegmentsRestored = 0\<rparr>
      in if list_ex (\<lambda>f. f = None) storeFiles then Some (Inr (False, rs0))
         else restore_scan P decode (map the storeFiles) rs0 0)"

subsection \<open>Predicates on the catalog\<close>

text \<open>A destination has no cataloged chain: the catalog has no entry for it, or every
  expiration map of its priority array is empty.\<close>

definition no_cataloged_chain :: "destination_map_t \<Rightarrow> u64 \<Rightarrow> bool" where
  "no_cataloged_chain dm d =
     (case dm d of None \<Rightarrow> True | Some a \<Rightarrow> (\<forall>i < NUMBER_OF_PRIORITIES. a i = []))"

text \<open>No expiration map holds an empty forward list: \<open>PushSegment\<close> and \<open>ReturnTop\<close> push
  onto the list they create, and \<open>PopTop\<close> erases a list that it empties.\<close>

definition catalog_wf :: "destination_map_t \<Rightarrow> bool" where
  "catalog_wf dm = (\<forall>d a i e l. dm d = Some a \<and> i < NUMBER_OF_PRIORITIES \<and> (e, l) \<in> set (a i) \<longrightarrow> l \<noteq> [])"

subsection \<open>Example states\<close>

text \<open>A read session before its first \<open>PopTop\<close>, with a read cache of \<open>R\<close> segments.\<close>

definition fresh_read_session :: "nat \<Rightarrow> BundleStorageManagerSession_ReadFromDisk" where
  "fresh_read_session R =
     \<lparr>r_chainInfo = (0, []), r_nextLogicalSegment = 0, r_nextLogicalSegmentToCache = 0,
      r_cacheReadIndex = 0, r_cacheWriteIndex = 0,
      r_readCache = replicate R \<lparr>bundleSizeBytes = 0, nextSegmentId = 0, payload = []\<rparr>,
      r_readCacheIsSegmentReady = replicate R False,
      r_expirationMapPtr = None, r_chainInfoFlistPtr = None,
      r_absExpiration = 0, r_destLinkId = 0, r_priorityIndex = 0\<rparr>"

text \<open>A store with one bundle for destination 1 (expedited, expiration 100) and one for
  destination 2 (bulk, expiration 50).\<close>

definition two_destinations :: BundleStorageManagerBase where
  "two_destinations =
     \<lparr>m_memoryManager = [False, False, True],
      m_destMap = [1 \<mapsto> (\<lambda>_. [])(2 := [(100, [(1, [0])])]),
                   2 \<mapsto> (\<lambda>_. [])(0 := [(50, [(1, [1])])])],
      m_storeFiles = Map.empty\<rparr>"

text \<open>A store of \<open>maxSegments\<close> segments before the first push, and a write session
  before its first \<open>Push\<close>.\<close>

definition empty_store :: "nat \<Rightarrow> BundleStorageManagerBase" where
  "empty_store maxSegments =
     \<lparr>m_memoryManager = MemoryManagerTreeArray_init maxSegments,
      m_destMap = Map.empty, m_storeFiles = Map.empty\<rparr>"

definition fresh_write_session :: BundleStorageManagerSession_WriteToDisk where
  "fresh_write_session =
     \<lparr>chainInfo = (0, []), nextLogicalSegment = 0, destLinkId = 0, priorityIndex = 0,
      absExpiration = 0\<rparr>"

text \<open>A segment of zero bytes with a payload area of \<open>P\<close> bytes: a slot of a ring buffer
  that was never used, or a segment of a store file that was never written.\<close>

definition zeroed_segment :: "nat \<Rightarrow> segment" where
  "zeroed_segment P = \<lparr>bundleSizeBytes = 0, nextSegmentId = 0, payload = replicate P 0\<rparr>"

text \<open>A primary block with the destination node, the two priority bits (bits 7 and 8 of
  the flags), the creation time and the lifetime given.\<close>

definition primary_for :: "u64 \<Rightarrow> u64 \<Rightarrow> u64 \<Rightarrow> u64 \<Rightarrow> bpv6_primary_block" where
  "primary_for dst priority creationTime lifetimeSeconds =
     \<lparr>version = 6, flags = push_bit 7 priority, src_node = 100, src_svc = 1, dst_node = dst,
      dst_svc = 1, creation = creationTime, sequence = 1, lifetime = lifetimeSeconds\<rparr>"

text \<open>The caller's side of a push, as the unit test drives the store: \<open>Push\<close>, then
  \<open>PushSegment\<close> once per segment with the next \<open>P\<close> bytes of the bundle (the last call
  with what is left).\<close>

fun PushSegment_each :: "nat \<Rightarrow> BundleStorageManagerBase
    \<Rightarrow> BundleStorageManagerSession_WriteToDisk \<Rightarrow> u8 list list \<Rightarrow> segment
    \<Rightarrow> storage_fault + (BundleStorageManagerBase \<times> BundleStorageManagerSession_WriteToDisk)" where
  "PushSegment_each P st session [] slot = Inr (st, session)"
| "PushSegment_each P st session (buf # bufs) slot =
     (case PushSegment P st session buf slot of
        Inl fault \<Rightarrow> Inl fault
      | Inr (_, st', session') \<Rightarrow> PushSegment_each P st' session' bufs slot)"

definition segment_buffers :: "nat \<Rightarrow> u8 list \<Rightarrow> u8 list list" where
  "segment_buffers P b = map (\<lambda>k. take P (drop (k * P) b)) [0..<(length b + P - 1) div P]"

definition push_bundle :: "nat \<Rightarrow> BundleStorageManagerBase \<Rightarrow> bpv6_primary_block \<Rightarrow> u8 list
    \<Rightarrow> segment
    \<Rightarrow> storage_fault + (BundleStorageManagerBase \<times> BundleStorageManagerSession_WriteToDisk)" where
  "push_bundle P st primary b slot =
     (case Push P st fresh_write_session primary (word_of_nat (length b)) of
        (n, st1, session1) \<Rightarrow> PushSegment_each P st1 session1 (segment_buffers P b) slot)"

text \<open>Two completed pushes to destination 1 into an empty store: an expedited bundle of
  one byte whose expiration (creation plus lifetime) is \<open>UINT64_MAX\<close>, then a bulk bundle
  of two bytes with expiration 10.\<close>

definition expedited_never_expiring_then_bulk :: "storage_fault + BundleStorageManagerBase" where
  "expedited_never_expiring_then_bulk =
     (case push_bundle 4 (empty_store 4) (primary_for 1 2 0 UINT64_MAX) [0x41] (zeroed_segment 4) of
        Inl f \<Rightarrow> Inl f
      | Inr (st1, _) \<Rightarrow>
          (case push_bundle 4 st1 (primary_for 1 0 0 10) [0x42, 0x43] (zeroed_segment 4) of
             Inl f \<Rightarrow> Inl f
           | Inr (st2, _) \<Rightarrow> Inr st2))"

text \<open>The state in which the constructor calls \<open>RestoreFromDisk\<close>.\<close>

definition restore_state_init :: "nat \<Rightarrow> restore_state" where
  "restore_state_init maxSegments =
     \<lparr>rs_memoryManager = MemoryManagerTreeArray_init maxSegments, rs_destMap = Map.empty,
      totalBundlesRestored = 0, totalBytesRestored = 0, totalSegmentsRestored = 0\<rparr>"

text \<open>A read session that holds the chain \<open>c\<close> and has read \<open>n\<close> of its segments, and a
  store in which segments 0, 1 and 2 are in use.\<close>

definition session_holding :: "chain_info_t \<Rightarrow> nat \<Rightarrow> BundleStorageManagerSession_ReadFromDisk" where
  "session_holding c n =
     \<lparr>r_chainInfo = c, r_nextLogicalSegment = n, r_nextLogicalSegmentToCache = n,
      r_cacheReadIndex = 0, r_cacheWriteIndex = 0,
      r_readCache = [], r_readCacheIsSegmentReady = [],
      r_expirationMapPtr = None, r_chainInfoFlistPtr = None,
      r_absExpiration = 0, r_destLinkId = 0, r_priorityIndex = 0\<rparr>"

definition three_used :: BundleStorageManagerBase where
  "three_used = \<lparr>m_memoryManager = [False, False, False, True],
                  m_destMap = Map.empty, m_storeFiles = Map.empty\<rparr>"

subsection \<open>Failure events and outgoing bundles as the specification words them\<close>

text \<open>The event kind derived from the role and the error code, in the words of the
  specification: CORRUPTED and MISCONFIGURED give the event of that name at the acceptor
  or at the verifier; the source leaves every other code at \<open>UNDEFINED\<close>.\<close>

definition derived_failure_event :: "bool \<Rightarrow> BPSEC_ERROR_CODES \<Rightarrow> BPSEC_SECURITY_FAILURE_EVENT" where
  "derived_failure_event isAcceptor code =
     (case (isAcceptor, code) of
        (True, CORRUPTED) \<Rightarrow> SECURITY_OPERATION_CORRUPTED_AT_ACCEPTOR
      | (True, MISCONFIGURED) \<Rightarrow> SECURITY_OPERATION_MISCONFIGURED_AT_ACCEPTOR
      | (False, CORRUPTED) \<Rightarrow> SECURITY_OPERATION_CORRUPTED_AT_VERIFIER
      | (False, MISCONFIGURED) \<Rightarrow> SECURITY_OPERATION_MISCONFIGURED_AT_VERIFIER
      | (_, MISSING) \<Rightarrow> UNDEFINED)"

text \<open>The failure event set that \<open>DoFailureEvent\<close> consults for a service.\<close>

definition failure_event_set_of :: "BpSecPolicy \<Rightarrow> bool \<Rightarrow> event_type_to_event_set_ptr_lut_t option" where
  "failure_event_set_of policy isIntegrity =
     (if isIntegrity then m_integritySecurityFailureEventSetReferencePtr policy
      else m_confidentialitySecurityFailureEventSetReferencePtr policy)"

text \<open>An error refers to the security block \<open>a\<close> of the bundle and to one of its targets
  (or to all of them, by the index \<open>UINT64_MAX\<close>).\<close>

definition error_in_range :: "BundleViewV7 \<Rightarrow> nat \<Rightarrow> BpSecError \<Rightarrow> bool" where
  "error_in_range bv a e =
     (a < length bv
      \<and> (m_securityTargetIndex e = UINT64_MAX
          \<or> unat (m_securityTargetIndex e) < length (m_securityTargets (bv ! a))))"

definition error_canonicalIndex :: "BundleViewV7 \<Rightarrow> nat \<Rightarrow> BpSecError \<Rightarrow> u64" where
  "error_canonicalIndex bv a e =
     (if m_securityTargetIndex e = UINT64_MAX then UINT64_MAX
      else m_securityTargets (bv ! a) ! unat (m_securityTargetIndex e))"

definition errorTargetsPayloadBlock :: "BundleViewV7 \<Rightarrow> nat \<Rightarrow> BpSecError \<Rightarrow> bool" where
  "errorTargetsPayloadBlock bv a e =
     (error_canonicalIndex bv a e = 1 \<or> error_canonicalIndex bv a e = UINT64_MAX)"

text \<open>Example inputs: a bundle with a BIB (block 2) over block 3, and the payload block
  last; a policy whose two failure event sets are the given table; the error CORRUPTED
  for the first target of the security block.\<close>

definition example_bundle :: BundleViewV7 where
  "example_bundle =
     [\<lparr>m_blockNumber = 2, m_blockTypeCode = 11, markedForDeletion = False,
        isManuallyModified = False, m_securityTargets = [3], m_securityResults = [0]\<rparr>,
      \<lparr>m_blockNumber = 3, m_blockTypeCode = 7, markedForDeletion = False,
        isManuallyModified = False, m_securityTargets = [], m_securityResults = []\<rparr>,
      \<lparr>m_blockNumber = 1, m_blockTypeCode = 1, markedForDeletion = False,
        isManuallyModified = False, m_securityTargets = [], m_securityResults = []\<rparr>]"

definition policy_with_events :: "event_type_to_event_set_ptr_lut_t \<Rightarrow> BpSecPolicy" where
  "policy_with_events lut =
     BpSecPolicy_default\<lparr>m_doIntegrity := True,
       m_integritySecurityFailureEventSetReferencePtr := Some lut,
       m_confidentialitySecurityFailureEventSetReferencePtr := Some lut\<rparr>"

definition corrupted_target_0 :: BpSecError where
  "corrupted_target_0 = \<lparr>m_errorCode = CORRUPTED, m_securityTargetIndex = 0\<rparr>"

text \<open>The targets of the BCB in the words of the specification: for every confidentiality
  target type in turn the block numbers of the matching blocks of the bundle, and for the
  integrity block type the block number assigned to the new BIB.\<close>

definition targets_with_bib :: "BundleViewV7 \<Rightarrow> u64 \<Rightarrow> nat list \<Rightarrow> u64 list" where
  "targets_with_bib bv bibBlockNumber ts =
     concat (map (\<lambda>t. if t = BPV7_BLOCK_TYPE_CODE_INTEGRITY then [bibBlockNumber]
                       else blockNumbersOfType bv t) ts)"

definition bcbTargets_spec :: "BundleViewV7 \<Rightarrow> BpSecPolicy \<Rightarrow> u64 \<Rightarrow> u64 list" where
  "bcbTargets_spec bv policy bibBlockNumber =
     targets_with_bib bv bibBlockNumber (fragment_block_types (m_bcbBlockTypeTargets policy))"

definition bibTargets_spec :: "BundleViewV7 \<Rightarrow> BpSecPolicy \<Rightarrow> u64 list" where
  "bibTargets_spec bv policy =
     concat (map (blockNumbersOfType bv) (fragment_block_types (m_bibBlockTypeTargets policy)))"

text \<open>A block view with the given block number, type code and security targets.\<close>

definition block_of :: "u64 \<Rightarrow> u8 \<Rightarrow> u64 list \<Rightarrow> Bpv7CanonicalBlockView" where
  "block_of n t targets =
     \<lparr>m_blockNumber = n, m_blockTypeCode = t, markedForDeletion = False,
      isManuallyModified = False, m_securityTargets = targets,
      m_securityResults = map (\<lambda>_. 0) targets\<rparr>"

text \<open>A processor that always succeeds: the BIB gets block number 2 and is placed first,
  the BCB gets block number 3; and one whose integrity operation fails.\<close>

definition processor_ok :: "nat BpSecBundleProcessor" where
  "processor_ok =
     \<lparr>TryAddBundleIntegrity = (\<lambda>bv _ _ _ _ targets _ _. Some (block_of 2 11 targets # bv)),
      TryEncryptBundle = (\<lambda>bv _ _ _ _ targets _ _ _. Some (block_of 3 12 targets # bv)),
      SerializeAndIncrement = (\<lambda>iv _. Suc iv),
      m_initializationVector = (\<lambda>iv. [word_of_nat iv])\<rparr>"

definition processor_failing_integrity :: "nat BpSecBundleProcessor" where
  "processor_failing_integrity =
     processor_ok\<lparr>TryAddBundleIntegrity := (\<lambda>bv _ _ _ _ targets _ _. None)\<rparr>"

text \<open>A source policy with integrity over the payload and confidentiality over the payload
  and the integrity block, and the context before and after
  \<open>PopulateTargetArraysForSecuritySource\<close> for a bundle of one payload block.\<close>

definition policy_bib_and_bcb :: BpSecPolicy where
  "policy_bib_and_bcb =
     BpSecPolicy_default\<lparr>m_doIntegrity := True, m_doConfidentiality := True,
       m_bibBlockTypeTargets := [(1, 1)], m_bcbBlockTypeTargets := [(1, 1), (11, 11)]\<rparr>"

definition context_init :: "nat BpSecPolicyProcessingContext" where
  "context_init =
     \<lparr>m_bibTargetBlockNumbers = [], m_bcbTargetBlockNumbers = [],
      m_bcbTargetBibBlockNumberPlaceholderIndex = UINT64_MAX, m_ivStruct = 0\<rparr>"

definition context_populated :: "nat BpSecPolicyProcessingContext" where
  "context_populated =
     \<lparr>m_bibTargetBlockNumbers = [1], m_bcbTargetBlockNumbers = [1, 0],
      m_bcbTargetBibBlockNumberPlaceholderIndex = 1, m_ivStruct = 0\<rparr>"

text \<open>The URI of a rule is the preferred match for an EID at a filter: the exact entry
  for a fully qualified URI; the node-only entry when the filter has no exact entry for
  the EID; the any-EID child when it has neither.\<close>

definition uri_preferred_for :: "eid_uri \<Rightarrow> cbhe_eid_t \<Rightarrow> BpSecPolicyFilter \<Rightarrow> bool" where
  "uri_preferred_for u k f =
     (case u of
        EID_URI n s \<Rightarrow> k = cbhe_eid_t n s
      | NODE_URI n \<Rightarrow> nodeId k = n \<and> map_of (m_eidToNextFilterMap f) k = None
      | ANY_URI \<Rightarrow> map_of (m_eidToNextFilterMap f) k = None
                   \<and> map_of (m_nodeIdToNextFilterMap f) (nodeId k) = None
      | INVALID_URI \<Rightarrow> False)"

text \<open>The filter stored under a URI.\<close>

definition filter_at :: "eid_uri \<Rightarrow> BpSecPolicyFilter \<Rightarrow> BpSecPolicyFilter" where
  "filter_at u f = (case AddPolicyFilter_get u f of Some c \<Rightarrow> c | None \<Rightarrow> BpSecPolicyFilter_empty)"

text \<open>The example before its last policy is loaded.\<close>

definition cascade_example_two :: BpSecPolicyManager where
  "cascade_example_two =
     load_policy (load_policy BpSecPolicyManager_empty
        (EID_URI 1 1) ANY_URI ANY_URI ACCEPTOR (policy_tagged 1))
        (NODE_URI 1) ANY_URI ANY_URI ACCEPTOR (policy_tagged 2)"

text \<open>The keys of an expiration map are in strictly ascending order, as the iteration
  order of a \<open>std::map\<close> is.\<close>

definition expirationMap_sorted :: "expiration_map_t \<Rightarrow> bool" where
  "expirationMap_sorted m = sorted_wrt (<) (map fst m)"

text \<open>Every expiration map of the catalog is in ascending order of its keys.\<close>

definition catalog_ordered :: "destination_map_t \<Rightarrow> bool" where
  "catalog_ordered dm =
     (\<forall>d a i. dm d = Some a \<and> i < NUMBER_OF_PRIORITIES \<longrightarrow> expirationMap_sorted (a i))"

text \<open>A bundle with a BCB (block 2) over block 3 and over the payload block, and the error
  CORRUPTED for the second target of the security block.\<close>

definition example_bundle_bcb :: BundleViewV7 where
  "example_bundle_bcb =
     [\<lparr>m_blockNumber = 2, m_blockTypeCode = 12, markedForDeletion = False,
        isManuallyModified = False, m_securityTargets = [3, 1], m_securityResults = [0, 0]\<rparr>,
      \<lparr>m_blockNumber = 3, m_blockTypeCode = 7, markedForDeletion = False,
        isManuallyModified = False, m_securityTargets = [], m_securityResults = []\<rparr>,
      \<lparr>m_blockNumber = 1, m_blockTypeCode = 1, markedForDeletion = False,
        isManuallyModified = False, m_securityTargets = [], m_securityResults = []\<rparr>]"

definition corrupted_target_1 :: BpSecError where
  "corrupted_target_1 = \<lparr>m_errorCode = CORRUPTED, m_securityTargetIndex = 1\<rparr>"


section \<open>Verified properties of the policy lookup\<close>

lemma get_is_cascade: "Internal_GetPolicyFilterFromThisFilter eid f = cascading_fallback eid f"
proof (cases "map_of (m_eidToNextFilterMap f) eid")
  case None
  then have a: "eid \<notin> fst ` set (m_eidToNextFilterMap f)" by (simp add: map_of_eq_None_iff)
  show ?thesis
  proof (cases "map_of (m_nodeIdToNextFilterMap f) (nodeId eid)")
    case None
    then have "nodeId eid \<notin> fst ` set (m_nodeIdToNextFilterMap f)" by (simp add: map_of_eq_None_iff)
    with a None \<open>map_of (m_eidToNextFilterMap f) eid = None\<close> show ?thesis
      by (simp add: Internal_GetPolicyFilterFromThisFilter_def cascading_fallback_def)
  next
    case (Some c)
    then have "nodeId eid \<in> fst ` set (m_nodeIdToNextFilterMap f)"
      by (metis map_of_eq_None_iff option.distinct(1))
    with a Some \<open>map_of (m_eidToNextFilterMap f) eid = None\<close> show ?thesis
      by (simp add: Internal_GetPolicyFilterFromThisFilter_def cascading_fallback_def)
  qed
next
  case (Some c)
  then have "eid \<in> fst ` set (m_eidToNextFilterMap f)"
    by (metis map_of_eq_None_iff option.distinct(1))
  with Some show ?thesis
    by (simp add: Internal_GetPolicyFilterFromThisFilter_def cascading_fallback_def)
qed

lemma FindPolicy_is_spec: "FindPolicy mgr ss bs fd r = findPolicy_spec mgr ss bs fd r"
  by (cases r) (auto simp: FindPolicy_def findPolicy_spec_def get_is_cascade terminal_policy_def
        split: option.splits Option.bind_splits)

lemma cascade_example_lookups:
  "FindPolicy cascade_example (cbhe_eid_t 1 1) (cbhe_eid_t 5 5) (cbhe_eid_t 6 6) ACCEPTOR
     = Some (policy_tagged 1 BpSecPolicy_default)
   \<and> FindPolicy cascade_example (cbhe_eid_t 1 2) (cbhe_eid_t 5 5) (cbhe_eid_t 6 6) ACCEPTOR
     = Some (policy_tagged 2 BpSecPolicy_default)
   \<and> FindPolicy cascade_example (cbhe_eid_t 9 9) (cbhe_eid_t 5 5) (cbhe_eid_t 6 6) ACCEPTOR
     = Some (policy_tagged 3 BpSecPolicy_default)"
  by (simp add: cascade_example_def load_policy_def CreateOrGetNewPolicy_def
      BpSecPolicyManager_empty_def BpSecPolicyFilter_empty_def map_index_def map_store_def
      FindPolicy_def Internal_GetPolicyFilterFromThisFilter_def Let_def)

lemma map_of_map_store: "map_of (map_store m k v) k' = (if k' = k then Some v else map_of m k')"
  by (induction m) (auto simp: map_store_def)

lemma filter_at_put: "u \<noteq> INVALID_URI \<Longrightarrow> filter_at u (AddPolicyFilter_put u f c) = c"
  by (cases u; cases f) (simp_all add: filter_at_def map_index_def map_of_map_store)

lemma get_after_put:
  "uri_preferred_for u k (AddPolicyFilter_put u f c) \<Longrightarrow>
   Internal_GetPolicyFilterFromThisFilter k (AddPolicyFilter_put u f c) = Some c"
  by (cases u; cases f)
     (auto simp: uri_preferred_for_def Internal_GetPolicyFilterFromThisFilter_def map_of_map_store
           split: option.splits if_splits)

lemma FindPolicy_after_CreateOrGetNewPolicy:
  assumes "CreateOrGetNewPolicy mgr u1 u2 u3 r upd = Some (mgr', isNew, p)"
    and "uri_preferred_for u1 k1 (m_policyFilterSecuritySource mgr')"
    and "uri_preferred_for u2 k2 (filter_at u1 (m_policyFilterSecuritySource mgr'))"
    and "uri_preferred_for u3 k3 (filter_at u2 (filter_at u1 (m_policyFilterSecuritySource mgr')))"
  shows "FindPolicy mgr' k1 k2 k3 r = Some p"
proof -
  from assms(1) obtain c1 c2 c3 where
    g1: "AddPolicyFilter_get u1 (m_policyFilterSecuritySource mgr) = Some c1"
    and g2: "AddPolicyFilter_get u2 c1 = Some c2"
    and g3: "AddPolicyFilter_get u3 c2 = Some c3"
    and rr: "\<not> roleIndex r \<ge> roleIndex RESERVED_MAX_ROLE_TYPES"
    and root: "m_policyFilterSecuritySource mgr'
                = AddPolicyFilter_put u1 (m_policyFilterSecuritySource mgr)
                    (AddPolicyFilter_put u2 c1 (AddPolicyFilter_put u3 c2
                       (BpSecPolicyFilter (m_eidToNextFilterMap c3) (m_nodeIdToNextFilterMap c3)
                          (m_anyEidToNextFilterPtr c3) ((m_policiesByRoleArray c3)(r := Some p)))))"
    by (auto simp: CreateOrGetNewPolicy_def Let_def split: option.splits if_splits prod.splits)
  define leaf where "leaf = BpSecPolicyFilter (m_eidToNextFilterMap c3) (m_nodeIdToNextFilterMap c3)
                          (m_anyEidToNextFilterPtr c3) ((m_policiesByRoleArray c3)(r := Some p))"
  have leaf: "m_policiesByRoleArray leaf r = Some p" by (simp add: leaf_def)
  note root = root [folded leaf_def]
  have v1: "u1 \<noteq> INVALID_URI" using g1 by (cases u1) auto
  have v2: "u2 \<noteq> INVALID_URI" using g2 by (cases u2) auto
  let ?l2 = "AddPolicyFilter_put u3 c2 leaf"
  let ?l1 = "AddPolicyFilter_put u2 c1 ?l2"
  have f1: "filter_at u1 (m_policyFilterSecuritySource mgr') = ?l1"
    by (simp add: root filter_at_put [OF v1])
  have f2: "filter_at u2 ?l1 = ?l2" by (simp add: filter_at_put [OF v2])
  have s1: "Internal_GetPolicyFilterFromThisFilter k1 (m_policyFilterSecuritySource mgr') = Some ?l1"
    using get_after_put assms(2) root by simp
  have s2: "Internal_GetPolicyFilterFromThisFilter k2 ?l1 = Some ?l2"
    using get_after_put assms(3) f1 by simp
  have s3: "Internal_GetPolicyFilterFromThisFilter k3 ?l2 = Some leaf"
    using get_after_put assms(4) f1 f2 by simp
  show ?thesis using s1 s2 s3 rr leaf by (simp add: FindPolicy_def)
qed

text \<open>C7. For every trie and every key, \<open>FindPolicy\<close> is the walk of the specification:
  three levels in order (security source, bundle source, final destination), at each
  level the exact EID, else the node-only entry, else the any-EID child, and at the end
  the policy stored for the role, or nothing. In a trie built by loading rules, the
  policy that \<open>CreateOrGetNewPolicy\<close> stored for a rule is what the lookup returns for
  every key for which the three URIs of the rule are the preferred matches. In the trie
  loaded with policies for \<open>ipn:1.1\<close>, \<open>ipn:1.*\<close> and \<open>ipn:*.*\<close>, the lookup for
  \<open>ipn:1.1\<close> gives the exact entry, for \<open>ipn:1.2\<close> the node-wildcard entry and for
  \<open>ipn:9.9\<close> the any-EID entry.\<close>

theorem C7_cascading_policy_lookup:
  "FindPolicy mgr ss bs fd r = findPolicy_spec mgr ss bs fd r
   \<and> (CreateOrGetNewPolicy mgr u1 u2 u3 r upd = Some (mgr', isNew, p)
        \<and> uri_preferred_for u1 k1 (m_policyFilterSecuritySource mgr')
        \<and> uri_preferred_for u2 k2 (filter_at u1 (m_policyFilterSecuritySource mgr'))
        \<and> uri_preferred_for u3 k3 (filter_at u2 (filter_at u1 (m_policyFilterSecuritySource mgr')))
        \<longrightarrow> FindPolicy mgr' k1 k2 k3 r = Some p)
   \<and> FindPolicy cascade_example (cbhe_eid_t 1 1) (cbhe_eid_t 5 5) (cbhe_eid_t 6 6) ACCEPTOR
       = Some (policy_tagged 1 BpSecPolicy_default)
   \<and> FindPolicy cascade_example (cbhe_eid_t 1 2) (cbhe_eid_t 5 5) (cbhe_eid_t 6 6) ACCEPTOR
       = Some (policy_tagged 2 BpSecPolicy_default)
   \<and> FindPolicy cascade_example (cbhe_eid_t 9 9) (cbhe_eid_t 5 5) (cbhe_eid_t 6 6) ACCEPTOR
       = Some (policy_tagged 3 BpSecPolicy_default)"
  using FindPolicy_is_spec cascade_example_lookups FindPolicy_after_CreateOrGetNewPolicy
  by blast

lemma cascade_example_last_load:
  "CreateOrGetNewPolicy cascade_example_two ANY_URI ANY_URI ANY_URI ACCEPTOR (policy_tagged 3)
     = Some (cascade_example, True, policy_tagged 3 BpSecPolicy_default)"
  by (simp add: cascade_example_def cascade_example_two_def load_policy_def
        CreateOrGetNewPolicy_def BpSecPolicyManager_empty_def BpSecPolicyFilter_empty_def
        map_index_def map_store_def Let_def)

theorem C7_witness:
  "FindPolicy cascade_example (cbhe_eid_t 9 9) (cbhe_eid_t 5 5) (cbhe_eid_t 6 6) ACCEPTOR
     = Some (policy_tagged 3 BpSecPolicy_default)
   \<and> findPolicy_spec cascade_example (cbhe_eid_t 9 9) (cbhe_eid_t 5 5) (cbhe_eid_t 6 6) ACCEPTOR
     = Some (policy_tagged 3 BpSecPolicy_default)"
proof -
  have a: "uri_preferred_for ANY_URI (cbhe_eid_t 9 9) (m_policyFilterSecuritySource cascade_example)"
    by (simp add: uri_preferred_for_def cascade_example_def load_policy_def
        CreateOrGetNewPolicy_def BpSecPolicyManager_empty_def BpSecPolicyFilter_empty_def
        map_index_def map_store_def Let_def)
  have b: "uri_preferred_for ANY_URI (cbhe_eid_t 5 5)
             (filter_at ANY_URI (m_policyFilterSecuritySource cascade_example))"
    by (simp add: uri_preferred_for_def filter_at_def cascade_example_def load_policy_def
        CreateOrGetNewPolicy_def BpSecPolicyManager_empty_def BpSecPolicyFilter_empty_def
        map_index_def map_store_def Let_def)
  have c: "uri_preferred_for ANY_URI (cbhe_eid_t 6 6)
             (filter_at ANY_URI (filter_at ANY_URI (m_policyFilterSecuritySource cascade_example)))"
    by (simp add: uri_preferred_for_def filter_at_def cascade_example_def load_policy_def
        CreateOrGetNewPolicy_def BpSecPolicyManager_empty_def BpSecPolicyFilter_empty_def
        map_index_def map_store_def Let_def)
  from C7_cascading_policy_lookup [of cascade_example "cbhe_eid_t 9 9" "cbhe_eid_t 5 5" "cbhe_eid_t 6 6" ACCEPTOR
              ANY_URI ANY_URI ANY_URI "policy_tagged 3" cascade_example True
              "policy_tagged 3 BpSecPolicy_default" "cbhe_eid_t 9 9" "cbhe_eid_t 5 5" "cbhe_eid_t 6 6"]
  have "FindPolicy cascade_example (cbhe_eid_t 9 9) (cbhe_eid_t 5 5) (cbhe_eid_t 6 6) ACCEPTOR
          = findPolicy_spec cascade_example (cbhe_eid_t 9 9) (cbhe_eid_t 5 5) (cbhe_eid_t 6 6) ACCEPTOR"
    by blast
  moreover
  have "FindPolicy cascade_example (cbhe_eid_t 9 9) (cbhe_eid_t 5 5) (cbhe_eid_t 6 6) ACCEPTOR
          = Some (policy_tagged 3 BpSecPolicy_default)"
    using C7_cascading_policy_lookup [of cascade_example_two "cbhe_eid_t 9 9" "cbhe_eid_t 5 5" "cbhe_eid_t 6 6" ACCEPTOR
              ANY_URI ANY_URI ANY_URI "policy_tagged 3" cascade_example True
              "policy_tagged 3 BpSecPolicy_default" "cbhe_eid_t 9 9" "cbhe_eid_t 5 5" "cbhe_eid_t 6 6"]
      cascade_example_last_load a b c
    by blast
  ultimately show ?thesis by simp
qed

lemma FindPolicy_reserved: "FindPolicy mgr ss bs fd RESERVED_MAX_ROLE_TYPES = None"
  by (simp add: FindPolicy_def split: option.splits)

lemma init_consistent: "cache_consistent mgr PolicySearchCache_init"
  by (simp add: cache_consistent_def PolicySearchCache_init_def FindPolicy_reserved)

lemma step_result: "cache_consistent mgr c \<Longrightarrow>
   fst (FindPolicyWithCacheSupport mgr ss bs fd r c) = FindPolicy mgr ss bs fd r"
  by (auto simp: cache_consistent_def FindPolicyWithCacheSupport_def Let_def split: option.splits)

lemma step_consistent: "cache_consistent mgr c \<Longrightarrow>
   cache_consistent mgr (snd (FindPolicyWithCacheSupport mgr ss bs fd r c))"
  by (auto simp: cache_consistent_def FindPolicyWithCacheSupport_def Let_def split: option.splits)

lemma lookups_consistent: "cache_consistent mgr c \<Longrightarrow>
   fst (lookups_with_cache mgr c ks) = map (\<lambda>(ss, bs, fd, r). FindPolicy mgr ss bs fd r) ks"
proof (induction ks arbitrary: c)
  case Nil
  then show ?case by simp
next
  case (Cons k ks)
  obtain ss bs fd r where k: "k = (ss, bs, fd, r)" by (cases k) auto
  obtain res c' where s: "FindPolicyWithCacheSupport mgr ss bs fd r c = (res, c')"
    by (cases "FindPolicyWithCacheSupport mgr ss bs fd r c") auto
  have r: "res = FindPolicy mgr ss bs fd r" using step_result [OF Cons.prems, of ss bs fd r] s by simp
  have c: "cache_consistent mgr c'" using step_consistent [OF Cons.prems, of ss bs fd r] s by simp
  show ?case using Cons.IH [OF c] k s r by (auto split: prod.splits)
qed

lemma repeated_key_from_cache:
  "FindPolicyWithCacheSupport mgr' ss bs fd r (snd (FindPolicyWithCacheSupport mgr ss bs fd r c))
     = (fst (FindPolicyWithCacheSupport mgr ss bs fd r c),
        (snd (FindPolicyWithCacheSupport mgr ss bs fd r c))
          \<lparr>wasCacheHit := (fst (FindPolicyWithCacheSupport mgr ss bs fd r c) \<noteq> None)\<rparr>)"
  by (auto simp: FindPolicyWithCacheSupport_def Let_def split: option.splits)

text \<open>C8. Against a fixed trie, a stream of lookups through one cache, started from a
  fresh cache, returns for every key exactly what \<open>FindPolicy\<close> returns for it. When a
  key equals the key of the lookup before it on the same cache, the result of that
  lookup is returned whatever trie is passed (the trie is not walked), a negative result
  included, and the cache is left as it was but for \<open>wasCacheHit\<close>, which is set exactly
  for a positive result.\<close>

theorem C8_cache_transparency:
  "fst (lookups_with_cache mgr PolicySearchCache_init ks)
     = map (\<lambda>(ss, bs, fd, r). FindPolicy mgr ss bs fd r) ks
   \<and> FindPolicyWithCacheSupport mgr' ss bs fd r (snd (FindPolicyWithCacheSupport mgr ss bs fd r c))
     = (fst (FindPolicyWithCacheSupport mgr ss bs fd r c),
        (snd (FindPolicyWithCacheSupport mgr ss bs fd r c))
          \<lparr>wasCacheHit := (fst (FindPolicyWithCacheSupport mgr ss bs fd r c) \<noteq> None)\<rparr>)"
  using lookups_consistent [OF init_consistent] repeated_key_from_cache by blast

section \<open>Verified properties of PopTop\<close>

lemma priorityArrayPtrs_mem:
  "(l, a) \<in> set (priorityArrayPtrs dm links) \<Longrightarrow> l \<in> set links \<and> dm l = Some a"
  by (auto simp: priorityArrayPtrs_def split: option.splits)

lemma scan_selected:
  "lowestExpiration_scan i ptrs low sel = (low', Some (l, e, fl)) \<Longrightarrow>
   sel = Some (l, e, fl) \<or> (\<exists>a rest. (l, a) \<in> set ptrs \<and> a i = (e, fl) # rest)"
proof (induction ptrs arbitrary: low sel)
  case Nil
  then show ?case by simp
next
  case (Cons p ptrs)
  obtain l0 a0 where p: "p = (l0, a0)" by (cases p) auto
  show ?case
  proof (cases "a0 i")
    case Nil
    with Cons p show ?thesis by fastforce
  next
    case (Cons x xs)
    obtain e0 f0 where x: "x = (e0, f0)" by (cases x) auto
    show ?thesis
    proof (cases "low > e0")
      case True
      with Cons.prems p Cons x
      have "lowestExpiration_scan i ptrs e0 (Some (l0, e0, f0)) = (low', Some (l, e, fl))" by simp
      from Cons.IH [OF this] show ?thesis using p Cons x by auto
    next
      case False
      with Cons.prems p Cons x
      have "lowestExpiration_scan i ptrs low sel = (low', Some (l, e, fl))" by simp
      from Cons.IH [OF this] show ?thesis by auto
    qed
  qed
qed

lemma scan_none:
  "\<forall>(l, a) \<in> set ptrs. a i = [] \<Longrightarrow> lowestExpiration_scan i ptrs low sel = (low, sel)"
  by (induction ptrs arbitrary: low sel) auto

lemma PopTop_priorities_frame:
  assumes "PopTop_priorities n ptrs st session = Inr (sz, st', session')"
    and "\<forall>(l, a) \<in> set ptrs. l \<in> L \<and> m_destMap st l = Some a"
  shows "(\<forall>d. d \<notin> L \<longrightarrow> m_destMap st' d = m_destMap st d)
       \<and> m_memoryManager st' = m_memoryManager st
       \<and> m_storeFiles st' = m_storeFiles st
       \<and> (st' = st \<and> sz = 0 \<or>
           r_destLinkId session' \<in> L
           \<and> (\<exists>a rest fl. m_destMap st (r_destLinkId session') = Some a
                \<and> a (r_priorityIndex session') = (r_absExpiration session', r_chainInfo session' # fl) # rest
                \<and> sz = fst (r_chainInfo session')))"
  using assms
proof (induction n arbitrary: session)
  case 0
  then show ?case by simp
next
  case (Suc i)
  let ?s0 = "session\<lparr>r_expirationMapPtr := None, r_chainInfoFlistPtr := None\<rparr>"
  show ?case
  proof (cases "snd (lowestExpiration_scan i ptrs UINT64_MAX None)")
    case None
    with Suc.prems(1) have "PopTop_priorities i ptrs st ?s0 = Inr (sz, st', session')"
      by (simp add: Let_def)
    from Suc.IH [OF this Suc.prems(2)] show ?thesis .
  next
    case (Some t)
    obtain l e fl where t: "t = (l, e, fl)" by (cases t) auto
    obtain low' where sc: "lowestExpiration_scan i ptrs UINT64_MAX None = (low', Some (l, e, fl))"
      using Some t by (cases "lowestExpiration_scan i ptrs UINT64_MAX None") auto
    from scan_selected [OF sc] obtain a rest where a: "(l, a) \<in> set ptrs" "a i = (e, fl) # rest"
      by auto
    with Suc.prems(2) have la: "l \<in> L" "m_destMap st l = Some a" by auto
    show ?thesis
    proof (cases fl)
      case Nil
      with Suc.prems(1) Some t show ?thesis by (simp add: Let_def)
    next
      case (Cons c remaining)
      with Suc.prems(1) Some t la a show ?thesis
        by (auto simp: Let_def destMap_index_def)
    qed
  qed
qed

lemma PopTop_priorities_empty:
  assumes "\<forall>(l, a) \<in> set ptrs. \<forall>i < n. a i = []"
  shows "\<exists>session'. PopTop_priorities n ptrs st session = Inr (0, st, session')"
  using assms
proof (induction n arbitrary: session)
  case 0
  then show ?case by simp
next
  case (Suc i)
  have "\<forall>(l, a) \<in> set ptrs. a i = []" using Suc.prems by auto
  from scan_none [OF this] have "snd (lowestExpiration_scan i ptrs UINT64_MAX None) = None" by simp
  moreover have "\<forall>(l, a) \<in> set ptrs. \<forall>j < i. a j = []" using Suc.prems by auto
  ultimately show ?case using Suc.IH by (simp add: Let_def)
qed

lemma PopTop_priorities_no_fault:
  assumes "\<And>l a i e fl. (l, a) \<in> set ptrs \<Longrightarrow> i < n \<Longrightarrow> (e, fl) \<in> set (a i) \<Longrightarrow> fl \<noteq> []"
  shows "\<exists>r. PopTop_priorities n ptrs st session = Inr r"
  using assms
proof (induction n arbitrary: session)
  case 0
  then show ?case by simp
next
  case (Suc i)
  let ?s0 = "session\<lparr>r_expirationMapPtr := None, r_chainInfoFlistPtr := None\<rparr>"
  have ih: "\<exists>r. PopTop_priorities i ptrs st ?s0 = Inr r"
  proof (rule Suc.IH)
    fix l a j e fl assume "(l, a) \<in> set ptrs" "j < i" "(e, fl) \<in> set (a j)"
    then show "fl \<noteq> []" using Suc.prems [of l a j e fl] by simp
  qed
  show ?case
  proof (cases "snd (lowestExpiration_scan i ptrs UINT64_MAX None)")
    case None
    with ih show ?thesis by (simp add: Let_def)
  next
    case (Some t)
    obtain l e fl where t: "t = (l, e, fl)" by (cases t) auto
    obtain low' where sc: "lowestExpiration_scan i ptrs UINT64_MAX None = (low', Some (l, e, fl))"
      using Some t by (cases "lowestExpiration_scan i ptrs UINT64_MAX None") auto
    from scan_selected [OF sc] obtain a rest where a: "(l, a) \<in> set ptrs" "a i = (e, fl) # rest"
      by auto
    have "fl \<noteq> []" using Suc.prems [of l a i e fl] a by simp
    then obtain c remaining where "fl = c # remaining" by (cases fl) auto
    with Some t show ?thesis by (simp add: Let_def)
  qed
qed

text \<open>C9. \<open>PopTop\<close> considers only the destinations of \<open>availableDestLinks\<close>. Whenever it
  returns, the catalog entries of every destination that is not in the list are as
  before, and so are the memory manager and the store files; either nothing was detached
  (the state is unchanged and the result is 0) or the chain now in the session was the
  front of a list of a destination of the list. When no destination of the list has a
  cataloged chain it returns 0 and leaves the state unchanged, whatever the catalog holds
  for other destinations. On a catalog without empty lists it always returns.\<close>

theorem C9_strict_destination_filtering:
  "(PopTop st session availableDestLinks = Inr (sz, st', session') \<longrightarrow>
      (\<forall>d. d \<notin> set availableDestLinks \<longrightarrow> m_destMap st' d = m_destMap st d)
      \<and> m_memoryManager st' = m_memoryManager st
      \<and> m_storeFiles st' = m_storeFiles st
      \<and> (st' = st \<and> sz = 0 \<or>
          r_destLinkId session' \<in> set availableDestLinks
          \<and> (\<exists>a rest fl. m_destMap st (r_destLinkId session') = Some a
               \<and> a (r_priorityIndex session')
                   = (r_absExpiration session', r_chainInfo session' # fl) # rest
               \<and> sz = fst (r_chainInfo session'))))
   \<and> ((\<forall>d \<in> set availableDestLinks. no_cataloged_chain (m_destMap st) d) \<longrightarrow>
        (\<exists>s. PopTop st session availableDestLinks = Inr (0, st, s)))
   \<and> (catalog_wf (m_destMap st) \<longrightarrow> (\<exists>r. PopTop st session availableDestLinks = Inr r))"
proof (intro conjI impI)
  assume p: "PopTop st session availableDestLinks = Inr (sz, st', session')"
  have m: "\<forall>(l, a) \<in> set (priorityArrayPtrs (m_destMap st) availableDestLinks).
             l \<in> set availableDestLinks \<and> m_destMap st l = Some a"
    using priorityArrayPtrs_mem by fastforce
  from PopTop_priorities_frame [OF p [unfolded PopTop_def] m]
  show "\<forall>d. d \<notin> set availableDestLinks \<longrightarrow> m_destMap st' d = m_destMap st d"
    and "m_memoryManager st' = m_memoryManager st"
    and "m_storeFiles st' = m_storeFiles st"
    and "st' = st \<and> sz = 0 \<or>
          r_destLinkId session' \<in> set availableDestLinks
          \<and> (\<exists>a rest fl. m_destMap st (r_destLinkId session') = Some a
               \<and> a (r_priorityIndex session')
                   = (r_absExpiration session', r_chainInfo session' # fl) # rest
               \<and> sz = fst (r_chainInfo session'))"
    by blast+
next
  assume e: "\<forall>d \<in> set availableDestLinks. no_cataloged_chain (m_destMap st) d"
  have "\<forall>(l, a) \<in> set (priorityArrayPtrs (m_destMap st) availableDestLinks).
          \<forall>i < NUMBER_OF_PRIORITIES. a i = []"
  proof (clarify)
    fix l a i assume "(l, a) \<in> set (priorityArrayPtrs (m_destMap st) availableDestLinks)"
      and i: "i < NUMBER_OF_PRIORITIES"
    then have "l \<in> set availableDestLinks" "m_destMap st l = Some a"
      using priorityArrayPtrs_mem by fastforce+
    with e i show "a i = []" by (auto simp: no_cataloged_chain_def)
  qed
  from PopTop_priorities_empty [OF this]
  show "\<exists>s. PopTop st session availableDestLinks = Inr (0, st, s)"
    by (simp add: PopTop_def)
next
  assume w: "catalog_wf (m_destMap st)"
  have "\<exists>r. PopTop_priorities NUMBER_OF_PRIORITIES
           (priorityArrayPtrs (m_destMap st) availableDestLinks) st
           (session\<lparr>r_nextLogicalSegment := 0, r_nextLogicalSegmentToCache := 0,
                    r_cacheReadIndex := 0, r_cacheWriteIndex := 0\<rparr>) = Inr r"
  proof (rule PopTop_priorities_no_fault)
    fix l a i e fl
    assume "(l, a) \<in> set (priorityArrayPtrs (m_destMap st) availableDestLinks)"
      and i: "i < NUMBER_OF_PRIORITIES" and m: "(e, fl) \<in> set (a i)"
    then have "m_destMap st l = Some a" using priorityArrayPtrs_mem by fastforce
    with w i m show "fl \<noteq> []" unfolding catalog_wf_def by blast
  qed
  then show "\<exists>r. PopTop st session availableDestLinks = Inr r" by (simp add: PopTop_def)
qed

lemma two_destinations_wf: "catalog_wf (m_destMap two_destinations)"
  by (auto simp: catalog_wf_def two_destinations_def split: if_splits)

lemma two_destinations_pop_2: "\<exists>sz st' s'. PopTop two_destinations (fresh_read_session 2) [2] = Inr (sz, st', s')
     \<and> sz = 1 \<and> r_destLinkId s' = 2 \<and> r_chainInfo s' = (1, [1])"
  by (simp add: PopTop_def two_destinations_def fresh_read_session_def priorityArrayPtrs_def
       NUMBER_OF_PRIORITIES_def numeral_3_eq_3 UINT64_MAX_def destMap_index_def Let_def)

lemma two_destinations_pop_3: "\<exists>s. PopTop two_destinations (fresh_read_session 2) [3] = Inr (0, two_destinations, s)"
  by (simp add: PopTop_def two_destinations_def fresh_read_session_def priorityArrayPtrs_def
       NUMBER_OF_PRIORITIES_def numeral_3_eq_3 UINT64_MAX_def destMap_index_def Let_def)

theorem C9_witness:
  "\<exists>sz st' s'. PopTop two_destinations (fresh_read_session 2) [2] = Inr (sz, st', s')
     \<and> sz = 1 \<and> r_destLinkId s' = 2 \<and> r_chainInfo s' = (1, [1])
     \<and> m_destMap st' 1 = m_destMap two_destinations 1
     \<and> m_memoryManager st' = m_memoryManager two_destinations
     \<and> (\<exists>s. PopTop two_destinations (fresh_read_session 2) [3] = Inr (0, two_destinations, s))"
proof -
  obtain sz st' s' where p: "PopTop two_destinations (fresh_read_session 2) [2] = Inr (sz, st', s')"
    and v: "sz = 1" "r_destLinkId s' = 2" "r_chainInfo s' = (1, [1])"
    using two_destinations_pop_2 by blast
  have n: "\<forall>d \<in> set [3]. no_cataloged_chain (m_destMap two_destinations) d"
    by (simp add: no_cataloged_chain_def two_destinations_def)
  from C9_strict_destination_filtering [of two_destinations "fresh_read_session 2" "[2]" sz st' s'] p
  have "m_destMap st' 1 = m_destMap two_destinations 1"
    "m_memoryManager st' = m_memoryManager two_destinations" by auto
  moreover from C9_strict_destination_filtering [of two_destinations "fresh_read_session 2" "[3]"] n
  have "\<exists>s. PopTop two_destinations (fresh_read_session 2) [3] = Inr (0, two_destinations, s)"
    by blast
  ultimately show ?thesis using p v by blast
qed

section \<open>Verified properties of the priority index\<close>

text \<open>C10. The priority index that \<open>Push\<close> stores is \<open>(flags >> 7) & 3\<close>. For a primary
  block with the reserved pattern 11 it is 3, which is not an index of the priority array
  (\<open>NUMBER_OF_PRIORITIES\<close> is 3): the \<open>PushSegment\<close> that completes the bundle indexes the
  array past its end, and so does \<open>RestoreFromDisk\<close> when it restores such a bundle.\<close>

theorem C10_reserved_priority_out_of_bounds:
  "(case Push 4 (empty_store 2) fresh_write_session (primary_for 5 3 0 100) 1 of
      (n, st, s) \<Rightarrow> n = 1 \<and> priorityIndex s = 3
        \<and> (case PushSegment 4 st s [0x41] (zeroed_segment 4) of
              Inl f \<Rightarrow> f = PriorityIndexOutOfBounds
            | Inr _ \<Rightarrow> False))
   \<and> \<not> 3 < NUMBER_OF_PRIORITIES
   \<and> (case RestoreFromDisk 4 (\<lambda>_. Some (primary_for 5 3 0 100))
              [Some [\<lparr>bundleSizeBytes = 1, nextSegmentId = UINT32_MAX, payload = [0x41, 0, 0, 0]\<rparr>]]
              (MemoryManagerTreeArray_init 2) Map.empty of
         Some (Inl f) \<Rightarrow> f = PriorityIndexOutOfBounds
       | _ \<Rightarrow> False)"
proof (intro conjI)
  show "case Push 4 (empty_store 2) fresh_write_session (primary_for 5 3 0 100) 1 of
      (n, st, s) \<Rightarrow> n = 1 \<and> priorityIndex s = 3
        \<and> (case PushSegment 4 st s [0x41] (zeroed_segment 4) of
              Inl f \<Rightarrow> f = PriorityIndexOutOfBounds
            | Inr _ \<Rightarrow> False)"
    by code_simp
  show "\<not> 3 < NUMBER_OF_PRIORITIES"
    by (simp add: NUMBER_OF_PRIORITIES_def)
  show "case RestoreFromDisk 4 (\<lambda>_. Some (primary_for 5 3 0 100))
              [Some [\<lparr>bundleSizeBytes = 1, nextSegmentId = UINT32_MAX, payload = [0x41, 0, 0, 0]\<rparr>]]
              (MemoryManagerTreeArray_init 2) Map.empty of
         Some (Inl f) \<Rightarrow> f = PriorityIndexOutOfBounds
       | _ \<Rightarrow> False"
    apply (simp add: RestoreFromDisk_def MemoryManagerTreeArray_init_def)
    apply (subst restore_scan.simps)
    apply code_simp
    done
qed

section \<open>Verified properties of the pop order\<close>

text \<open>C2. After two completed pushes to destination 1, an expedited bundle whose
  expiration is \<open>UINT64_MAX\<close> and a bulk bundle with expiration 10, \<open>PopTop\<close> for
  destination 1 detaches the bulk bundle and leaves the expedited one in the catalog: the
  scan starts from \<open>lowestExpiration = UINT64_MAX\<close> and selects only a strictly smaller
  expiration. A second \<open>PopTop\<close> returns 0 with the expedited bundle still cataloged.\<close>

theorem C2_pop_skips_expiration_max:
  "(case expedited_never_expiring_then_bulk of
      Inl _ \<Rightarrow> False
    | Inr st \<Rightarrow>
        the (m_destMap st 1) 2 = [(UINT64_MAX, [(1, [0])])]
        \<and> the (m_destMap st 1) 0 = [(10, [(2, [1])])]
        \<and> (case PopTop st (fresh_read_session 2) [1] of
              Inl _ \<Rightarrow> False
            | Inr (sz, st', s') \<Rightarrow>
                sz = 2 \<and> r_priorityIndex s' = 0 \<and> r_absExpiration s' = 10
                \<and> r_chainInfo s' = (2, [1])
                \<and> the (m_destMap st' 1) 2 = [(UINT64_MAX, [(1, [0])])]
                \<and> (case PopTop st' s' [1] of
                      Inl _ \<Rightarrow> False
                    | Inr (sz2, st'', _) \<Rightarrow>
                        sz2 = 0 \<and> the (m_destMap st'' 1) 2 = [(UINT64_MAX, [(1, [0])])])))"
  by code_simp

section \<open>Verified properties of the store round trip\<close>

text \<open>C1. A bundle of one byte pushed with priority normal, creation 1000 and lifetime
  \<open>UINT64_MAX - 1000\<close> is cataloged under expiration \<open>UINT64_MAX\<close>; \<open>PopTop\<close> for its
  destination then returns 0 and hands no chain to the session, so the bundle cannot be
  read back.\<close>

theorem C1_round_trip_fails_at_expiration_max:
  "(case push_bundle 4 (empty_store 4) (primary_for 5 1 1000 (UINT64_MAX - 1000)) [0x41] (zeroed_segment 4) of
      Inl _ \<Rightarrow> False
    | Inr (st, _) \<Rightarrow>
        the (m_destMap st 5) 1 = [(UINT64_MAX, [(1, [0])])]
        \<and> (case PopTop st (fresh_read_session 2) [5] of
              Inl _ \<Rightarrow> False
            | Inr (sz, st', s') \<Rightarrow>
                sz = 0 \<and> r_chainInfo s' = (0, [])
                \<and> the (m_destMap st' 5) 1 = [(UINT64_MAX, [(1, [0])])]))"
  by code_simp

section \<open>Verified properties of restore\<close>

lemma restore_chain_no_segments:
  "restore_chain fileSegments mm [] 0 sid sg = (False, mm, [])"
  by (simp add: restore_chain.simps)

lemma totalSegmentsRequired_zero: "totalSegmentsRequired P 0 = 0"
  by (simp add: totalSegmentsRequired_def)

lemma restore_candidate_zero:
  assumes "fileSegments \<noteq> []" "read_segment fileSegments sid = Some sg" "bundleSizeBytes sg = 0"
  shows "\<exists>rs'. restore_candidate P decode fileSegments rs sid = Malformed rs'
           \<and> rs_destMap rs' = rs_destMap rs
           \<and> totalBundlesRestored rs' = totalBundlesRestored rs"
proof (cases "decode (payload sg)")
  case None
  with assms show ?thesis by (simp add: restore_candidate_def UINT64_MAX_def)
next
  case (Some primary)
  with assms show ?thesis
    by (simp add: restore_candidate_def UINT64_MAX_def totalSegmentsRequired_zero
          restore_chain_no_segments Let_def)
qed

text \<open>C3, as amended. A potential head segment that is free in the memory manager, lies
  inside its store file and has \<open>bundleSizeBytes = 0\<close> is never skipped: only
  \<open>UINT64_MAX\<close> marks a segment that is not a head. Whether or not a primary block can be
  decoded from its payload area, the scan stops there and \<open>RestoreFromDisk\<close> returns
  false; nothing is added to the catalog and the count of restored bundles stays.\<close>

theorem C3_zero_size_head_fails_restore:
  assumes "fileSegments \<noteq> []"
    and "IsSegmentFree (rs_memoryManager rs) sid"
    and "read_segment fileSegments sid = Some sg"
    and "bundleSizeBytes sg = 0"
  shows "\<exists>rs'. restore_scan P decode fileSegments rs sid = Some (Inr (False, rs'))
           \<and> rs_destMap rs' = rs_destMap rs
           \<and> totalBundlesRestored rs' = totalBundlesRestored rs"
proof -
  from restore_candidate_zero [OF assms(1,3,4), of P decode rs]
  obtain rs' where c: "restore_candidate P decode fileSegments rs sid = Malformed rs'"
    and f: "rs_destMap rs' = rs_destMap rs" "totalBundlesRestored rs' = totalBundlesRestored rs"
    by blast
  have "restore_scan P decode fileSegments rs sid = Some (Inr (False, rs'))"
    by (subst restore_scan.simps) (simp add: assms(2) c)
  with f show ?thesis by blast
qed

theorem C3_witness:
  "\<exists>rs'. restore_scan 4 (\<lambda>_. None) [[zeroed_segment 4]] (restore_state_init 2) 0
            = Some (Inr (False, rs'))
     \<and> rs_destMap rs' = rs_destMap (restore_state_init 2)
     \<and> totalBundlesRestored rs' = totalBundlesRestored (restore_state_init 2)"
proof -
  have a: "[[zeroed_segment 4]] \<noteq> []" by simp
  have b: "IsSegmentFree (rs_memoryManager (restore_state_init 2)) 0"
    by (simp add: IsSegmentFree_def restore_state_init_def MemoryManagerTreeArray_init_def)
  have c: "read_segment [[zeroed_segment 4]] 0 = Some (zeroed_segment 4)"
    by (simp add: read_segment_def)
  have d: "bundleSizeBytes (zeroed_segment 4) = 0" by (simp add: zeroed_segment_def)
  from C3_zero_size_head_fails_restore [OF a b c d, of 4 "\<lambda>_. None"] show ?thesis .
qed

text \<open>C3 as stated fails: with one store file of one zeroed segment, restore returns
  false both when no primary block decodes from the payload area (the claim: skipped, and
  the scan goes on) and when one decodes (the claim: restored into the catalog). A
  segment with \<open>bundleSizeBytes = UINT64_MAX\<close> in the same place is skipped and restore
  returns true.\<close>

theorem C3_counterexample:
  "(case RestoreFromDisk 4 (\<lambda>_. None) [Some [zeroed_segment 4]]
            (MemoryManagerTreeArray_init 2) Map.empty of
      Some (Inr (ok, rs)) \<Rightarrow> \<not> ok \<and> totalBundlesRestored rs = 0
    | _ \<Rightarrow> False)
   \<and> (case RestoreFromDisk 4 (\<lambda>_. Some (primary_for 5 1 0 100)) [Some [zeroed_segment 4]]
            (MemoryManagerTreeArray_init 2) Map.empty of
      Some (Inr (ok, rs)) \<Rightarrow> \<not> ok \<and> totalBundlesRestored rs = 0 \<and> rs_destMap rs 5 = None
    | _ \<Rightarrow> False)
   \<and> (case RestoreFromDisk 4 (\<lambda>_. None)
            [Some [\<lparr>bundleSizeBytes = UINT64_MAX, nextSegmentId = 0, payload = [0, 0, 0, 0]\<rparr>]]
            (MemoryManagerTreeArray_init 2) Map.empty of
      Some (Inr (ok, rs)) \<Rightarrow> ok \<and> totalBundlesRestored rs = 0
    | _ \<Rightarrow> False)"
proof (intro conjI)
  show "(case RestoreFromDisk 4 (\<lambda>_. None) [Some [zeroed_segment 4]]
            (MemoryManagerTreeArray_init 2) Map.empty of
      Some (Inr (ok, rs)) \<Rightarrow> \<not> ok \<and> totalBundlesRestored rs = 0
    | _ \<Rightarrow> False)"
    apply (simp add: RestoreFromDisk_def MemoryManagerTreeArray_init_def)
    apply (subst restore_scan.simps)
    apply code_simp
    done
  show "(case RestoreFromDisk 4 (\<lambda>_. Some (primary_for 5 1 0 100)) [Some [zeroed_segment 4]]
            (MemoryManagerTreeArray_init 2) Map.empty of
      Some (Inr (ok, rs)) \<Rightarrow> \<not> ok \<and> totalBundlesRestored rs = 0 \<and> rs_destMap rs 5 = None
    | _ \<Rightarrow> False)"
    apply (simp add: RestoreFromDisk_def MemoryManagerTreeArray_init_def)
    apply (subst restore_scan.simps)
    apply code_simp
    done
  show "(case RestoreFromDisk 4 (\<lambda>_. None)
            [Some [\<lparr>bundleSizeBytes = UINT64_MAX, nextSegmentId = 0, payload = [0, 0, 0, 0]\<rparr>]]
            (MemoryManagerTreeArray_init 2) Map.empty of
      Some (Inr (ok, rs)) \<Rightarrow> ok \<and> totalBundlesRestored rs = 0
    | _ \<Rightarrow> False)"
    apply (simp add: RestoreFromDisk_def MemoryManagerTreeArray_init_def)
    apply (subst restore_scan.simps)
    apply (simp add: IsSegmentFree_def restore_candidate_def read_segment_def UINT64_MAX_def)
    apply (subst restore_scan.simps)
    apply code_simp
    done
qed

section \<open>Verified properties of RemoveReadBundleFromDisk\<close>

lemma free_fold_length:
  "length (fold (\<lambda>sid m. m[unat sid := True]) (xs :: segment_id_t list) mm) = length mm"
  by (induction xs arbitrary: mm) auto

lemma free_fold_nth:
  "i < length mm \<Longrightarrow>
   fold (\<lambda>sid m. m[unat sid := True]) (xs :: segment_id_t list) mm ! i
     = (mm ! i \<or> i \<in> unat ` set xs)"
proof (induction xs arbitrary: mm)
  case Nil
  then show ?case by simp
next
  case (Cons x xs)
  have "i < length (mm[unat x := True])" using Cons.prems by simp
  from Cons.IH [OF this]
  have "fold (\<lambda>sid m. m[unat sid := True]) xs (mm[unat x := True]) ! i
          = (mm[unat x := True] ! i \<or> i \<in> unat ` set xs)" .
  moreover have "mm[unat x := True] ! i = (mm ! i \<or> i = unat x)"
    using Cons.prems by (cases "i = unat x") (simp_all add: nth_list_update)
  ultimately show ?case by auto
qed

lemma FreeSegments_frees_exactly:
  "length (snd (FreeSegments_ThreadSafe mm chain)) = length mm
   \<and> (\<forall>i < length mm. snd (FreeSegments_ThreadSafe mm chain) ! i = (mm ! i \<or> i \<in> unat ` set chain))"
  by (simp add: FreeSegments_ThreadSafe_def free_fold_length free_fold_nth)

text \<open>C5. When \<open>forceRemove\<close> is false and the session has not read every segment of its
  chain, \<open>RemoveReadBundleFromDisk\<close> returns false and changes nothing: the memory
  manager, the catalog and the store files are as before. Otherwise, for a session that
  holds a chain, the segment written at the first segment id of the chain has
  \<open>bundleSizeBytes = UINT64_MAX\<close> (the other fields are what the slot of the ring buffer
  held), no other segment of the files changes, the catalog is as before, and a segment
  is free afterwards exactly when it was free before or is a segment of the chain.\<close>

theorem C5_remove_precondition:
  "(\<not> forceRemove \<and> r_nextLogicalSegment session \<noteq> length (snd (r_chainInfo session)) \<longrightarrow>
      RemoveReadBundleFromDisk st session forceRemove slot = Inr (False, st))
   \<and> ((forceRemove \<or> r_nextLogicalSegment session = length (snd (r_chainInfo session)))
        \<and> snd (r_chainInfo session) = segmentId # rest \<longrightarrow>
      (\<exists>ok st'. RemoveReadBundleFromDisk st session forceRemove slot = Inr (ok, st')
         \<and> m_storeFiles st' = (m_storeFiles st)(segmentId \<mapsto> slot\<lparr>bundleSizeBytes := UINT64_MAX\<rparr>)
         \<and> m_destMap st' = m_destMap st
         \<and> length (m_memoryManager st') = length (m_memoryManager st)
         \<and> (\<forall>i < length (m_memoryManager st).
               m_memoryManager st' ! i
                 = (m_memoryManager st ! i \<or> i \<in> unat ` set (segmentId # rest)))))"
proof (intro conjI impI)
  assume "\<not> forceRemove \<and> r_nextLogicalSegment session \<noteq> length (snd (r_chainInfo session))"
  then show "RemoveReadBundleFromDisk st session forceRemove slot = Inr (False, st)"
    by (simp add: RemoveReadBundleFromDisk_def)
next
  assume a: "(forceRemove \<or> r_nextLogicalSegment session = length (snd (r_chainInfo session)))
        \<and> snd (r_chainInfo session) = segmentId # rest"
  let ?mm = "m_memoryManager st"
  let ?f = "FreeSegments_ThreadSafe ?mm (segmentId # rest)"
  let ?st' = "st\<lparr>m_storeFiles := (m_storeFiles st)(segmentId \<mapsto> slot\<lparr>bundleSizeBytes := UINT64_MAX\<rparr>),
                 m_memoryManager := snd ?f\<rparr>"
  have r: "RemoveReadBundleFromDisk st session forceRemove slot = Inr (fst ?f, ?st')"
    using a by (auto simp: RemoveReadBundleFromDisk_def Let_def split: prod.splits)
  have l: "length (snd ?f) = length ?mm"
    and n: "\<forall>i < length ?mm. snd ?f ! i = (?mm ! i \<or> i \<in> unat ` set (segmentId # rest))"
    using FreeSegments_frees_exactly [of ?mm "segmentId # rest"] by blast+
  show "\<exists>ok st'. RemoveReadBundleFromDisk st session forceRemove slot = Inr (ok, st')
         \<and> m_storeFiles st' = (m_storeFiles st)(segmentId \<mapsto> slot\<lparr>bundleSizeBytes := UINT64_MAX\<rparr>)
         \<and> m_destMap st' = m_destMap st
         \<and> length (m_memoryManager st') = length (m_memoryManager st)
         \<and> (\<forall>i < length (m_memoryManager st).
               m_memoryManager st' ! i
                 = (m_memoryManager st ! i \<or> i \<in> unat ` set (segmentId # rest)))"
    using r l n by (intro exI [of _ "fst ?f"] exI [of _ ?st']) simp
qed

theorem C5_witness:
  "RemoveReadBundleFromDisk three_used (session_holding (5, [1, 2]) 1) False (zeroed_segment 4)
     = Inr (False, three_used)
   \<and> (\<exists>ok st'. RemoveReadBundleFromDisk three_used (session_holding (5, [1, 2]) 2) False
                  (zeroed_segment 4) = Inr (ok, st')
        \<and> map_option bundleSizeBytes (m_storeFiles st' 1) = Some UINT64_MAX
        \<and> m_memoryManager st' = [False, True, True, True])"
proof -
  have a: "\<not> False \<and> r_nextLogicalSegment (session_holding (5, [1, 2]) 1)
             \<noteq> length (snd (r_chainInfo (session_holding (5, [1, 2]) 1)))"
    by (simp add: session_holding_def)
  have b: "(False \<or> r_nextLogicalSegment (session_holding (5, [1, 2]) 2)
             = length (snd (r_chainInfo (session_holding (5, [1, 2]) 2))))
           \<and> snd (r_chainInfo (session_holding (5, [1, 2]) 2)) = 1 # [2]"
    by (simp add: session_holding_def)
  from C5_remove_precondition [of False "session_holding (5, [1, 2]) 1" three_used
         "zeroed_segment 4"] a
  have 1: "RemoveReadBundleFromDisk three_used (session_holding (5, [1, 2]) 1) False (zeroed_segment 4)
     = Inr (False, three_used)" by blast
  from C5_remove_precondition [of False "session_holding (5, [1, 2]) 2" three_used
         "zeroed_segment 4" 1 "[2]"] b
  obtain ok st' where r: "RemoveReadBundleFromDisk three_used (session_holding (5, [1, 2]) 2) False
                  (zeroed_segment 4) = Inr (ok, st')"
    and f: "m_storeFiles st' = (m_storeFiles three_used)(1 \<mapsto> (zeroed_segment 4)\<lparr>bundleSizeBytes := UINT64_MAX\<rparr>)"
    and l: "length (m_memoryManager st') = length (m_memoryManager three_used)"
    and n: "\<forall>i < length (m_memoryManager three_used).
               m_memoryManager st' ! i
                 = (m_memoryManager three_used ! i \<or> i \<in> unat ` set (1 # [2 :: segment_id_t]))"
    by blast
  have "m_memoryManager st' = [False, True, True, True]"
  proof (rule nth_equalityI)
    show "length (m_memoryManager st') = length [False, True, True, True]"
      using l by (simp add: three_used_def)
  next
    fix i assume "i < length (m_memoryManager st')"
    then have i: "i < 4" using l by (simp add: three_used_def)
    then have "i = 0 \<or> i = 1 \<or> i = 2 \<or> i = 3" by arith
    with n show "m_memoryManager st' ! i = [False, True, True, True] ! i"
      by (auto simp: three_used_def)
  qed
  with 1 r f show ?thesis by auto
qed

section \<open>Verified properties of failure events and outgoing bundles\<close>

lemma DoFailureEvent_unfold:
  assumes "failure_event_set_of policy isIntegrity = Some evtLut"
  shows "DoFailureEvent bv policy errs a isAcceptor isIntegrity
           = DoFailureEvent_errors bv evtLut errs a isAcceptor isIntegrity"
  using assms by (simp add: DoFailureEvent_def failure_event_set_of_def)

lemma no_entry_drops:
  assumes "error_in_range bv a e"
    and "evtLut (derived_failure_event isAcceptor (m_errorCode e)) = None"
  shows "\<exists>bv'. DoFailureEvent_errors bv evtLut (e # errs) a isAcceptor isIntegrity = Inr (False, bv')"
proof (cases isAcceptor)
  case True
  with assms show ?thesis
    by (cases "m_errorCode e")
       (auto simp: error_in_range_def DoFailureEvent_acceptor_def derived_failure_event_def Let_def
             split: prod.splits)
next
  case False
  with assms show ?thesis
    by (cases "m_errorCode e")
       (auto simp: error_in_range_def DoFailureEvent_verifier_def derived_failure_event_def Let_def
             split: prod.splits)
qed

lemma verifier_empty_mask_continues:
  assumes "error_in_range bv a e"
    and "evtLut (derived_failure_event False (m_errorCode e)) = Some {}"
  shows "DoFailureEvent_errors bv evtLut (e # errs) a False isIntegrity
           = DoFailureEvent_errors bv evtLut errs a False isIntegrity"
  using assms
  by (cases "m_errorCode e")
     (auto simp: error_in_range_def DoFailureEvent_verifier_def derived_failure_event_def Let_def)

lemma bib_acceptor_empty_mask_continues:
  assumes "error_in_range bv a e"
    and "evtLut (derived_failure_event True (m_errorCode e)) = Some {}"
  shows "DoFailureEvent_errors bv evtLut (e # errs) a True True
           = (if fst (RemoveSop bv a (m_securityTargetIndex e))
              then DoFailureEvent_errors (snd (RemoveSop bv a (m_securityTargetIndex e))) evtLut errs a True True
              else Inr (False, snd (RemoveSop bv a (m_securityTargetIndex e))))"
  using assms
  by (cases "m_errorCode e")
     (auto simp: error_in_range_def DoFailureEvent_acceptor_def derived_failure_event_def Let_def
           split: prod.splits)

lemma bcb_acceptor_payload_drops:
  assumes "error_in_range bv a e"
    and "errorTargetsPayloadBlock bv a e"
  shows "DoFailureEvent_errors bv evtLut (e # errs) a True False = Inr (False, bv)"
  using assms
  by (auto simp: error_in_range_def DoFailureEvent_acceptor_def errorTargetsPayloadBlock_def
        error_canonicalIndex_def Let_def split: prod.splits)

lemma bcb_acceptor_empty_mask_continues:
  assumes "error_in_range bv a e"
    and "\<not> errorTargetsPayloadBlock bv a e"
    and "evtLut (derived_failure_event True (m_errorCode e)) = Some {}"
  shows "DoFailureEvent_errors bv evtLut (e # errs) a True False
           = (if fst (RemoveSop bv a (m_securityTargetIndex e))
              then DoFailureEvent_errors
                     (RemoveSopTargetBlock (snd (RemoveSop bv a (m_securityTargetIndex e))) a
                        (error_canonicalIndex bv a e))
                     evtLut errs a True False
              else Inr (False, snd (RemoveSop bv a (m_securityTargetIndex e))))"
  using assms
  by (cases "m_errorCode e")
     (auto simp: error_in_range_def DoFailureEvent_acceptor_def derived_failure_event_def Let_def
           errorTargetsPayloadBlock_def error_canonicalIndex_def split: prod.splits)

text \<open>C4, as amended. For the first error of the list, with the failure event derived
  from the role and the error code: when the failure event set of the policy has no
  entry for the event, \<open>DoFailureEvent\<close> returns false (the bundle is dropped), for a
  verifier and for an acceptor alike. When the event has an entry whose action mask is
  empty, a verifier leaves the bundle as it is and goes on to the next error, and an
  acceptor removes the security operation and goes on (or returns false when the removal
  fails): a BIB acceptor with the bundle otherwise as it was, a BCB acceptor whose failed
  target is not the payload block with the target block marked for deletion as well. A
  BCB acceptor whose failed target is the payload block returns false whatever the event
  set holds.\<close>

theorem C4_unmapped_failure_events:
  assumes "failure_event_set_of policy isIntegrity = Some evtLut"
    and "error_in_range bv a e"
  shows "(evtLut (derived_failure_event isAcceptor (m_errorCode e)) = None \<longrightarrow>
            (\<exists>bv'. DoFailureEvent bv policy (e # errs) a isAcceptor isIntegrity = Inr (False, bv')))
       \<and> (evtLut (derived_failure_event False (m_errorCode e)) = Some {} \<longrightarrow>
            DoFailureEvent bv policy (e # errs) a False isIntegrity
              = DoFailureEvent bv policy errs a False isIntegrity)
       \<and> (evtLut (derived_failure_event True (m_errorCode e)) = Some {} \<and> isIntegrity \<longrightarrow>
            DoFailureEvent bv policy (e # errs) a True isIntegrity
              = (if fst (RemoveSop bv a (m_securityTargetIndex e))
                 then DoFailureEvent (snd (RemoveSop bv a (m_securityTargetIndex e))) policy errs a
                        True isIntegrity
                 else Inr (False, snd (RemoveSop bv a (m_securityTargetIndex e)))))
       \<and> (evtLut (derived_failure_event True (m_errorCode e)) = Some {} \<and> \<not> isIntegrity
            \<and> \<not> errorTargetsPayloadBlock bv a e \<longrightarrow>
            DoFailureEvent bv policy (e # errs) a True isIntegrity
              = (if fst (RemoveSop bv a (m_securityTargetIndex e))
                 then DoFailureEvent
                        (RemoveSopTargetBlock (snd (RemoveSop bv a (m_securityTargetIndex e))) a
                           (error_canonicalIndex bv a e))
                        policy errs a True isIntegrity
                 else Inr (False, snd (RemoveSop bv a (m_securityTargetIndex e)))))
       \<and> (\<not> isIntegrity \<and> errorTargetsPayloadBlock bv a e \<longrightarrow>
            DoFailureEvent bv policy (e # errs) a True isIntegrity = Inr (False, bv))"
proof (intro conjI impI)
  assume h: "evtLut (derived_failure_event isAcceptor (m_errorCode e)) = None"
  show "\<exists>bv'. DoFailureEvent bv policy (e # errs) a isAcceptor isIntegrity = Inr (False, bv')"
    using no_entry_drops [of bv a e evtLut isAcceptor errs isIntegrity] assms(2) h
    by (simp add: DoFailureEvent_unfold [OF assms(1)])
next
  assume h: "evtLut (derived_failure_event False (m_errorCode e)) = Some {}"
  show "DoFailureEvent bv policy (e # errs) a False isIntegrity
          = DoFailureEvent bv policy errs a False isIntegrity"
    using verifier_empty_mask_continues [of bv a e evtLut errs isIntegrity] assms(2) h
    by (simp add: DoFailureEvent_unfold [OF assms(1)])
next
  assume h: "evtLut (derived_failure_event True (m_errorCode e)) = Some {} \<and> isIntegrity"
  then have i: "failure_event_set_of policy True = Some evtLut" using assms(1) by simp
  show "DoFailureEvent bv policy (e # errs) a True isIntegrity
          = (if fst (RemoveSop bv a (m_securityTargetIndex e))
             then DoFailureEvent (snd (RemoveSop bv a (m_securityTargetIndex e))) policy errs a
                    True isIntegrity
             else Inr (False, snd (RemoveSop bv a (m_securityTargetIndex e))))"
    using bib_acceptor_empty_mask_continues [of bv a e evtLut errs] assms(2) h
    by (simp add: DoFailureEvent_unfold [OF i])
next
  assume h: "evtLut (derived_failure_event True (m_errorCode e)) = Some {} \<and> \<not> isIntegrity
            \<and> \<not> errorTargetsPayloadBlock bv a e"
  then have i: "failure_event_set_of policy False = Some evtLut" using assms(1) by simp
  show "DoFailureEvent bv policy (e # errs) a True isIntegrity
          = (if fst (RemoveSop bv a (m_securityTargetIndex e))
             then DoFailureEvent
                    (RemoveSopTargetBlock (snd (RemoveSop bv a (m_securityTargetIndex e))) a
                       (error_canonicalIndex bv a e))
                    policy errs a True isIntegrity
             else Inr (False, snd (RemoveSop bv a (m_securityTargetIndex e))))"
    using bcb_acceptor_empty_mask_continues [of bv a e evtLut errs] assms(2) h
    by (simp add: DoFailureEvent_unfold [OF i])
next
  assume h: "\<not> isIntegrity \<and> errorTargetsPayloadBlock bv a e"
  then have i: "failure_event_set_of policy False = Some evtLut" using assms(1) by simp
  show "DoFailureEvent bv policy (e # errs) a True isIntegrity = Inr (False, bv)"
    using bcb_acceptor_payload_drops [of bv a e evtLut errs] assms(2) h
    by (simp add: DoFailureEvent_unfold [OF i])
qed

text \<open>C4 as stated fails: an acceptor whose event set has no entry for the event drops
  the bundle, and a verifier whose event set has an entry without actions keeps it.\<close>

theorem C4_counterexample:
  "DoFailureEvent example_bundle (policy_with_events (\<lambda>_. None)) [corrupted_target_0] 0 True True
     = Inr (False, example_bundle)
   \<and> DoFailureEvent example_bundle (policy_with_events (\<lambda>_. Some {})) [corrupted_target_0] 0 False True
     = Inr (True, example_bundle)"
  by (simp add: DoFailureEvent_def policy_with_events_def BpSecPolicy_default_def
        corrupted_target_0_def example_bundle_def UINT64_MAX_def DoFailureEvent_acceptor_def
        DoFailureEvent_verifier_def Let_def)

text \<open>The amended statement on the example bundles: without an entry both roles drop the
  bundle; with an entry without actions the verifier keeps the bundle as it is, the BIB
  acceptor removes the only security operation of the BIB (which marks the BIB for
  deletion) and keeps the bundle, the BCB acceptor removes the security operation over
  block 3, marks block 3 for deletion and keeps the bundle; the BCB acceptor drops the
  bundle when the failed target is the payload block.\<close>

theorem C4_witness:
  "(\<exists>bv'. DoFailureEvent example_bundle (policy_with_events (\<lambda>_. None)) [corrupted_target_0] 0
             True True = Inr (False, bv'))
   \<and> (\<exists>bv'. DoFailureEvent example_bundle (policy_with_events (\<lambda>_. None)) [corrupted_target_0] 0
             False True = Inr (False, bv'))
   \<and> DoFailureEvent example_bundle (policy_with_events (\<lambda>_. Some {})) [corrupted_target_0] 0
        False True
      = Inr (True, example_bundle)
   \<and> DoFailureEvent example_bundle (policy_with_events (\<lambda>_. Some {})) [corrupted_target_0] 0
        True True
      = Inr (True,
          [\<lparr>m_blockNumber = 2, m_blockTypeCode = 11, markedForDeletion = True,
             isManuallyModified = True, m_securityTargets = [], m_securityResults = []\<rparr>,
           \<lparr>m_blockNumber = 3, m_blockTypeCode = 7, markedForDeletion = False,
             isManuallyModified = False, m_securityTargets = [], m_securityResults = []\<rparr>,
           \<lparr>m_blockNumber = 1, m_blockTypeCode = 1, markedForDeletion = False,
             isManuallyModified = False, m_securityTargets = [], m_securityResults = []\<rparr>])
   \<and> DoFailureEvent example_bundle_bcb (policy_with_events (\<lambda>_. Some {})) [corrupted_target_0] 0
        True False
      = Inr (True,
          [\<lparr>m_blockNumber = 2, m_blockTypeCode = 12, markedForDeletion = False,
             isManuallyModified = True, m_securityTargets = [1], m_securityResults = [0]\<rparr>,
           \<lparr>m_blockNumber = 3, m_blockTypeCode = 7, markedForDeletion = True,
             isManuallyModified = False, m_securityTargets = [], m_securityResults = []\<rparr>,
           \<lparr>m_blockNumber = 1, m_blockTypeCode = 1, markedForDeletion = False,
             isManuallyModified = False, m_securityTargets = [], m_securityResults = []\<rparr>])
   \<and> DoFailureEvent example_bundle_bcb (policy_with_events (\<lambda>_. Some {})) [corrupted_target_1] 0
        True False
      = Inr (False, example_bundle_bcb)"
proof -
  have r: "error_in_range example_bundle 0 corrupted_target_0"
    by (simp add: error_in_range_def example_bundle_def corrupted_target_0_def)
  have r0: "error_in_range example_bundle_bcb 0 corrupted_target_0"
    by (simp add: error_in_range_def example_bundle_bcb_def corrupted_target_0_def)
  have r1: "error_in_range example_bundle_bcb 0 corrupted_target_1"
    by (simp add: error_in_range_def example_bundle_bcb_def corrupted_target_1_def)
  have p0: "\<not> errorTargetsPayloadBlock example_bundle_bcb 0 corrupted_target_0"
    by (simp add: errorTargetsPayloadBlock_def error_canonicalIndex_def example_bundle_bcb_def
        corrupted_target_0_def UINT64_MAX_def)
  have p1: "errorTargetsPayloadBlock example_bundle_bcb 0 corrupted_target_1"
    by (simp add: errorTargetsPayloadBlock_def error_canonicalIndex_def example_bundle_bcb_def
        corrupted_target_1_def UINT64_MAX_def)
  have n: "failure_event_set_of (policy_with_events (\<lambda>_. None)) True = Some (\<lambda>_. None)"
    by (simp add: failure_event_set_of_def policy_with_events_def)
  have s: "failure_event_set_of (policy_with_events (\<lambda>_. Some {})) True = Some (\<lambda>_. Some {})"
    by (simp add: failure_event_set_of_def policy_with_events_def)
  have c: "failure_event_set_of (policy_with_events (\<lambda>_. Some {})) False = Some (\<lambda>_. Some {})"
    by (simp add: failure_event_set_of_def policy_with_events_def)
  have nil: "\<And>bv isAcceptor isIntegrity.
      DoFailureEvent bv (policy_with_events (\<lambda>_. Some {})) [] 0 isAcceptor isIntegrity = Inr (True, bv)"
    by (simp add: DoFailureEvent_def policy_with_events_def)
  have sop: "RemoveSop example_bundle 0 (m_securityTargetIndex corrupted_target_0)
      = (True,
          [\<lparr>m_blockNumber = 2, m_blockTypeCode = 11, markedForDeletion = True,
             isManuallyModified = True, m_securityTargets = [], m_securityResults = []\<rparr>,
           \<lparr>m_blockNumber = 3, m_blockTypeCode = 7, markedForDeletion = False,
             isManuallyModified = False, m_securityTargets = [], m_securityResults = []\<rparr>,
           \<lparr>m_blockNumber = 1, m_blockTypeCode = 1, markedForDeletion = False,
             isManuallyModified = False, m_securityTargets = [], m_securityResults = []\<rparr>])"
    by (simp add: RemoveSop_def RemoveSopByGreatestToLeastIndex_def example_bundle_def
        corrupted_target_0_def UINT64_MAX_def erase_at_def Let_def)
  have sopc: "RemoveSop example_bundle_bcb 0 (m_securityTargetIndex corrupted_target_0)
      = (True,
          [\<lparr>m_blockNumber = 2, m_blockTypeCode = 12, markedForDeletion = False,
             isManuallyModified = True, m_securityTargets = [1], m_securityResults = [0]\<rparr>,
           \<lparr>m_blockNumber = 3, m_blockTypeCode = 7, markedForDeletion = False,
             isManuallyModified = False, m_securityTargets = [], m_securityResults = []\<rparr>,
           \<lparr>m_blockNumber = 1, m_blockTypeCode = 1, markedForDeletion = False,
             isManuallyModified = False, m_securityTargets = [], m_securityResults = []\<rparr>])"
    by (simp add: RemoveSop_def RemoveSopByGreatestToLeastIndex_def example_bundle_bcb_def
        corrupted_target_0_def UINT64_MAX_def erase_at_def Let_def)
  have ci: "error_canonicalIndex example_bundle_bcb 0 corrupted_target_0 = 3"
    by (simp add: error_canonicalIndex_def example_bundle_bcb_def corrupted_target_0_def
        UINT64_MAX_def)
  from C4_unmapped_failure_events [OF n r, where isAcceptor = True and errs = "[]"]
  have 1: "\<exists>bv'. DoFailureEvent example_bundle (policy_with_events (\<lambda>_. None)) [corrupted_target_0] 0
             True True = Inr (False, bv')" by simp
  from C4_unmapped_failure_events [OF n r, where isAcceptor = False and errs = "[]"]
  have 2: "\<exists>bv'. DoFailureEvent example_bundle (policy_with_events (\<lambda>_. None)) [corrupted_target_0] 0
             False True = Inr (False, bv')" by simp
  from C4_unmapped_failure_events [OF s r, where isAcceptor = False and errs = "[]"]
  have 3: "DoFailureEvent example_bundle (policy_with_events (\<lambda>_. Some {})) [corrupted_target_0] 0
        False True = Inr (True, example_bundle)" by (simp add: nil)
  from C4_unmapped_failure_events [OF s r, where isAcceptor = True and errs = "[]"]
  have 4: "DoFailureEvent example_bundle (policy_with_events (\<lambda>_. Some {})) [corrupted_target_0] 0
        True True = Inr (True, snd (RemoveSop example_bundle 0 (m_securityTargetIndex corrupted_target_0)))"
    by (simp add: nil sop)
  from C4_unmapped_failure_events [OF c r0, where isAcceptor = True and errs = "[]"] p0
  have 5: "DoFailureEvent example_bundle_bcb (policy_with_events (\<lambda>_. Some {})) [corrupted_target_0] 0
        True False
      = Inr (True, RemoveSopTargetBlock
               (snd (RemoveSop example_bundle_bcb 0 (m_securityTargetIndex corrupted_target_0))) 0 3)"
    by (simp add: nil sopc ci)
  from C4_unmapped_failure_events [OF c r1, where isAcceptor = True and errs = "[]"] p1
  have 6: "DoFailureEvent example_bundle_bcb (policy_with_events (\<lambda>_. Some {})) [corrupted_target_1] 0
        True False = Inr (False, example_bundle_bcb)" by simp
  have t: "RemoveSopTargetBlock
               (snd (RemoveSop example_bundle_bcb 0 (m_securityTargetIndex corrupted_target_0))) 0 3
      = [\<lparr>m_blockNumber = 2, m_blockTypeCode = 12, markedForDeletion = False,
             isManuallyModified = True, m_securityTargets = [1], m_securityResults = [0]\<rparr>,
           \<lparr>m_blockNumber = 3, m_blockTypeCode = 7, markedForDeletion = True,
             isManuallyModified = False, m_securityTargets = [], m_securityResults = []\<rparr>,
           \<lparr>m_blockNumber = 1, m_blockTypeCode = 1, markedForDeletion = False,
             isManuallyModified = False, m_securityTargets = [], m_securityResults = []\<rparr>]"
    by (simp add: sopc RemoveSopTargetBlock_def UINT64_MAX_def)
  from 1 2 3 4 5 6 show ?thesis by (simp add: sop t)
qed

lemma loop_no_integrity:
  "BPV7_BLOCK_TYPE_CODE_INTEGRITY \<notin> set ts \<Longrightarrow>
   bcbTargets_loop bv ts acc ph = (acc @ targets_with_bib bv n ts, ph)"
  by (induction ts arbitrary: acc) (auto simp: targets_with_bib_def)

lemma loop_with_integrity:
  "distinct ts \<Longrightarrow> BPV7_BLOCK_TYPE_CODE_INTEGRITY \<in> set ts \<Longrightarrow>
   \<exists>k T. bcbTargets_loop bv ts acc ph = (T, word_of_nat k) \<and> k < length T
          \<and> T[k := n] = acc @ targets_with_bib bv n ts"
proof (induction ts arbitrary: acc ph)
  case Nil
  then show ?case by simp
next
  case (Cons t ts)
  show ?case
  proof (cases "t = BPV7_BLOCK_TYPE_CODE_INTEGRITY")
    case True
    then have "BPV7_BLOCK_TYPE_CODE_INTEGRITY \<notin> set ts" using Cons.prems(1) by simp
    from loop_no_integrity [OF this, of bv "acc @ [0]" "word_of_nat (length acc)" n]
    have "bcbTargets_loop bv (t # ts) acc ph
            = ((acc @ [0]) @ targets_with_bib bv n ts, word_of_nat (length acc))"
      using True by simp
    moreover have "((acc @ [0]) @ targets_with_bib bv n ts)[length acc := n] = acc @ targets_with_bib bv n (t # ts)"
      using True by (simp add: list_update_append targets_with_bib_def)
    ultimately show ?thesis
      by (intro exI [of _ "length acc"] exI [of _ "(acc @ [0]) @ targets_with_bib bv n ts"]) simp
  next
    case False
    then have "distinct ts" "BPV7_BLOCK_TYPE_CODE_INTEGRITY \<in> set ts" using Cons.prems by auto
    from Cons.IH [OF this, of "acc @ blockNumbersOfType bv t" ph]
    show ?thesis using False by (auto simp: targets_with_bib_def)
  qed
qed

lemma populate_targets:
  assumes "m_doIntegrity policy" "m_doConfidentiality policy"
    and "distinct (fragment_block_types (m_bcbBlockTypeTargets policy))"
    and "PopulateTargetArraysForSecuritySource bv ctx0 policy = (True, ctx)"
    and "length (m_bcbTargetBlockNumbers ctx) < 2 ^ 64 - 1"
  shows "m_bibTargetBlockNumbers ctx = bibTargets_spec bv policy"
    and "(m_bcbTargetBibBlockNumberPlaceholderIndex ctx = UINT64_MAX
            \<and> m_bcbTargetBlockNumbers ctx = bcbTargets_spec bv policy n)
         \<or> (m_bcbTargetBibBlockNumberPlaceholderIndex ctx \<noteq> UINT64_MAX
            \<and> unat (m_bcbTargetBibBlockNumberPlaceholderIndex ctx) < length (m_bcbTargetBlockNumbers ctx)
            \<and> (m_bcbTargetBlockNumbers ctx)[unat (m_bcbTargetBibBlockNumberPlaceholderIndex ctx) := n]
                 = bcbTargets_spec bv policy n)"
proof -
  let ?ts = "fragment_block_types (m_bcbBlockTypeTargets policy)"
  let ?l = "bcbTargets_loop bv ?ts [] UINT64_MAX"
  have c: "ctx = ctx0\<lparr>m_bibTargetBlockNumbers := bibTargets_spec bv policy,
                      m_bcbTargetBlockNumbers := fst ?l,
                      m_bcbTargetBibBlockNumberPlaceholderIndex := snd ?l\<rparr>"
    using assms(1,2,4)
    by (auto simp: PopulateTargetArraysForSecuritySource_def bibTargets_spec_def Let_def
          split: prod.splits)
  show "m_bibTargetBlockNumbers ctx = bibTargets_spec bv policy" by (subst c) simp
  show "(m_bcbTargetBibBlockNumberPlaceholderIndex ctx = UINT64_MAX
            \<and> m_bcbTargetBlockNumbers ctx = bcbTargets_spec bv policy n)
         \<or> (m_bcbTargetBibBlockNumberPlaceholderIndex ctx \<noteq> UINT64_MAX
            \<and> unat (m_bcbTargetBibBlockNumberPlaceholderIndex ctx) < length (m_bcbTargetBlockNumbers ctx)
            \<and> (m_bcbTargetBlockNumbers ctx)[unat (m_bcbTargetBibBlockNumberPlaceholderIndex ctx) := n]
                 = bcbTargets_spec bv policy n)"
  proof (cases "BPV7_BLOCK_TYPE_CODE_INTEGRITY \<in> set ?ts")
    case False
    from loop_no_integrity [OF this, of bv "[]" UINT64_MAX n]
    have "?l = (bcbTargets_spec bv policy n, UINT64_MAX)" by (simp add: bcbTargets_spec_def)
    then show ?thesis by (subst (1 2 3 4 5 6) c) simp
  next
    case True
    from loop_with_integrity [OF assms(3) True, of bv "[]" UINT64_MAX n]
    obtain k T where l: "?l = (T, word_of_nat k)" and k: "k < length T"
      and u: "T[k := n] = bcbTargets_spec bv policy n"
      by (auto simp: bcbTargets_spec_def)
    have lt: "length T < 2 ^ 64 - 1" using assms(5) l by (subst (asm) c) simp
    with k have k64: "k < 2 ^ 64 - 1" by simp
    then have un: "unat (word_of_nat k :: u64) = k"
      by (simp add: unat_of_nat)
    have ne: "(word_of_nat k :: u64) \<noteq> UINT64_MAX"
    proof
      assume "(word_of_nat k :: u64) = UINT64_MAX"
      then have "unat (word_of_nat k :: u64) = unat (UINT64_MAX)" by simp
      with un k64 show False by (simp add: UINT64_MAX_def unsigned_minus_1_eq_mask mask_eq_exp_minus_1)
    qed
    show ?thesis using l k u un ne by (subst (1 2 3 4 5 6) c) simp
  qed
qed

text \<open>C6. For a source policy with integrity and confidentiality, after
  \<open>PopulateTargetArraysForSecuritySource\<close>: the BIB is added first, to the bundle as it
  was, over the collected integrity targets; when that fails \<open>ProcessOutgoingBundle\<close>
  returns false and the BCB is not added. When it succeeds with the BIB as the first
  block after the primary block, the BCB is added next, to the bundle that holds the BIB,
  and its targets are the collected confidentiality targets with the block number of the
  new BIB in the place reserved for the integrity block type; when that fails the result
  is false, else true with the bundle the processor returned.\<close>

theorem C6_outgoing_security_ordering:
  assumes "m_doIntegrity policy" and "m_doConfidentiality policy"
    and "distinct (fragment_block_types (m_bcbBlockTypeTargets policy))"
    and "PopulateTargetArraysForSecuritySource bv ctx0 policy = (True, ctx)"
    and "length (m_bcbTargetBlockNumbers ctx) < 2 ^ 64 - 1"
  shows "m_bibTargetBlockNumbers ctx = bibTargets_spec bv policy
    \<and> (TryAddBundleIntegrity proc bv (m_integrityScopeMask policy) (m_integrityVariant policy)
          (m_bibCrcType policy) src (bibTargets_spec bv policy) (m_hmacKeyEncryptionKey policy)
          (m_hmacKey policy) = None \<longrightarrow>
        ProcessOutgoingBundle proc bv ctx policy src = Inr (False, bv, ctx))
    \<and> (TryAddBundleIntegrity proc bv (m_integrityScopeMask policy) (m_integrityVariant policy)
          (m_bibCrcType policy) src (bibTargets_spec bv policy) (m_hmacKeyEncryptionKey policy)
          (m_hmacKey policy) = Some (bib # rest) \<longrightarrow>
        ProcessOutgoingBundle proc bv ctx policy src =
          (let ctx2 = ctx\<lparr>m_bcbTargetBlockNumbers := bcbTargets_spec bv policy (m_blockNumber bib),
                          m_ivStruct := SerializeAndIncrement proc (m_ivStruct ctx)
                                          (m_use12ByteIv policy)\<rparr>
           in case TryEncryptBundle proc (bib # rest) (m_aadScopeMask policy)
                     (m_confidentialityVariant policy) (m_bcbCrcType policy) src
                     (bcbTargets_spec bv policy (m_blockNumber bib))
                     (m_initializationVector proc (m_ivStruct ctx2))
                     (m_confidentialityKeyEncryptionKey policy) (m_dataEncryptionKey policy) of
                None \<Rightarrow> Inr (False, bib # rest, ctx2)
              | Some bv2 \<Rightarrow> Inr (True, bv2, ctx2)))"
proof (intro conjI impI)
  show b: "m_bibTargetBlockNumbers ctx = bibTargets_spec bv policy"
    using populate_targets(1) [OF assms] .
  {
    assume "TryAddBundleIntegrity proc bv (m_integrityScopeMask policy) (m_integrityVariant policy)
          (m_bibCrcType policy) src (bibTargets_spec bv policy) (m_hmacKeyEncryptionKey policy)
          (m_hmacKey policy) = None"
    then show "ProcessOutgoingBundle proc bv ctx policy src = Inr (False, bv, ctx)"
      using assms(1) b by (simp add: ProcessOutgoingBundle_def)
  }
  {
    assume a: "TryAddBundleIntegrity proc bv (m_integrityScopeMask policy) (m_integrityVariant policy)
          (m_bibCrcType policy) src (bibTargets_spec bv policy) (m_hmacKeyEncryptionKey policy)
          (m_hmacKey policy) = Some (bib # rest)"
    let ?n = "m_blockNumber bib"
    let ?ph = "m_bcbTargetBibBlockNumberPlaceholderIndex ctx"
    from populate_targets(2) [OF assms, of ?n]
    consider (none) "?ph = UINT64_MAX" "m_bcbTargetBlockNumbers ctx = bcbTargets_spec bv policy ?n"
      | (some) "?ph \<noteq> UINT64_MAX" "unat ?ph < length (m_bcbTargetBlockNumbers ctx)"
          "(m_bcbTargetBlockNumbers ctx)[unat ?ph := ?n] = bcbTargets_spec bv policy ?n"
      by blast
    then show "ProcessOutgoingBundle proc bv ctx policy src =
          (let ctx2 = ctx\<lparr>m_bcbTargetBlockNumbers := bcbTargets_spec bv policy (m_blockNumber bib),
                          m_ivStruct := SerializeAndIncrement proc (m_ivStruct ctx)
                                          (m_use12ByteIv policy)\<rparr>
           in case TryEncryptBundle proc (bib # rest) (m_aadScopeMask policy)
                     (m_confidentialityVariant policy) (m_bcbCrcType policy) src
                     (bcbTargets_spec bv policy (m_blockNumber bib))
                     (m_initializationVector proc (m_ivStruct ctx2))
                     (m_confidentialityKeyEncryptionKey policy) (m_dataEncryptionKey policy) of
                None \<Rightarrow> Inr (False, bib # rest, ctx2)
              | Some bv2 \<Rightarrow> Inr (True, bv2, ctx2))"
    proof cases
      case none
      show ?thesis using assms(1,2) b a none
        by (simp add: ProcessOutgoingBundle_def Let_def split: option.splits)
    next
      case some
      show ?thesis using assms(1,2) b a some
        by (simp add: ProcessOutgoingBundle_def Let_def split: option.splits)
    qed
  }
qed

lemma example_populate:
  "PopulateTargetArraysForSecuritySource [block_of 1 1 []] context_init policy_bib_and_bcb
     = (True, context_populated)"
  by (simp add: PopulateTargetArraysForSecuritySource_def policy_bib_and_bcb_def
        BpSecPolicy_default_def context_init_def context_populated_def fragment_block_types_def
        blockNumbersOfType_def GetCanonicalBlocksByType_def block_of_def
        BPV7_BLOCK_TYPE_CODE_INTEGRITY_def UINT64_MAX_def)

theorem C6_witness:
  "PopulateTargetArraysForSecuritySource [block_of 1 1 []] context_init policy_bib_and_bcb
     = (True, context_populated)
   \<and> ProcessOutgoingBundle processor_ok [block_of 1 1 []] context_populated policy_bib_and_bcb
        (cbhe_eid_t 1 1)
      = Inr (True, [block_of 3 12 [1, 2], block_of 2 11 [1], block_of 1 1 []],
             context_populated\<lparr>m_bcbTargetBlockNumbers := [1, 2], m_ivStruct := 1\<rparr>)
   \<and> ProcessOutgoingBundle processor_failing_integrity [block_of 1 1 []] context_populated
        policy_bib_and_bcb (cbhe_eid_t 1 1)
      = Inr (False, [block_of 1 1 []], context_populated)"
proof -
  have i: "m_doIntegrity policy_bib_and_bcb" and c: "m_doConfidentiality policy_bib_and_bcb"
    by (simp_all add: policy_bib_and_bcb_def)
  have d: "distinct (fragment_block_types (m_bcbBlockTypeTargets policy_bib_and_bcb))"
    by (simp add: policy_bib_and_bcb_def fragment_block_types_def)
  have l: "length (m_bcbTargetBlockNumbers context_populated) < 2 ^ 64 - 1"
    by (simp add: context_populated_def)
  have bt: "bibTargets_spec [block_of 1 1 []] policy_bib_and_bcb = [1]"
    by (simp add: bibTargets_spec_def policy_bib_and_bcb_def fragment_block_types_def
          blockNumbersOfType_def GetCanonicalBlocksByType_def block_of_def)
  have ct: "bcbTargets_spec [block_of 1 1 []] policy_bib_and_bcb 2 = [1, 2]"
    by (simp add: bcbTargets_spec_def targets_with_bib_def policy_bib_and_bcb_def
          fragment_block_types_def blockNumbersOfType_def GetCanonicalBlocksByType_def
          block_of_def BPV7_BLOCK_TYPE_CODE_INTEGRITY_def)
  have n2: "m_blockNumber (block_of 2 11 [1]) = 2" by (simp add: block_of_def)
  note t = C6_outgoing_security_ordering [OF i c d example_populate l]
  have ok: "ProcessOutgoingBundle processor_ok [block_of 1 1 []] context_populated
        policy_bib_and_bcb (cbhe_eid_t 1 1)
      = Inr (True, [block_of 3 12 [1, 2], block_of 2 11 [1], block_of 1 1 []],
             context_populated\<lparr>m_bcbTargetBlockNumbers := [1, 2], m_ivStruct := 1\<rparr>)"
    using t [of processor_ok "cbhe_eid_t 1 1" "block_of 2 11 [1]" "[block_of 1 1 []]"]
    by (simp add: bt ct n2 processor_ok_def Let_def context_populated_def)
  have bad: "ProcessOutgoingBundle processor_failing_integrity [block_of 1 1 []] context_populated
        policy_bib_and_bcb (cbhe_eid_t 1 1)
      = Inr (False, [block_of 1 1 []], context_populated)"
    using t [of processor_failing_integrity "cbhe_eid_t 1 1"]
    by (simp add: processor_failing_integrity_def processor_ok_def)
  from example_populate ok bad show ?thesis by blast
qed

section \<open>The catalog order in general\<close>

lemma push_front_keys:
  "fst ` set (expirationMap_push_front m e c) = insert e (fst ` set m)"
  by (induction m) (force split: if_splits)+

lemma push_front_sorted:
  "expirationMap_sorted m \<Longrightarrow> expirationMap_sorted (expirationMap_push_front m e c)"
proof (induction m)
  case Nil
  then show ?case by (simp add: expirationMap_sorted_def)
next
  case (Cons x m)
  obtain e' l where x: "x = (e', l)" by (cases x) auto
  have s: "expirationMap_sorted m" and lt: "\<forall>k \<in> set (map fst m). e' < k"
    using Cons.prems x by (auto simp: expirationMap_sorted_def)
  show ?case
  proof (cases "e = e'")
    case True
    with Cons.prems x show ?thesis by (simp add: expirationMap_sorted_def)
  next
    case False
    show ?thesis
    proof (cases "e < e'")
      case True
      with Cons.prems x False show ?thesis
        by (auto simp: expirationMap_sorted_def)
    next
      case ge: False
      with False have "e' < e" by simp
      moreover have "expirationMap_sorted (expirationMap_push_front m e c)" using Cons.IH s .
      ultimately show ?thesis using x False ge lt push_front_keys [of m e c]
        by (auto simp: expirationMap_sorted_def)
    qed
  qed
qed

lemma push_front_lifo:
  "\<exists>fl rest pre. expirationMap_push_front m e c = pre @ (e, c # fl) # rest"
proof (induction m)
  case Nil
  show ?case by (rule exI [of _ "[]"], rule exI [of _ "[]"], rule exI [of _ "[]"]) simp
next
  case (Cons x m)
  obtain e' l where x: "x = (e', l)" by (cases x) auto
  from Cons.IH obtain fl rest pre where i: "expirationMap_push_front m e c = pre @ (e, c # fl) # rest"
    by blast
  show ?case
  proof (cases "e = e'")
    case True
    show ?thesis
      by (rule exI [of _ l], rule exI [of _ m], rule exI [of _ "[]"]) (simp add: x True)
  next
    case False
    show ?thesis
    proof (cases "e < e'")
      case True
      show ?thesis
        by (rule exI [of _ "[]"], rule exI [of _ "x # m"], rule exI [of _ "[]"])
           (simp add: x False True)
    next
      case ge: False
      show ?thesis
        by (rule exI [of _ fl], rule exI [of _ rest], rule exI [of _ "x # pre"])
           (simp add: x False ge i)
    qed
  qed
qed

text \<open>What the scan over the links returns.\<close>

lemma scan_le:
  "lowestExpiration_scan i ptrs low sel = (low', sel') \<Longrightarrow> low' \<le> low"
proof (induction ptrs arbitrary: low sel)
  case Nil
  then show ?case by simp
next
  case (Cons p ptrs)
  obtain l0 a0 where p: "p = (l0, a0)" by (cases p) auto
  show ?case
  proof (cases "a0 i")
    case Nil
    with Cons p show ?thesis by simp
  next
    case c: (Cons x xs)
    obtain e0 f0 where x: "x = (e0, f0)" by (cases x) auto
    show ?thesis
    proof (cases "low > e0")
      case True
      with Cons.prems p c x
      have "lowestExpiration_scan i ptrs e0 (Some (l0, e0, f0)) = (low', sel')" by simp
      from Cons.IH [OF this] True show ?thesis by simp
    next
      case False
      with Cons.prems p c x
      have "lowestExpiration_scan i ptrs low sel = (low', sel')" by simp
      from Cons.IH [OF this] show ?thesis .
    qed
  qed
qed

lemma scan_min:
  "lowestExpiration_scan i ptrs low sel = (low', sel') \<Longrightarrow>
   (l, a) \<in> set ptrs \<Longrightarrow> a i = (e, fl) # rest \<Longrightarrow> low' \<le> e"
proof (induction ptrs arbitrary: low sel)
  case Nil
  then show ?case by simp
next
  case (Cons p ptrs)
  obtain l0 a0 where p: "p = (l0, a0)" by (cases p) auto
  show ?case
  proof (cases "a0 i")
    case Nil
    with Cons.prems p have s: "lowestExpiration_scan i ptrs low sel = (low', sel')"
      and m: "(l, a) \<in> set ptrs" by auto
    from Cons.IH [OF s m Cons.prems(3)] show ?thesis .
  next
    case c: (Cons x xs)
    obtain e0 f0 where x: "x = (e0, f0)" by (cases x) auto
    show ?thesis
    proof (cases "low > e0")
      case True
      with Cons.prems p c x
      have s: "lowestExpiration_scan i ptrs e0 (Some (l0, e0, f0)) = (low', sel')" by simp
      show ?thesis
      proof (cases "(l, a) \<in> set ptrs")
        case True
        from Cons.IH [OF s True Cons.prems(3)] show ?thesis .
      next
        case False
        with Cons.prems(2) p have "l = l0" "a = a0" by auto
        with Cons.prems(3) c x have "e = e0" by simp
        with scan_le [OF s] show ?thesis by simp
      qed
    next
      case False
      with Cons.prems p c x
      have s: "lowestExpiration_scan i ptrs low sel = (low', sel')" by simp
      show ?thesis
      proof (cases "(l, a) \<in> set ptrs")
        case True
        from Cons.IH [OF s True Cons.prems(3)] show ?thesis .
      next
        case nm: False
        with Cons.prems(2) p have "l = l0" "a = a0" by auto
        with Cons.prems(3) c x have "e = e0" by simp
        with scan_le [OF s] False show ?thesis by simp
      qed
    qed
  qed
qed

lemma scan_sel:
  "lowestExpiration_scan i ptrs low sel = (low', sel') \<Longrightarrow>
   low' = low \<and> sel' = sel
   \<or> low' < low \<and> (\<exists>l a fl rest. (l, a) \<in> set ptrs \<and> a i = (low', fl) # rest
                       \<and> sel' = Some (l, low', fl))"
proof (induction ptrs arbitrary: low sel)
  case Nil
  then show ?case by simp
next
  case (Cons p ptrs)
  obtain l0 a0 where p: "p = (l0, a0)" by (cases p) auto
  show ?case
  proof (cases "a0 i")
    case Nil
    with Cons.prems p have "lowestExpiration_scan i ptrs low sel = (low', sel')" by simp
    from Cons.IH [OF this] show ?thesis by auto
  next
    case c: (Cons x xs)
    obtain e0 f0 where x: "x = (e0, f0)" by (cases x) auto
    show ?thesis
    proof (cases "low > e0")
      case True
      with Cons.prems p c x
      have "lowestExpiration_scan i ptrs e0 (Some (l0, e0, f0)) = (low', sel')" by simp
      from Cons.IH [OF this]
      have "low' = e0 \<and> sel' = Some (l0, e0, f0)
            \<or> low' < e0 \<and> (\<exists>l a fl rest. (l, a) \<in> set ptrs \<and> a i = (low', fl) # rest
                       \<and> sel' = Some (l, low', fl))" .
      then show ?thesis
      proof
        assume "low' = e0 \<and> sel' = Some (l0, e0, f0)"
        with True p c x show ?thesis by auto
      next
        assume h: "low' < e0 \<and> (\<exists>l a fl rest. (l, a) \<in> set ptrs \<and> a i = (low', fl) # rest
                       \<and> sel' = Some (l, low', fl))"
        then have "low' < e0" by blast
        with True have "low' < low" by (meson less_trans)
        with h show ?thesis by auto
      qed
    next
      case False
      with Cons.prems p c x
      have "lowestExpiration_scan i ptrs low sel = (low', sel')" by simp
      from Cons.IH [OF this] show ?thesis by auto
    qed
  qed
qed

text \<open>A chain cataloged under the expiration \<open>UINT64_MAX\<close> is never selected.\<close>

lemma scan_never_selects_max:
  "lowestExpiration_scan i ptrs UINT64_MAX None = (low', Some (l, e, fl)) \<Longrightarrow> e < UINT64_MAX"
  using scan_sel [of i ptrs UINT64_MAX None low' "Some (l, e, fl)"] by auto


lemma priorityArrayPtrs_mem':
  "(l, a) \<in> set (priorityArrayPtrs dm links) \<Longrightarrow> l \<in> set links \<and> dm l = Some a"
  by (auto simp: priorityArrayPtrs_def split: option.splits)

lemma priorityArrayPtrs_intro:
  "l \<in> set links \<Longrightarrow> dm l = Some a \<Longrightarrow> (l, a) \<in> set (priorityArrayPtrs dm links)"
  by (auto simp: priorityArrayPtrs_def split: option.splits)

lemma PopTop_priorities_stuck:
  assumes "\<And>l a i e fl rest. (l, a) \<in> set ptrs \<Longrightarrow> i < n \<Longrightarrow> a i = (e, fl) # rest
             \<Longrightarrow> e = UINT64_MAX"
  shows "\<exists>session'. PopTop_priorities n ptrs st session = Inr (0, st, session')"
  using assms
proof (induction n arbitrary: session)
  case 0
  then show ?case by simp
next
  case (Suc i)
  let ?s0 = "session\<lparr>r_expirationMapPtr := None, r_chainInfoFlistPtr := None\<rparr>"
  obtain low' sel' where sc: "lowestExpiration_scan i ptrs UINT64_MAX None = (low', sel')"
    by (cases "lowestExpiration_scan i ptrs UINT64_MAX None") auto
  have "sel' = None"
  proof (rule ccontr)
    assume "sel' \<noteq> None"
    with scan_sel [OF sc] obtain l a fl rest where
      "low' < UINT64_MAX" "(l, a) \<in> set ptrs" "a i = (low', fl) # rest" by auto
    with Suc.prems [of l a i low' fl rest] show False by simp
  qed
  then have n: "snd (lowestExpiration_scan i ptrs UINT64_MAX None) = None" using sc by simp
  have "\<exists>session'. PopTop_priorities i ptrs st ?s0 = Inr (0, st, session')"
  proof (rule Suc.IH)
    fix l a j e fl rest assume "(l, a) \<in> set ptrs" "j < i" "a j = (e, fl) # rest"
    then show "e = UINT64_MAX" using Suc.prems [of l a j e fl rest] by simp
  qed
  with n show ?case by (simp add: Let_def)
qed

text \<open>Chains cataloged under the expiration \<open>UINT64_MAX\<close> stay where they are: when the
  earliest expiration of every listed link at every priority is \<open>UINT64_MAX\<close>, \<open>PopTop\<close>
  returns 0 and leaves the state as it is.\<close>

lemma PopTop_expiration_max_is_stuck:
  assumes "\<And>l a i e fl rest. l \<in> set availableDestLinks \<Longrightarrow> m_destMap st l = Some a
             \<Longrightarrow> i < NUMBER_OF_PRIORITIES \<Longrightarrow> a i = (e, fl) # rest \<Longrightarrow> e = UINT64_MAX"
  shows "\<exists>session'. PopTop st session availableDestLinks = Inr (0, st, session')"
  unfolding PopTop_def
proof (rule PopTop_priorities_stuck)
  fix l a i e fl rest
  assume "(l, a) \<in> set (priorityArrayPtrs (m_destMap st) availableDestLinks)"
    "i < NUMBER_OF_PRIORITIES" "a i = (e, fl) # rest"
  then show "e = UINT64_MAX" using assms [of l a i e fl rest] priorityArrayPtrs_mem' by fastforce
qed

text \<open>The loop over the priorities passes over the priorities at which no listed link
  has a chain.\<close>

lemma PopTop_priorities_skip:
  assumes "i \<le> n"
    and "\<And>l a j. (l, a) \<in> set ptrs \<Longrightarrow> i \<le> j \<Longrightarrow> j < n \<Longrightarrow> a j = []"
  shows "\<exists>s. PopTop_priorities n ptrs st session = PopTop_priorities i ptrs st s
             \<and> r_chainInfo s = r_chainInfo session"
  using assms
proof (induction n arbitrary: session)
  case 0
  then show ?case by auto
next
  case (Suc n)
  show ?case
  proof (cases "i = Suc n")
    case True
    then show ?thesis by auto
  next
    case False
    with Suc.prems(1) have le: "i \<le> n" by simp
    let ?s0 = "session\<lparr>r_expirationMapPtr := None, r_chainInfoFlistPtr := None\<rparr>"
    have "\<forall>(l, a) \<in> set ptrs. a n = []" using Suc.prems(2) le by auto
    from scan_none [OF this]
    have n: "snd (lowestExpiration_scan n ptrs UINT64_MAX None) = None" by simp
    have "\<exists>s. PopTop_priorities n ptrs st ?s0 = PopTop_priorities i ptrs st s
               \<and> r_chainInfo s = r_chainInfo ?s0"
    proof (rule Suc.IH [OF le])
      fix l a j assume "(l, a) \<in> set ptrs" "i \<le> j" "j < n"
      then show "a j = []" using Suc.prems(2) [of l a j] by simp
    qed
    with n show ?thesis by (simp add: Let_def)
  qed
qed

text \<open>The pop order. At the highest priority at which a listed link has a chain, with
  every expiration there below \<open>UINT64_MAX\<close>, \<open>PopTop\<close> detaches the front chain of the
  list at the head of the expiration map of a listed link, and no expiration of a listed
  link at that priority is earlier.\<close>

lemma PopTop_order:
  assumes i: "i < NUMBER_OF_PRIORITIES"
    and higher: "\<And>l a j. l \<in> set availableDestLinks \<Longrightarrow> m_destMap st l = Some a \<Longrightarrow> i < j
                   \<Longrightarrow> j < NUMBER_OF_PRIORITIES \<Longrightarrow> a j = []"
    and some: "l0 \<in> set availableDestLinks" "m_destMap st l0 = Some a0" "a0 i = (e0, fl0) # rest0"
      "e0 < UINT64_MAX"
    and sorted: "\<And>l a. l \<in> set availableDestLinks \<Longrightarrow> m_destMap st l = Some a
                   \<Longrightarrow> expirationMap_sorted (a i)"
    and nonempty: "\<And>l a e fl. l \<in> set availableDestLinks \<Longrightarrow> m_destMap st l = Some a
                   \<Longrightarrow> (e, fl) \<in> set (a i) \<Longrightarrow> fl \<noteq> []"
  shows "\<exists>l a e c fl rest s'.
           PopTop st session availableDestLinks
             = Inr (fst c,
                    st\<lparr>m_destMap := (m_destMap st)
                         (l \<mapsto> a(i := (if fl = [] then rest else (e, fl) # rest)))\<rparr>, s')
           \<and> l \<in> set availableDestLinks \<and> m_destMap st l = Some a
           \<and> a i = (e, c # fl) # rest
           \<and> r_chainInfo s' = c \<and> r_priorityIndex s' = i \<and> r_absExpiration s' = e
           \<and> r_destLinkId s' = l
           \<and> (\<forall>l' a' e' fl'. l' \<in> set availableDestLinks \<and> m_destMap st l' = Some a'
                  \<and> (e', fl') \<in> set (a' i) \<longrightarrow> e \<le> e')"
proof -
  let ?ptrs = "priorityArrayPtrs (m_destMap st) availableDestLinks"
  let ?s = "session\<lparr>r_nextLogicalSegment := 0, r_nextLogicalSegmentToCache := 0,
                r_cacheReadIndex := 0, r_cacheWriteIndex := 0\<rparr>"
  have "\<exists>s. PopTop_priorities NUMBER_OF_PRIORITIES ?ptrs st ?s = PopTop_priorities (Suc i) ?ptrs st s
             \<and> r_chainInfo s = r_chainInfo ?s"
  proof (rule PopTop_priorities_skip)
    show "Suc i \<le> NUMBER_OF_PRIORITIES" using i by simp
  next
    fix l a j assume "(l, a) \<in> set ?ptrs" "Suc i \<le> j" "j < NUMBER_OF_PRIORITIES"
    then show "a j = []" using higher [of l a j] priorityArrayPtrs_mem' by fastforce
  qed
  then obtain s where sk: "PopTop st session availableDestLinks = PopTop_priorities (Suc i) ?ptrs st s"
    by (auto simp: PopTop_def)
  obtain low' sel' where sc: "lowestExpiration_scan i ?ptrs UINT64_MAX None = (low', sel')"
    by (cases "lowestExpiration_scan i ?ptrs UINT64_MAX None") auto
  have m0: "(l0, a0) \<in> set ?ptrs" using some(1,2) by (rule priorityArrayPtrs_intro)
  from scan_min [OF sc m0 some(3)] some(4) have "low' < UINT64_MAX" by simp
  with scan_sel [OF sc] obtain l a fl rest where
    la: "(l, a) \<in> set ?ptrs" and ai: "a i = (low', fl) # rest" and sel: "sel' = Some (l, low', fl)"
    by auto
  from la have l: "l \<in> set availableDestLinks" "m_destMap st l = Some a"
    using priorityArrayPtrs_mem' by fastforce+
  have "fl \<noteq> []" using nonempty [OF l, of low' fl] ai by simp
  then obtain c remaining where fl: "fl = c # remaining" by (cases fl) auto
  let ?s0 = "s\<lparr>r_expirationMapPtr := None, r_chainInfoFlistPtr := None\<rparr>"
  let ?s' = "?s0\<lparr>r_expirationMapPtr := Some (l, i), r_chainInfoFlistPtr := Some (l, i, low'),
                  r_absExpiration := low', r_destLinkId := l, r_priorityIndex := i,
                  r_chainInfo := c\<rparr>"
  have r: "PopTop st session availableDestLinks
             = Inr (fst c,
                    st\<lparr>m_destMap := (m_destMap st)
                         (l \<mapsto> a(i := (if remaining = [] then rest else (low', remaining) # rest)))\<rparr>,
                    ?s')"
    using sk sc sel fl ai l by (simp add: Let_def destMap_index_def)
  have min: "\<forall>l' a' e' fl'. l' \<in> set availableDestLinks \<and> m_destMap st l' = Some a'
                  \<and> (e', fl') \<in> set (a' i) \<longrightarrow> low' \<le> e'"
  proof (intro allI impI)
    fix l' a' e' fl'
    assume h: "l' \<in> set availableDestLinks \<and> m_destMap st l' = Some a' \<and> (e', fl') \<in> set (a' i)"
    then have m: "(l', a') \<in> set ?ptrs" using priorityArrayPtrs_intro by blast
    from h obtain x xs where c: "a' i = x # xs" by (cases "a' i") auto
    obtain e1 f1 where x: "x = (e1, f1)" by (cases x) auto
    from scan_min [OF sc m] c x have le: "low' \<le> e1" by simp
    have "expirationMap_sorted (a' i)" using sorted h by blast
    with c x have "\<forall>k \<in> fst ` set xs. e1 < k" by (auto simp: expirationMap_sorted_def)
    with h c x have "e1 \<le> e'" by force
    with le show "low' \<le> e'" by simp
  qed
  show ?thesis
    apply (rule exI [of _ l], rule exI [of _ a], rule exI [of _ low'], rule exI [of _ c])
    apply (rule exI [of _ remaining], rule exI [of _ rest], rule exI [of _ ?s'])
    using r l ai fl min apply simp
    done
qed

lemma push_front_nonempty:
  "\<forall>(e', fl) \<in> set m. fl \<noteq> [] \<Longrightarrow> \<forall>(e', fl) \<in> set (expirationMap_push_front m e c). fl \<noteq> []"
  by (induction m) (auto split: if_splits)

lemma catalog_push_front_wf:
  assumes "catalog_wf dm"
  shows "catalog_wf (catalog_push_front dm d p e c)"
  unfolding catalog_wf_def
proof (intro allI impI)
  fix d' a i e' l
  assume h: "catalog_push_front dm d p e c d' = Some a \<and> i < NUMBER_OF_PRIORITIES \<and> (e', l) \<in> set (a i)"
  show "l \<noteq> []"
  proof (cases "d' = d \<and> i = p")
    case True
    have "\<forall>(e', fl) \<in> set (destMap_index dm d p). fl \<noteq> []"
    proof (cases "dm d")
      case None
      then show ?thesis by (simp add: destMap_index_def)
    next
      case (Some x)
      have "\<And>e' fl. (e', fl) \<in> set (x p) \<Longrightarrow> fl \<noteq> []"
        using assms Some h True unfolding catalog_wf_def by blast
      with Some show ?thesis by (auto simp: destMap_index_def)
    qed
    from push_front_nonempty [OF this, of e c] h True show ?thesis
      by (auto simp: catalog_push_front_def Let_def)
  next
    case False
    with h have "d' \<noteq> d \<and> dm d' = Some a
        \<or> d' = d \<and> (a i = [] \<or> (\<exists>x. dm d = Some x \<and> a i = x i))"
      by (auto simp: catalog_push_front_def Let_def destMap_index_def
          split: option.splits if_splits)
    with h assms show ?thesis unfolding catalog_wf_def by (metis empty_iff list.set(1))
  qed
qed

lemma catalog_push_front_ordered:
  assumes "catalog_ordered dm"
  shows "catalog_ordered (catalog_push_front dm d p e c)"
  unfolding catalog_ordered_def
proof (intro allI impI)
  fix d' a i
  assume h: "catalog_push_front dm d p e c d' = Some a \<and> i < NUMBER_OF_PRIORITIES"
  show "expirationMap_sorted (a i)"
  proof (cases "d' = d \<and> i = p")
    case True
    have "expirationMap_sorted (destMap_index dm d p)"
      using assms h True
      by (auto simp: catalog_ordered_def destMap_index_def expirationMap_sorted_def split: option.splits)
    from push_front_sorted [OF this, of e c] h True show ?thesis
      by (auto simp: catalog_push_front_def Let_def)
  next
    case False
    with h have "d' \<noteq> d \<and> dm d' = Some a
        \<or> d' = d \<and> (a i = [] \<or> (\<exists>x. dm d = Some x \<and> a i = x i))"
      by (auto simp: catalog_push_front_def Let_def destMap_index_def
          split: option.splits if_splits)
    moreover have "expirationMap_sorted []" by (simp add: expirationMap_sorted_def)
    ultimately show ?thesis using h assms unfolding catalog_ordered_def by metis
  qed
qed

text \<open>The catalog keeps its shape: \<open>PushSegment\<close> and \<open>PopTop\<close> leave every expiration map
  in strictly ascending order and without empty lists.\<close>

lemma PushSegment_keeps_catalog:
  assumes "PushSegment P st session buf slot = Inr (n, st', session')"
    and "catalog_wf (m_destMap st)" and "catalog_ordered (m_destMap st)"
  shows "catalog_wf (m_destMap st') \<and> catalog_ordered (m_destMap st')"
proof -
  from assms(1) have "m_destMap st' = m_destMap st
      \<or> m_destMap st' = catalog_push_front (m_destMap st) (destLinkId session)
            (priorityIndex session) (absExpiration session) (chainInfo session)"
    by (auto simp: PushSegment_def Let_def split: if_splits)
  then show ?thesis
  proof
    assume "m_destMap st' = m_destMap st"
    with assms(2,3) show ?thesis by simp
  next
    assume "m_destMap st' = catalog_push_front (m_destMap st) (destLinkId session)
            (priorityIndex session) (absExpiration session) (chainInfo session)"
    with catalog_push_front_wf [OF assms(2)] catalog_push_front_ordered [OF assms(3)]
    show ?thesis by simp
  qed
qed

lemma PopTop_keeps_catalog:
  assumes "PopTop st session availableDestLinks = Inr (n, st', session')"
    and "catalog_wf (m_destMap st)" and "catalog_ordered (m_destMap st)"
  shows "catalog_wf (m_destMap st') \<and> catalog_ordered (m_destMap st')"
proof -
  let ?ptrs = "priorityArrayPtrs (m_destMap st) availableDestLinks"
  have p: "PopTop_priorities NUMBER_OF_PRIORITIES ?ptrs st
             (session\<lparr>r_nextLogicalSegment := 0, r_nextLogicalSegmentToCache := 0,
                r_cacheReadIndex := 0, r_cacheWriteIndex := 0\<rparr>) = Inr (n, st', session')"
    using assms(1) by (simp add: PopTop_def)
  have "\<And>k s. k \<le> NUMBER_OF_PRIORITIES \<Longrightarrow> PopTop_priorities k ?ptrs st s = Inr (n, st', session')
          \<Longrightarrow> catalog_wf (m_destMap st') \<and> catalog_ordered (m_destMap st')"
  proof -
    fix k s
    show "k \<le> NUMBER_OF_PRIORITIES \<Longrightarrow> PopTop_priorities k ?ptrs st s = Inr (n, st', session')
          \<Longrightarrow> catalog_wf (m_destMap st') \<and> catalog_ordered (m_destMap st')"
    proof (induction k arbitrary: s)
      case 0
      with assms(2,3) show ?case by simp
    next
      case (Suc i)
      let ?s0 = "s\<lparr>r_expirationMapPtr := None, r_chainInfoFlistPtr := None\<rparr>"
      show ?case
      proof (cases "snd (lowestExpiration_scan i ?ptrs UINT64_MAX None)")
        case None
        with Suc.prems(2) have "PopTop_priorities i ?ptrs st ?s0 = Inr (n, st', session')"
          by (simp add: Let_def)
        with Suc.IH Suc.prems(1) show ?thesis by simp
      next
        case (Some t)
        obtain l e fl where t: "t = (l, e, fl)" by (cases t) auto
        obtain low' where sc: "lowestExpiration_scan i ?ptrs UINT64_MAX None = (low', Some (l, e, fl))"
          using Some t by (cases "lowestExpiration_scan i ?ptrs UINT64_MAX None") auto
        from scan_selected [OF sc] obtain a rest where a: "(l, a) \<in> set ?ptrs" "a i = (e, fl) # rest"
          by auto
        then have da: "m_destMap st l = Some a" using priorityArrayPtrs_mem' by fastforce
        have i: "i < NUMBER_OF_PRIORITIES" using Suc.prems(1) by simp
        have srt: "expirationMap_sorted ((e, fl) # rest)"
          using assms(3) da i a(2) unfolding catalog_ordered_def by metis
        have ne: "\<forall>(e', l') \<in> set ((e, fl) # rest). l' \<noteq> []"
          using assms(2) da i a(2) unfolding catalog_wf_def by (metis (mono_tags, lifting) case_prodI2)
        then obtain c remaining where fl: "fl = c # remaining" by (cases fl) auto
        let ?m' = "if remaining = [] then rest else (e, remaining) # rest"
        have st': "m_destMap st' = (m_destMap st)(l \<mapsto> a(i := ?m'))"
          using Suc.prems(2) Some t fl a(2) da by (auto simp: Let_def destMap_index_def)
        have srt': "expirationMap_sorted ?m'" using srt by (auto simp: expirationMap_sorted_def)
        have ne': "\<forall>(e', l') \<in> set ?m'. l' \<noteq> []" using ne fl by auto
        have "catalog_wf (m_destMap st')"
          unfolding catalog_wf_def st'
        proof (intro allI impI)
          fix d a' j e' l'
          assume h: "((m_destMap st)(l \<mapsto> a(i := ?m'))) d = Some a' \<and> j < NUMBER_OF_PRIORITIES
                      \<and> (e', l') \<in> set (a' j)"
          show "l' \<noteq> []"
          proof (cases "d = l \<and> j = i")
            case True
            with h have "(e', l') \<in> set ?m'" by auto
            with ne' show ?thesis by blast
          next
            case False
            with h have "d \<noteq> l \<and> m_destMap st d = Some a' \<or> d = l \<and> a' j = a j"
              by (cases "d = l") (auto split: if_splits)
            with h assms(2) da show ?thesis unfolding catalog_wf_def by metis
          qed
        qed
        moreover have "catalog_ordered (m_destMap st')"
          unfolding catalog_ordered_def st'
        proof (intro allI impI)
          fix d a' j
          assume h: "((m_destMap st)(l \<mapsto> a(i := ?m'))) d = Some a' \<and> j < NUMBER_OF_PRIORITIES"
          show "expirationMap_sorted (a' j)"
          proof (cases "d = l \<and> j = i")
            case True
            with h srt' show ?thesis by auto
          next
            case False
            with h have "d \<noteq> l \<and> m_destMap st d = Some a' \<or> d = l \<and> a' j = a j"
              by (cases "d = l") (auto split: if_splits)
            with h assms(3) da show ?thesis unfolding catalog_ordered_def by metis
          qed
        qed
        ultimately show ?thesis by simp
      qed
    qed
  qed
  from this [OF _ p] show ?thesis by simp
qed

lemma empty_store_catalog:
  "catalog_wf (m_destMap (empty_store n)) \<and> catalog_ordered (m_destMap (empty_store n))"
  by (simp add: catalog_wf_def catalog_ordered_def empty_store_def)

text \<open>The pop order on a catalog of that shape: only the expiration \<open>UINT64_MAX\<close> stands
  in the way.\<close>

lemma PopTop_order_on_catalog:
  assumes "catalog_wf (m_destMap st)" and "catalog_ordered (m_destMap st)"
    and i: "i < NUMBER_OF_PRIORITIES"
    and higher: "\<And>l a j. l \<in> set availableDestLinks \<Longrightarrow> m_destMap st l = Some a \<Longrightarrow> i < j
                   \<Longrightarrow> j < NUMBER_OF_PRIORITIES \<Longrightarrow> a j = []"
    and some: "l0 \<in> set availableDestLinks" "m_destMap st l0 = Some a0" "a0 i = (e0, fl0) # rest0"
      "e0 < UINT64_MAX"
  shows "\<exists>l a e c fl rest s'.
           PopTop st session availableDestLinks
             = Inr (fst c,
                    st\<lparr>m_destMap := (m_destMap st)
                         (l \<mapsto> a(i := (if fl = [] then rest else (e, fl) # rest)))\<rparr>, s')
           \<and> l \<in> set availableDestLinks \<and> m_destMap st l = Some a
           \<and> a i = (e, c # fl) # rest
           \<and> r_chainInfo s' = c \<and> r_priorityIndex s' = i \<and> r_absExpiration s' = e
           \<and> r_destLinkId s' = l
           \<and> (\<forall>l' a' e' fl'. l' \<in> set availableDestLinks \<and> m_destMap st l' = Some a'
                  \<and> (e', fl') \<in> set (a' i) \<longrightarrow> e \<le> e')"
proof (rule PopTop_order [where ?l0.0 = l0 and ?a0.0 = a0 and ?e0.0 = e0 and ?fl0.0 = fl0
      and ?rest0.0 = rest0])
  show "i < NUMBER_OF_PRIORITIES" by (rule i)
next
  fix l a j assume "l \<in> set availableDestLinks" "m_destMap st l = Some a" "i < j"
    "j < NUMBER_OF_PRIORITIES"
  then show "a j = []" by (rule higher)
next
  show "l0 \<in> set availableDestLinks" "m_destMap st l0 = Some a0" "a0 i = (e0, fl0) # rest0"
    "e0 < UINT64_MAX" by (rule some)+
next
  fix l a assume "l \<in> set availableDestLinks" "m_destMap st l = Some a"
  with assms(2) i show "expirationMap_sorted (a i)" unfolding catalog_ordered_def by blast
next
  fix l a e fl assume "l \<in> set availableDestLinks" "m_destMap st l = Some a" "(e, fl) \<in> set (a i)"
  with assms(1) i show "fl \<noteq> []" unfolding catalog_wf_def by blast
qed

end
